theory Spec2Isabelle
  imports Complex_Main
begin

section \<open>Tensors and framework errors\<close>

text \<open>
  The networks of \<^verbatim>\<open>networks.py\<close> are compositions of layers of the tensor
  framework. A tensor is modelled as its four sizes (batch, channels, height, width: the
  values of \<^verbatim>\<open>x.size()[0..3]\<close>) together with an indexing function; tensors with
  another number of axes are not modelled. Elements are real numbers: rounding of
  floating-point arithmetic is not modelled. Every failure the
  framework raises (a \<^verbatim>\<open>RuntimeError\<close> or \<^verbatim>\<open>ValueError\<close>) is a value of the
  type \<open>error\<close>, and every operation returns \<open>error + tensor\<close>.
\<close>

datatype error =
    NegativeDimension          \<comment> \<open>a parameter tensor with a negative size, at construction\<close>
  | WeightTooSmall             \<comment> \<open>convolution whose weight has size 0 in dimension 0\<close>
  | ChannelMismatch nat nat    \<comment> \<open>convolution: channels expected, channels received\<close>
  | KernelTooLarge             \<comment> \<open>kernel larger than the padded input\<close>
  | PoolTooSmall               \<comment> \<open>pooling whose output would be empty\<close>
  | EmptyInput                 \<comment> \<open>an operation that needs non-empty channel or spatial sizes\<close>
  | BatchTooSmall              \<comment> \<open>batch normalisation in training mode on one value per channel\<close>
  | FeatureMismatch            \<comment> \<open>batch normalisation on a wrong number of channels\<close>
  | CatMismatch                \<comment> \<open>concatenation of tensors whose other sizes differ\<close>
  | BroadcastMismatch          \<comment> \<open>elementwise product of shapes that do not broadcast\<close>
  | NegativePad                \<comment> \<open>negative padding that removes more than there is\<close>
  | EmptyWeight                \<comment> \<open>transposed convolution whose weight has no elements\<close>
  | IndexOutOfRange            \<comment> \<open>element 0 of a parameter tensor that has no element\<close>

record tensor =
  size0 :: nat
  size1 :: nat
  size2 :: nat
  size3 :: nat
  elem :: "nat \<Rightarrow> nat \<Rightarrow> nat \<Rightarrow> nat \<Rightarrow> real"

definition shape :: "tensor \<Rightarrow> nat \<times> nat \<times> nat \<times> nat" where
  "shape x = (size0 x, size1 x, size2 x, size3 x)"

definition bind :: "error + 'a \<Rightarrow> ('a \<Rightarrow> error + 'b) \<Rightarrow> error + 'b" where
  "bind r f = (case r of Inl e \<Rightarrow> Inl e | Inr y \<Rightarrow> f y)"

definition pointwise :: "(real \<Rightarrow> real) \<Rightarrow> tensor \<Rightarrow> tensor" where
  "pointwise f x = x\<lparr>elem := (\<lambda>n c h w. f (elem x n c h w))\<rparr>"

section \<open>Layers of the framework\<close>

subsection \<open>Activations\<close>

definition relu :: "real \<Rightarrow> real" where
  "relu v = max 0 v"

definition leaky_relu :: "real \<Rightarrow> real \<Rightarrow> real" where
  "leaky_relu slope v = (if 0 \<le> v then v else slope * v)"

definition sigmoid :: "real \<Rightarrow> real" where
  "sigmoid v = 1 / (1 + exp (- v))"

subsection \<open>Conv2d\<close>

text \<open>
  \<^verbatim>\<open>nn.Conv2d(in_channels, out_channels, kernel_size, padding, bias=True)\<close> with stride 1.
  The constructor allocates a weight of size (out, in, k, k) and a bias of size out; a
  negative size makes the allocation fail. The weights themselves (random at
  construction, learned later) are an argument.

  The forward pass checks, in this order, that the weight has at least one output
  channel, that the input has the declared number of channels, and that the kernel fits
  into the padded input. An input without elements is accepted only if it has no batch
  or no channel. A layer declared with no input channel accepts an input without
  channels; the framework then returns a tensor that has no channel either, whatever
  number of output channels was declared.
\<close>

record conv2d =
  in_channels :: nat
  out_channels :: nat
  kernel_size :: nat
  padding :: nat
  weight :: "nat \<Rightarrow> nat \<Rightarrow> nat \<Rightarrow> nat \<Rightarrow> real"
  bias :: "nat \<Rightarrow> real"

type_synonym conv_w = "(nat \<Rightarrow> nat \<Rightarrow> nat \<Rightarrow> nat \<Rightarrow> real) \<times> (nat \<Rightarrow> real)"

definition Conv2d_init :: "int \<Rightarrow> int \<Rightarrow> nat \<Rightarrow> nat \<Rightarrow> conv_w \<Rightarrow> error + conv2d" where
  "Conv2d_init i o' k p wb =
     (if i < 0 \<or> o' < 0 then Inl NegativeDimension
      else Inr \<lparr>in_channels = nat i, out_channels = nat o', kernel_size = k, padding = p,
                weight = fst wb, bias = snd wb\<rparr>)"

definition padded :: "tensor \<Rightarrow> nat \<Rightarrow> nat \<Rightarrow> nat \<Rightarrow> nat \<Rightarrow> nat \<Rightarrow> real" where
  "padded x p n c i j =
     (if p \<le> i \<and> i < size2 x + p \<and> p \<le> j \<and> j < size3 x + p
      then elem x n c (i - p) (j - p) else 0)"

definition Conv2d_forward :: "conv2d \<Rightarrow> tensor \<Rightarrow> error + tensor" where
  "Conv2d_forward cv x =
     (if out_channels cv < 1 then Inl WeightTooSmall
      else if size1 x \<noteq> in_channels cv then Inl (ChannelMismatch (in_channels cv) (size1 x))
      else if size2 x + 2 * padding cv < kernel_size cv
            \<or> size3 x + 2 * padding cv < kernel_size cv then Inl KernelTooLarge
      else if size0 x \<noteq> 0 \<and> size1 x \<noteq> 0 \<and> (size2 x = 0 \<or> size3 x = 0) then Inl EmptyInput
      else Inr \<lparr>size0 = size0 x, size1 = (if size1 x = 0 then 0 else out_channels cv),
                size2 = size2 x + 2 * padding cv + 1 - kernel_size cv,
                size3 = size3 x + 2 * padding cv + 1 - kernel_size cv,
                elem = (\<lambda>n co h w. bias cv co +
                   (\<Sum>ci<in_channels cv. \<Sum>kh<kernel_size cv. \<Sum>kw<kernel_size cv.
                      weight cv co ci kh kw * padded x (padding cv) n ci (h + kh) (w + kw)))\<rparr>)"

subsection \<open>ConvTranspose2d\<close>

text \<open>
  \<^verbatim>\<open>nn.ConvTranspose2d(in_channels, out_channels, kernel_size=2, stride=2)\<close>: the weight
  has size (in, out, 2, 2). Each input pixel is spread over its own 2x2 block of the
  output, so blocks do not overlap.

  The forward pass checks that the weight has at least one input channel and that the
  input has the declared number of channels. An input with an empty spatial extent is
  refused unless its batch is empty too. A weight without output channels has no
  elements, and the framework refuses it for every input.
\<close>

record convtranspose2d =
  ct_in_channels :: nat
  ct_out_channels :: nat
  ct_weight :: "nat \<Rightarrow> nat \<Rightarrow> nat \<Rightarrow> nat \<Rightarrow> real"
  ct_bias :: "nat \<Rightarrow> real"

definition ConvTranspose2d_init :: "int \<Rightarrow> int \<Rightarrow> conv_w \<Rightarrow> error + convtranspose2d" where
  "ConvTranspose2d_init i o' wb =
     (if i < 0 \<or> o' < 0 then Inl NegativeDimension
      else Inr \<lparr>ct_in_channels = nat i, ct_out_channels = nat o',
                ct_weight = fst wb, ct_bias = snd wb\<rparr>)"

definition ConvTranspose2d_forward :: "convtranspose2d \<Rightarrow> tensor \<Rightarrow> error + tensor" where
  "ConvTranspose2d_forward ct x =
     (if ct_in_channels ct < 1 then Inl WeightTooSmall
      else if size1 x \<noteq> ct_in_channels ct
        then Inl (ChannelMismatch (ct_in_channels ct) (size1 x))
      else if size0 x \<noteq> 0 \<and> (size2 x = 0 \<or> size3 x = 0) then Inl EmptyInput
      else if ct_out_channels ct < 1 then Inl EmptyWeight
      else Inr \<lparr>size0 = size0 x, size1 = ct_out_channels ct,
                size2 = 2 * size2 x, size3 = 2 * size3 x,
                elem = (\<lambda>n co h w. ct_bias ct co +
                   (\<Sum>ci<ct_in_channels ct.
                      elem x n ci (h div 2) (w div 2) * ct_weight ct ci co (h mod 2) (w mod 2)))\<rparr>)"

subsection \<open>BatchNorm2d\<close>

text \<open>
  \<^verbatim>\<open>nn.BatchNorm2d(num_features)\<close> with the default \<^verbatim>\<open>eps\<close>. In training mode the
  layer normalises with the statistics of the batch and refuses an input with a single
  value per channel; in evaluation mode it normalises with its running statistics. The
  update of the running statistics in training mode does not change the tensor returned
  and is left out.

  The check of one value per channel comes first. An input without elements is then
  returned as \<^verbatim>\<open>input.clone() * weight[0] + bias[0]\<close>, before the number of channels is
  compared with \<^verbatim>\<open>num_features\<close>; reading \<^verbatim>\<open>weight[0]\<close> fails when the layer has no
  feature.
\<close>

record batchnorm2d =
  num_features :: nat
  bn_weight :: "nat \<Rightarrow> real"
  bn_bias :: "nat \<Rightarrow> real"
  running_mean :: "nat \<Rightarrow> real"
  running_var :: "nat \<Rightarrow> real"

type_synonym bn_w = "(nat \<Rightarrow> real) \<times> (nat \<Rightarrow> real) \<times> (nat \<Rightarrow> real) \<times> (nat \<Rightarrow> real)"

definition BatchNorm2d_init :: "int \<Rightarrow> bn_w \<Rightarrow> error + batchnorm2d" where
  "BatchNorm2d_init n ps =
     (if n < 0 then Inl NegativeDimension
      else Inr \<lparr>num_features = nat n, bn_weight = fst ps, bn_bias = fst (snd ps),
                running_mean = fst (snd (snd ps)), running_var = snd (snd (snd ps))\<rparr>)"

definition eps :: real where
  "eps = 1 / 100000"

definition batch_mean :: "tensor \<Rightarrow> nat \<Rightarrow> real" where
  "batch_mean x c =
     (\<Sum>n<size0 x. \<Sum>h<size2 x. \<Sum>w<size3 x. elem x n c h w)
       / real (size0 x * size2 x * size3 x)"

definition batch_var :: "tensor \<Rightarrow> nat \<Rightarrow> real" where
  "batch_var x c =
     (\<Sum>n<size0 x. \<Sum>h<size2 x. \<Sum>w<size3 x. (elem x n c h w - batch_mean x c)\<^sup>2)
       / real (size0 x * size2 x * size3 x)"

definition BatchNorm2d_forward :: "bool \<Rightarrow> batchnorm2d \<Rightarrow> tensor \<Rightarrow> error + tensor" where
  "BatchNorm2d_forward training bn x =
     (if training \<and> size0 x * size2 x * size3 x = 1 then Inl BatchTooSmall
      else if size0 x * size1 x * size2 x * size3 x = 0 then
        (if num_features bn = 0 then Inl IndexOutOfRange
         else Inr (x\<lparr>elem := (\<lambda>n c h w. elem x n c h w * bn_weight bn 0 + bn_bias bn 0)\<rparr>))
      else if size1 x \<noteq> num_features bn then Inl FeatureMismatch
      else Inr (x\<lparr>elem := (\<lambda>n c h w.
              (elem x n c h w - (if training then batch_mean x c else running_mean bn c))
                / sqrt ((if training then batch_var x c else running_var bn c) + eps)
                * bn_weight bn c + bn_bias bn c)\<rparr>))"

subsection \<open>Sequential\<close>

text \<open>
  The layers that the source puts into \<^verbatim>\<open>nn.Sequential\<close> containers. No layer of the
  file draws random numbers.
\<close>

datatype layer =
    Conv2d conv2d
  | BatchNorm2d batchnorm2d
  | Identity
  | ReLU
  | LeakyReLU real
  | Sigmoid

fun layer_forward :: "bool \<Rightarrow> layer \<Rightarrow> tensor \<Rightarrow> error + tensor" where
  "layer_forward training (Conv2d cv) x = Conv2d_forward cv x"
| "layer_forward training (BatchNorm2d bn) x = BatchNorm2d_forward training bn x"
| "layer_forward training Identity x = Inr x"
| "layer_forward training ReLU x = Inr (pointwise relu x)"
| "layer_forward training (LeakyReLU slope) x = Inr (pointwise (leaky_relu slope) x)"
| "layer_forward training Sigmoid x = Inr (pointwise sigmoid x)"

fun Sequential :: "bool \<Rightarrow> layer list \<Rightarrow> tensor \<Rightarrow> error + tensor" where
  "Sequential training [] x = Inr x"
| "Sequential training (l # ls) x =
     (case layer_forward training l x of
        Inl e \<Rightarrow> Inl e
      | Inr y \<Rightarrow> Sequential training ls y)"

subsection \<open>Pooling, upsampling, padding, concatenation, product\<close>

text \<open>\<^verbatim>\<open>nn.MaxPool2d(k)\<close>: window and stride k, no padding.\<close>

definition MaxPool2d :: "nat \<Rightarrow> tensor \<Rightarrow> error + tensor" where
  "MaxPool2d k x =
     (if k = 0 \<or> size1 x = 0 then Inl EmptyInput
      else if size2 x < k \<or> size3 x < k then Inl PoolTooSmall
      else Inr \<lparr>size0 = size0 x, size1 = size1 x,
                size2 = (size2 x - k) div k + 1, size3 = (size3 x - k) div k + 1,
                elem = (\<lambda>n c h w.
                   Max ((\<lambda>(i, j). elem x n c (k * h + i) (k * w + j)) ` ({..<k} \<times> {..<k})))\<rparr>)"

text \<open>
  \<^verbatim>\<open>nn.AdaptiveAvgPool2d(1)\<close>: the mean of every channel over its spatial extent. For
  the output size 1 the framework computes \<^verbatim>\<open>x.mean((-1, -2), keepdim=True)\<close>, which
  returns a tensor for every input. Over an empty spatial extent the framework's mean is
  not a number; the quotient below is 0 there, and what the claims state about the
  values of the channel gate is stated for inputs with a non-empty spatial extent.
\<close>

definition AdaptiveAvgPool2d_1 :: "tensor \<Rightarrow> error + tensor" where
  "AdaptiveAvgPool2d_1 x =
     Inr \<lparr>size0 = size0 x, size1 = size1 x, size2 = 1, size3 = 1,
          elem = (\<lambda>n c h w.
             (\<Sum>i<size2 x. \<Sum>j<size3 x. elem x n c i j) / real (size2 x * size3 x))\<rparr>"

text \<open>
  \<^verbatim>\<open>nn.Upsample(scale_factor=2, mode='bilinear', align_corners=True)\<close>: output index
  \<open>d\<close> of an axis reads the source position \<open>d * (n_in - 1) / (n_out - 1)\<close> and
  interpolates linearly between its two neighbours.
\<close>

definition src_pos :: "nat \<Rightarrow> nat \<Rightarrow> nat \<Rightarrow> real" where
  "src_pos n_in n_out d =
     (if 1 < n_out then real d * (real (n_in - 1) / real (n_out - 1)) else 0)"

definition lower :: "nat \<Rightarrow> nat \<Rightarrow> nat \<Rightarrow> nat" where
  "lower n_in n_out d = nat \<lfloor>src_pos n_in n_out d\<rfloor>"

definition upper :: "nat \<Rightarrow> nat \<Rightarrow> nat \<Rightarrow> nat" where
  "upper n_in n_out d =
     (if lower n_in n_out d < n_in - 1 then lower n_in n_out d + 1 else lower n_in n_out d)"

definition lam :: "nat \<Rightarrow> nat \<Rightarrow> nat \<Rightarrow> real" where
  "lam n_in n_out d = src_pos n_in n_out d - real (lower n_in n_out d)"

definition Upsample_bilinear2 :: "tensor \<Rightarrow> error + tensor" where
  "Upsample_bilinear2 x =
     (if size1 x = 0 \<or> size2 x = 0 \<or> size3 x = 0 then Inl EmptyInput
      else Inr \<lparr>size0 = size0 x, size1 = size1 x, size2 = 2 * size2 x, size3 = 2 * size3 x,
                elem = (\<lambda>n c h w.
                   let h0 = lower (size2 x) (2 * size2 x) h; h1 = upper (size2 x) (2 * size2 x) h;
                       w0 = lower (size3 x) (2 * size3 x) w; w1 = upper (size3 x) (2 * size3 x) w;
                       lh = lam (size2 x) (2 * size2 x) h; lw = lam (size3 x) (2 * size3 x) w
                   in (1 - lh) * ((1 - lw) * elem x n c h0 w0 + lw * elem x n c h0 w1)
                      + lh * ((1 - lw) * elem x n c h1 w0 + lw * elem x n c h1 w1))\<rparr>)"

text \<open>
  \<^verbatim>\<open>F.pad(x, [left, right, top, bottom])\<close> with the default constant 0. A negative
  amount crops.
\<close>

definition pad :: "tensor \<Rightarrow> int \<Rightarrow> int \<Rightarrow> int \<Rightarrow> int \<Rightarrow> error + tensor" where
  "pad x pl pr pt pb =
     (if int (size2 x) + pt + pb < 0 \<or> int (size3 x) + pl + pr < 0
      then Inl NegativePad
      else Inr \<lparr>size0 = size0 x, size1 = size1 x,
                size2 = nat (int (size2 x) + pt + pb),
                size3 = nat (int (size3 x) + pl + pr),
                elem = (\<lambda>n c h w.
                   if pt \<le> int h \<and> int h - pt < int (size2 x)
                      \<and> pl \<le> int w \<and> int w - pl < int (size3 x)
                   then elem x n c (nat (int h - pt)) (nat (int w - pl)) else 0)\<rparr>)"

text \<open>\<^verbatim>\<open>torch.cat([a, b], dim=1)\<close>.\<close>

definition cat :: "tensor \<Rightarrow> tensor \<Rightarrow> error + tensor" where
  "cat a b =
     (if size0 a \<noteq> size0 b \<or> size2 a \<noteq> size2 b \<or> size3 a \<noteq> size3 b then Inl CatMismatch
      else Inr \<lparr>size0 = size0 a, size1 = size1 a + size1 b, size2 = size2 a, size3 = size3 a,
                elem = (\<lambda>n c h w.
                   if c < size1 a then elem a n c h w else elem b n (c - size1 a) h w)\<rparr>)"

text \<open>
  \<^verbatim>\<open>x * y\<close> with broadcasting: along every axis the sizes are equal or one of them is
  1, and the operand of size 1 is repeated.
\<close>

definition bsize :: "nat \<Rightarrow> nat \<Rightarrow> nat option" where
  "bsize a b = (if a = b then Some a else if a = 1 then Some b else if b = 1 then Some a
                else None)"

definition bidx :: "nat \<Rightarrow> nat \<Rightarrow> nat" where
  "bidx a i = (if a = 1 then 0 else i)"

definition mul :: "tensor \<Rightarrow> tensor \<Rightarrow> error + tensor" where
  "mul x y =
     (case (bsize (size0 x) (size0 y), bsize (size1 x) (size1 y),
            bsize (size2 x) (size2 y), bsize (size3 x) (size3 y)) of
        (Some n0, Some n1, Some n2, Some n3) \<Rightarrow>
          Inr \<lparr>size0 = n0, size1 = n1, size2 = n2, size3 = n3,
               elem = (\<lambda>n c h w.
                  elem x (bidx (size0 x) n) (bidx (size1 x) c) (bidx (size2 x) h) (bidx (size3 x) w)
                  * elem y (bidx (size0 y) n) (bidx (size1 y) c) (bidx (size2 y) h) (bidx (size3 y) w))\<rparr>
      | _ \<Rightarrow> Inl BroadcastMismatch)"

section \<open>The modules of networks.py\<close>

text \<open>
  Every class of the source is a record of its sub-modules, a constructor \<open>_init\<close> that
  follows \<^verbatim>\<open>__init__\<close> and a function \<open>_forward\<close> that follows \<^verbatim>\<open>forward\<close>. The
  constructors take the weights of their parameter tensors as a last argument. The flag
  \<open>training\<close> is the mode of the module (\<^verbatim>\<open>model.train()\<close> or \<^verbatim>\<open>model.eval()\<close>); a
  freshly constructed module is in training mode.

  The constructors of the model take every argument explicitly. The defaults of the
  source are: \<^verbatim>\<open>DoubleConv(norm=False, leaky=True)\<close>, \<^verbatim>\<open>OutConv(act=True)\<close>,
  \<^verbatim>\<open>Down(norm=True, leaky=True)\<close>, \<^verbatim>\<open>Up(bilinear=True, norm=True, leaky=True)\<close>,
  \<^verbatim>\<open>AttentiveDown(norm=False, leaky=True)\<close>,
  \<^verbatim>\<open>AttentiveUp(bilinear=True, norm=False, leaky=True)\<close> and
  \<^verbatim>\<open>AttentiveDoubleConv(norm=False, leaky=False)\<close>. Python's \<^verbatim>\<open>//\<close> on integers is
  \<open>div\<close> on \<open>int\<close>: both round towards minus infinity.

  The activations are constructed with \<^verbatim>\<open>inplace=True\<close>. Each of them overwrites the
  output of the layer before it, a tensor that nothing else refers to, so the result is
  that of the activation applied out of place.
\<close>

subsection \<open>PALayer\<close>

record PALayer =
  pa :: "layer list"

definition PALayer_init :: "int \<Rightarrow> conv_w \<times> conv_w \<Rightarrow> error + PALayer" where
  "PALayer_init channel ws =
     bind (Conv2d_init channel (channel div 8) 1 0 (fst ws)) (\<lambda>c0.
     bind (Conv2d_init (channel div 8) 1 1 0 (snd ws)) (\<lambda>c2.
     Inr \<lparr>pa = [Conv2d c0, ReLU, Conv2d c2, Sigmoid]\<rparr>))"

definition PALayer_forward :: "bool \<Rightarrow> PALayer \<Rightarrow> tensor \<Rightarrow> error + tensor" where
  "PALayer_forward training self x =
     bind (Sequential training (pa self) x) (\<lambda>y.
     mul x y)"

subsection \<open>CALayer\<close>

record CALayer =
  ca :: "layer list"

definition CALayer_init :: "int \<Rightarrow> conv_w \<times> conv_w \<Rightarrow> error + CALayer" where
  "CALayer_init channel ws =
     bind (Conv2d_init channel (channel div 8) 1 0 (fst ws)) (\<lambda>c0.
     bind (Conv2d_init (channel div 8) channel 1 0 (snd ws)) (\<lambda>c2.
     Inr \<lparr>ca = [Conv2d c0, ReLU, Conv2d c2, Sigmoid]\<rparr>))"

definition CALayer_forward :: "bool \<Rightarrow> CALayer \<Rightarrow> tensor \<Rightarrow> error + tensor" where
  "CALayer_forward training self x =
     bind (AdaptiveAvgPool2d_1 x) (\<lambda>y.
     bind (Sequential training (ca self) y) (\<lambda>y.
     mul x y))"

subsection \<open>DoubleConv\<close>

record DoubleConv =
  conv :: "layer list"

type_synonym dc_w = "conv_w \<times> bn_w \<times> conv_w \<times> bn_w"

definition norm_layer :: "bool \<Rightarrow> int \<Rightarrow> bn_w \<Rightarrow> error + layer" where
  "norm_layer nrm n ps =
     (if nrm then bind (BatchNorm2d_init n ps) (\<lambda>bn. Inr (BatchNorm2d bn)) else Inr Identity)"

definition act_layer :: "bool \<Rightarrow> layer" where
  "act_layer leaky = (if leaky then LeakyReLU (2 / 10) else ReLU)"

definition DoubleConv_init :: "int \<Rightarrow> int \<Rightarrow> bool \<Rightarrow> bool \<Rightarrow> dc_w \<Rightarrow> error + DoubleConv" where
  "DoubleConv_init i o' nrm leaky ws =
     bind (Conv2d_init i o' 3 1 (fst ws)) (\<lambda>c0.
     bind (norm_layer nrm o' (fst (snd ws))) (\<lambda>n1.
     bind (Conv2d_init o' o' 3 1 (fst (snd (snd ws)))) (\<lambda>c3.
     bind (norm_layer nrm o' (snd (snd (snd ws)))) (\<lambda>n4.
     Inr \<lparr>conv = [Conv2d c0, n1, act_layer leaky, Conv2d c3, n4, act_layer leaky]\<rparr>))))"

definition DoubleConv_forward :: "bool \<Rightarrow> DoubleConv \<Rightarrow> tensor \<Rightarrow> error + tensor" where
  "DoubleConv_forward training self x = Sequential training (conv self) x"

subsection \<open>OutConv\<close>

record OutConv =
  oconv :: "layer list"

definition OutConv_init :: "int \<Rightarrow> int \<Rightarrow> bool \<Rightarrow> conv_w \<Rightarrow> error + OutConv" where
  "OutConv_init i o' act ws =
     bind (Conv2d_init i o' 3 1 ws) (\<lambda>c0.
     Inr \<lparr>oconv = [Conv2d c0, if act then Sigmoid else Identity]\<rparr>)"

definition OutConv_forward :: "bool \<Rightarrow> OutConv \<Rightarrow> tensor \<Rightarrow> error + tensor" where
  "OutConv_forward training self x = Sequential training (oconv self) x"

subsection \<open>Down\<close>

text \<open>\<^verbatim>\<open>nn.Sequential(nn.MaxPool2d(2), DoubleConv(...))\<close>.\<close>

record Down =
  maxpool :: nat
  maxpool_conv :: DoubleConv

definition Down_init :: "int \<Rightarrow> int \<Rightarrow> bool \<Rightarrow> bool \<Rightarrow> dc_w \<Rightarrow> error + Down" where
  "Down_init i o' nrm leaky ws =
     bind (DoubleConv_init i o' nrm leaky ws) (\<lambda>dc.
     Inr \<lparr>maxpool = 2, maxpool_conv = dc\<rparr>)"

definition Down_forward :: "bool \<Rightarrow> Down \<Rightarrow> tensor \<Rightarrow> error + tensor" where
  "Down_forward training self x =
     bind (MaxPool2d (maxpool self) x) (\<lambda>y.
     DoubleConv_forward training (maxpool_conv self) y)"

subsection \<open>Up\<close>

datatype upsampler = Upsample | ConvTranspose2d convtranspose2d

record Up =
  up :: upsampler
  up_conv :: DoubleConv

definition Up_init ::
  "int \<Rightarrow> int \<Rightarrow> bool \<Rightarrow> bool \<Rightarrow> bool \<Rightarrow> conv_w \<times> dc_w \<Rightarrow> error + Up" where
  "Up_init i o' bilinear nrm leaky ws =
     (if bilinear then
        bind (DoubleConv_init i o' nrm leaky (snd ws)) (\<lambda>dc.
        Inr \<lparr>up = Upsample, up_conv = dc\<rparr>)
      else
        bind (ConvTranspose2d_init i (i div 2) (fst ws)) (\<lambda>ct.
        bind (DoubleConv_init i o' nrm leaky (snd ws)) (\<lambda>dc.
        Inr \<lparr>up = ConvTranspose2d ct, up_conv = dc\<rparr>)))"

fun up_forward :: "upsampler \<Rightarrow> tensor \<Rightarrow> error + tensor" where
  "up_forward Upsample x = Upsample_bilinear2 x"
| "up_forward (ConvTranspose2d ct) x = ConvTranspose2d_forward ct x"

definition Up_forward :: "bool \<Rightarrow> Up \<Rightarrow> tensor \<Rightarrow> tensor \<Rightarrow> error + tensor" where
  "Up_forward training self x1 x2 =
     bind (up_forward (up self) x1) (\<lambda>x1.
     let diffY = int (size2 x2) - int (size2 x1);
         diffX = int (size3 x2) - int (size3 x1)
     in
     bind (pad x1 (diffX div 2) (diffX - diffX div 2)
                  (diffY div 2) (diffY - diffY div 2)) (\<lambda>x1.
     bind (cat x2 x1) (\<lambda>x.
     DoubleConv_forward training (up_conv self) x)))"

subsection \<open>AttentiveDown, AttentiveUp, AttentiveDoubleConv\<close>

text \<open>\<^verbatim>\<open>attention = nn.Sequential(CALayer(out_channels), PALayer(out_channels))\<close>.\<close>

record attention_seq =
  att0 :: CALayer
  att1 :: PALayer

type_synonym att_w = "(conv_w \<times> conv_w) \<times> (conv_w \<times> conv_w)"

definition attention_init :: "int \<Rightarrow> att_w \<Rightarrow> error + attention_seq" where
  "attention_init o' ws =
     bind (CALayer_init o' (fst ws)) (\<lambda>a0.
     bind (PALayer_init o' (snd ws)) (\<lambda>a1.
     Inr \<lparr>att0 = a0, att1 = a1\<rparr>))"

definition attention_forward :: "bool \<Rightarrow> attention_seq \<Rightarrow> tensor \<Rightarrow> error + tensor" where
  "attention_forward training self x =
     bind (CALayer_forward training (att0 self) x) (\<lambda>y.
     PALayer_forward training (att1 self) y)"

record AttentiveDown =
  ad_down :: Down
  ad_attention :: attention_seq

definition AttentiveDown_init ::
  "int \<Rightarrow> int \<Rightarrow> bool \<Rightarrow> bool \<Rightarrow> dc_w \<times> att_w \<Rightarrow> error + AttentiveDown" where
  "AttentiveDown_init i o' nrm leaky ws =
     bind (Down_init i o' nrm leaky (fst ws)) (\<lambda>d.
     bind (attention_init o' (snd ws)) (\<lambda>a.
     Inr \<lparr>ad_down = d, ad_attention = a\<rparr>))"

definition AttentiveDown_forward :: "bool \<Rightarrow> AttentiveDown \<Rightarrow> tensor \<Rightarrow> error + tensor" where
  "AttentiveDown_forward training self x =
     bind (Down_forward training (ad_down self) x) (\<lambda>y.
     attention_forward training (ad_attention self) y)"

record AttentiveUp =
  au_up :: Up
  au_attention :: attention_seq

definition AttentiveUp_init ::
  "int \<Rightarrow> int \<Rightarrow> bool \<Rightarrow> bool \<Rightarrow> bool \<Rightarrow> (conv_w \<times> dc_w) \<times> att_w \<Rightarrow> error + AttentiveUp" where
  "AttentiveUp_init i o' bilinear nrm leaky ws =
     bind (Up_init i o' bilinear nrm leaky (fst ws)) (\<lambda>u.
     bind (attention_init o' (snd ws)) (\<lambda>a.
     Inr \<lparr>au_up = u, au_attention = a\<rparr>))"

definition AttentiveUp_forward ::
  "bool \<Rightarrow> AttentiveUp \<Rightarrow> tensor \<Rightarrow> tensor \<Rightarrow> error + tensor" where
  "AttentiveUp_forward training self x1 x2 =
     bind (Up_forward training (au_up self) x1 x2) (\<lambda>y.
     attention_forward training (au_attention self) y)"

record AttentiveDoubleConv =
  adc_conv :: DoubleConv
  adc_attention :: attention_seq

definition AttentiveDoubleConv_init ::
  "int \<Rightarrow> int \<Rightarrow> bool \<Rightarrow> bool \<Rightarrow> dc_w \<times> att_w \<Rightarrow> error + AttentiveDoubleConv" where
  "AttentiveDoubleConv_init i o' nrm leaky ws =
     bind (DoubleConv_init i o' nrm leaky (fst ws)) (\<lambda>d.
     bind (attention_init o' (snd ws)) (\<lambda>a.
     Inr \<lparr>adc_conv = d, adc_attention = a\<rparr>))"

definition AttentiveDoubleConv_forward ::
  "bool \<Rightarrow> AttentiveDoubleConv \<Rightarrow> tensor \<Rightarrow> error + tensor" where
  "AttentiveDoubleConv_forward training self x =
     bind (DoubleConv_forward training (adc_conv self) x) (\<lambda>y.
     attention_forward training (adc_attention self) y)"

subsection \<open>BaseNet, IAN, ANSN\<close>

record BaseNet =
  n_channels :: int
  n_classes :: int
  inc :: DoubleConv
  down1 :: Down
  down2 :: Down
  down3 :: Down
  up1 :: Up
  up2 :: Up
  up3 :: Up
  outc :: OutConv

record BaseNet_w =
  w_inc :: dc_w
  w_down1 :: dc_w
  w_down2 :: dc_w
  w_down3 :: dc_w
  w_up1 :: "conv_w \<times> dc_w"
  w_up2 :: "conv_w \<times> dc_w"
  w_up3 :: "conv_w \<times> dc_w"
  w_outc :: conv_w

text \<open>
  The defaults of the source are \<^verbatim>\<open>in_channels=1, out_channels=1, norm=True\<close>;
  \<^verbatim>\<open>DoubleConv\<close>, \<^verbatim>\<open>Down\<close> and \<^verbatim>\<open>Up\<close> are called with their default
  \<^verbatim>\<open>leaky=True\<close> and \<^verbatim>\<open>OutConv\<close> with its default \<^verbatim>\<open>act=True\<close>.
\<close>

definition BaseNet_init :: "int \<Rightarrow> int \<Rightarrow> bool \<Rightarrow> BaseNet_w \<Rightarrow> error + BaseNet" where
  "BaseNet_init i o' nrm ws =
     bind (DoubleConv_init i 32 nrm True (w_inc ws)) (\<lambda>m_inc.
     bind (Down_init 32 64 nrm True (w_down1 ws)) (\<lambda>m_down1.
     bind (Down_init 64 128 nrm True (w_down2 ws)) (\<lambda>m_down2.
     bind (Down_init 128 128 nrm True (w_down3 ws)) (\<lambda>m_down3.
     bind (Up_init 256 64 True nrm True (w_up1 ws)) (\<lambda>m_up1.
     bind (Up_init 128 32 True nrm True (w_up2 ws)) (\<lambda>m_up2.
     bind (Up_init 64 32 True nrm True (w_up3 ws)) (\<lambda>m_up3.
     bind (OutConv_init 32 o' True (w_outc ws)) (\<lambda>m_outc.
     Inr \<lparr>n_channels = i, n_classes = o', inc = m_inc,
          down1 = m_down1, down2 = m_down2, down3 = m_down3,
          up1 = m_up1, up2 = m_up2, up3 = m_up3, outc = m_outc\<rparr>))))))))"

definition BaseNet_forward :: "bool \<Rightarrow> BaseNet \<Rightarrow> tensor \<Rightarrow> error + tensor" where
  "BaseNet_forward training self x =
     bind (DoubleConv_forward training (inc self) x) (\<lambda>x1.
     bind (Down_forward training (down1 self) x1) (\<lambda>x2.
     bind (Down_forward training (down2 self) x2) (\<lambda>x3.
     bind (Down_forward training (down3 self) x3) (\<lambda>x4.
     bind (Up_forward training (up1 self) x4 x3) (\<lambda>x.
     bind (Up_forward training (up2 self) x x2) (\<lambda>x.
     bind (Up_forward training (up3 self) x x1) (\<lambda>x.
     OutConv_forward training (outc self) x)))))))"

definition IAN_init :: "int \<Rightarrow> int \<Rightarrow> bool \<Rightarrow> BaseNet_w \<Rightarrow> error + BaseNet" where
  "IAN_init i o' nrm ws = BaseNet_init i o' nrm ws"

text \<open>
  \<^verbatim>\<open>ANSN.__init__\<close> runs the constructor of \<^verbatim>\<open>BaseNet\<close> and then replaces
  \<^verbatim>\<open>self.outc\<close> by a new \<^verbatim>\<open>OutConv(32, out_channels, act=False)\<close>, which has
  parameter tensors of its own: their weights are the last argument.
\<close>

definition ANSN_init :: "int \<Rightarrow> int \<Rightarrow> bool \<Rightarrow> BaseNet_w \<Rightarrow> conv_w \<Rightarrow> error + BaseNet" where
  "ANSN_init i o' nrm ws ws' =
     bind (BaseNet_init i o' nrm ws) (\<lambda>self.
     bind (OutConv_init 32 o' False ws') (\<lambda>m_outc.
     Inr (self\<lparr>outc := m_outc\<rparr>)))"

subsection \<open>FuseNet\<close>

record FuseNet =
  f_inc :: AttentiveDoubleConv
  f_down1 :: AttentiveDown
  f_down2 :: AttentiveDown
  f_up1 :: AttentiveUp
  f_up2 :: AttentiveUp
  f_outc :: OutConv

record FuseNet_w =
  wf_inc :: "dc_w \<times> att_w"
  wf_down1 :: "dc_w \<times> att_w"
  wf_down2 :: "dc_w \<times> att_w"
  wf_up1 :: "(conv_w \<times> dc_w) \<times> att_w"
  wf_up2 :: "(conv_w \<times> dc_w) \<times> att_w"
  wf_outc :: conv_w

text \<open>The defaults of the source are \<^verbatim>\<open>in_channels=1, out_channels=1, norm=False\<close>.\<close>

definition FuseNet_init :: "int \<Rightarrow> int \<Rightarrow> bool \<Rightarrow> FuseNet_w \<Rightarrow> error + FuseNet" where
  "FuseNet_init i o' nrm ws =
     bind (AttentiveDoubleConv_init i 32 nrm False (wf_inc ws)) (\<lambda>m_inc.
     bind (AttentiveDown_init 32 64 nrm False (wf_down1 ws)) (\<lambda>m_down1.
     bind (AttentiveDown_init 64 64 nrm False (wf_down2 ws)) (\<lambda>m_down2.
     bind (AttentiveUp_init 128 32 True nrm False (wf_up1 ws)) (\<lambda>m_up1.
     bind (AttentiveUp_init 64 32 True nrm False (wf_up2 ws)) (\<lambda>m_up2.
     bind (OutConv_init 32 o' True (wf_outc ws)) (\<lambda>m_outc.
     Inr \<lparr>f_inc = m_inc, f_down1 = m_down1, f_down2 = m_down2,
          f_up1 = m_up1, f_up2 = m_up2, f_outc = m_outc\<rparr>))))))"

definition FuseNet_forward :: "bool \<Rightarrow> FuseNet \<Rightarrow> tensor \<Rightarrow> error + tensor" where
  "FuseNet_forward training self x =
     bind (AttentiveDoubleConv_forward training (f_inc self) x) (\<lambda>x1.
     bind (AttentiveDown_forward training (f_down1 self) x1) (\<lambda>x2.
     bind (AttentiveDown_forward training (f_down2 self) x2) (\<lambda>x3.
     bind (AttentiveUp_forward training (f_up1 self) x3 x2) (\<lambda>x.
     bind (AttentiveUp_forward training (f_up2 self) x x1) (\<lambda>x.
     OutConv_forward training (f_outc self) x)))))"

section \<open>The attentive wrappers as the specification words them\<close>

text \<open>
  The specification describes each attentive module as its base operation followed, on
  the result, by a CALayer and then a PALayer. \<open>CA_then_PA\<close> is this description,
  written without the source's \<^verbatim>\<open>nn.Sequential\<close>: the result of the base operation, if
  there is one, goes through the channel attention and then through the pixel attention.
\<close>

definition CA_then_PA :: "bool \<Rightarrow> attention_seq \<Rightarrow> error + tensor \<Rightarrow> error + tensor" where
  "CA_then_PA training att r =
     (case r of
        Inl e \<Rightarrow> Inl e
      | Inr t \<Rightarrow>
          (case CALayer_forward training (att0 att) t of
             Inl e \<Rightarrow> Inl e
           | Inr u \<Rightarrow> PALayer_forward training (att1 att) u))"

section \<open>Conditions under which a forward pass succeeds\<close>

text \<open>
  For a module built by its constructor with the arguments given, each predicate states
  what the forward pass requires of its input: channel counts that fit the declared ones,
  spatial sizes large enough for the kernels and the pooling, and, for batch
  normalisation in training mode, more than one value per channel. A module declared
  with no input channel returns no tensor of the declared shape, so the conditions ask for
  at least one input channel; a transposed convolution needs at least one output
  channel, that is \<open>2 \<le> i\<close> in \<^verbatim>\<open>Up\<close> without bilinear upsampling. \<open>att_cond\<close> is the
  condition of the pixel attention and of the pipeline of both attentions, \<open>ca_cond\<close>
  that of the channel attention alone, which does not depend on the spatial extent.
\<close>

definition dc_cond :: "bool \<Rightarrow> bool \<Rightarrow> int \<Rightarrow> int \<Rightarrow> tensor \<Rightarrow> bool" where
  "dc_cond training nrm i o' x \<longleftrightarrow>
     1 \<le> i \<and> 1 \<le> o' \<and> size1 x = nat i \<and> 1 \<le> size2 x \<and> 1 \<le> size3 x
     \<and> \<not> (nrm \<and> training \<and> size0 x * size2 x * size3 x = 1)"

definition down_cond :: "bool \<Rightarrow> bool \<Rightarrow> int \<Rightarrow> int \<Rightarrow> tensor \<Rightarrow> bool" where
  "down_cond training nrm i o' x \<longleftrightarrow>
     1 \<le> i \<and> 1 \<le> o' \<and> size1 x = nat i \<and> 2 \<le> size2 x \<and> 2 \<le> size3 x
     \<and> \<not> (nrm \<and> training \<and> size0 x * (size2 x div 2) * (size3 x div 2) = 1)"

definition up_channels :: "bool \<Rightarrow> int \<Rightarrow> tensor \<Rightarrow> nat" where
  "up_channels bilinear i x1 = (if bilinear then size1 x1 else nat (i div 2))"

definition up_cond :: "bool \<Rightarrow> bool \<Rightarrow> bool \<Rightarrow> int \<Rightarrow> int \<Rightarrow> tensor \<Rightarrow> tensor \<Rightarrow> bool" where
  "up_cond training bilinear nrm i o' x1 x2 \<longleftrightarrow>
     1 \<le> size1 x1
     \<and> (bilinear \<or> size0 x1 \<noteq> 0 \<longrightarrow> 1 \<le> size2 x1 \<and> 1 \<le> size3 x1)
     \<and> (\<not> bilinear \<longrightarrow> size1 x1 = nat i \<and> 2 \<le> i)
     \<and> size0 x1 = size0 x2
     \<and> size1 x2 + up_channels bilinear i x1 = nat i
     \<and> 1 \<le> o' \<and> 1 \<le> size2 x2 \<and> 1 \<le> size3 x2
     \<and> \<not> (nrm \<and> training \<and> size0 x2 * size2 x2 * size3 x2 = 1)"

definition oc_cond :: "int \<Rightarrow> int \<Rightarrow> tensor \<Rightarrow> bool" where
  "oc_cond i o' x \<longleftrightarrow>
     1 \<le> i \<and> 1 \<le> o' \<and> size1 x = nat i \<and> 1 \<le> size2 x \<and> 1 \<le> size3 x"

definition ca_cond :: "int \<Rightarrow> tensor \<Rightarrow> bool" where
  "ca_cond channel x \<longleftrightarrow> 8 \<le> channel \<and> size1 x = nat channel"

definition att_cond :: "int \<Rightarrow> tensor \<Rightarrow> bool" where
  "att_cond channel x \<longleftrightarrow> 8 \<le> channel \<and> size1 x = nat channel \<and> 1 \<le> size2 x \<and> 1 \<le> size3 x"

definition base_cond :: "bool \<Rightarrow> bool \<Rightarrow> int \<Rightarrow> int \<Rightarrow> tensor \<Rightarrow> bool" where
  "base_cond training nrm i o' x \<longleftrightarrow>
     1 \<le> i \<and> 1 \<le> o' \<and> size1 x = nat i \<and> 8 \<le> size2 x \<and> 8 \<le> size3 x
     \<and> \<not> (nrm \<and> training \<and> size0 x * (size2 x div 8) * (size3 x div 8) = 1)"

definition fuse_cond :: "bool \<Rightarrow> bool \<Rightarrow> int \<Rightarrow> int \<Rightarrow> tensor \<Rightarrow> bool" where
  "fuse_cond training nrm i o' x \<longleftrightarrow>
     1 \<le> i \<and> 1 \<le> o' \<and> size1 x = nat i \<and> 4 \<le> size2 x \<and> 4 \<le> size3 x
     \<and> \<not> (nrm \<and> training \<and> size0 x * (size2 x div 4) * (size3 x div 4) = 1)"

section \<open>Constructing a module and calling it\<close>

text \<open>
  \<open>X_call\<close> is the expression \<^verbatim>\<open>X(...)(x)\<close>: the constructor followed by the forward
  pass of the module it returns.
\<close>

definition PALayer_call :: "int \<Rightarrow> conv_w \<times> conv_w \<Rightarrow> bool \<Rightarrow> tensor \<Rightarrow> error + tensor" where
  "PALayer_call channel ws training x =
     bind (PALayer_init channel ws) (\<lambda>self. PALayer_forward training self x)"

definition CALayer_call :: "int \<Rightarrow> conv_w \<times> conv_w \<Rightarrow> bool \<Rightarrow> tensor \<Rightarrow> error + tensor" where
  "CALayer_call channel ws training x =
     bind (CALayer_init channel ws) (\<lambda>self. CALayer_forward training self x)"

definition OutConv_call :: "int \<Rightarrow> int \<Rightarrow> bool \<Rightarrow> conv_w \<Rightarrow> bool \<Rightarrow> tensor \<Rightarrow> error + tensor" where
  "OutConv_call i o' act ws training x =
     bind (OutConv_init i o' act ws) (\<lambda>self. OutConv_forward training self x)"

definition Up_call ::
  "int \<Rightarrow> int \<Rightarrow> bool \<Rightarrow> bool \<Rightarrow> bool \<Rightarrow> conv_w \<times> dc_w \<Rightarrow> bool \<Rightarrow> tensor \<Rightarrow> tensor
     \<Rightarrow> error + tensor" where
  "Up_call i o' bilinear nrm leaky ws training x1 x2 =
     bind (Up_init i o' bilinear nrm leaky ws) (\<lambda>self. Up_forward training self x1 x2)"

definition BaseNet_call ::
  "int \<Rightarrow> int \<Rightarrow> bool \<Rightarrow> BaseNet_w \<Rightarrow> bool \<Rightarrow> tensor \<Rightarrow> error + tensor" where
  "BaseNet_call i o' nrm ws training x =
     bind (BaseNet_init i o' nrm ws) (\<lambda>self. BaseNet_forward training self x)"

definition IAN_call ::
  "int \<Rightarrow> int \<Rightarrow> bool \<Rightarrow> BaseNet_w \<Rightarrow> bool \<Rightarrow> tensor \<Rightarrow> error + tensor" where
  "IAN_call i o' nrm ws training x =
     bind (IAN_init i o' nrm ws) (\<lambda>self. BaseNet_forward training self x)"

definition ANSN_call ::
  "int \<Rightarrow> int \<Rightarrow> bool \<Rightarrow> BaseNet_w \<Rightarrow> conv_w \<Rightarrow> bool \<Rightarrow> tensor \<Rightarrow> error + tensor" where
  "ANSN_call i o' nrm ws ws' training x =
     bind (ANSN_init i o' nrm ws ws') (\<lambda>self. BaseNet_forward training self x)"

definition FuseNet_call ::
  "int \<Rightarrow> int \<Rightarrow> bool \<Rightarrow> FuseNet_w \<Rightarrow> bool \<Rightarrow> tensor \<Rightarrow> error + tensor" where
  "FuseNet_call i o' nrm ws training x =
     bind (FuseNet_init i o' nrm ws) (\<lambda>self. FuseNet_forward training self x)"

section \<open>Concrete weights and inputs\<close>

text \<open>
  \<^verbatim>\<open>torch.zeros(n, c, h, w)\<close>, convolution weights that are all zero (with bias 0 or
  -1) and the parameters of a fresh batch normalisation.
\<close>

definition zeros :: "nat \<Rightarrow> nat \<Rightarrow> nat \<Rightarrow> nat \<Rightarrow> tensor" where
  "zeros n c h w = \<lparr>size0 = n, size1 = c, size2 = h, size3 = w, elem = (\<lambda>n c h w. 0)\<rparr>"

definition conv_w0 :: conv_w where
  "conv_w0 = ((\<lambda>co ci kh kw. 0), (\<lambda>co. 0))"

definition conv_w_neg :: conv_w where
  "conv_w_neg = ((\<lambda>co ci kh kw. 0), (\<lambda>co. - 1))"

definition bn_w0 :: bn_w where
  "bn_w0 = ((\<lambda>c. 1), (\<lambda>c. 0), (\<lambda>c. 0), (\<lambda>c. 1))"

definition dc_w0 :: dc_w where
  "dc_w0 = (conv_w0, bn_w0, conv_w0, bn_w0)"

definition att_w0 :: att_w where
  "att_w0 = ((conv_w0, conv_w0), (conv_w0, conv_w0))"

definition BaseNet_w0 :: BaseNet_w where
  "BaseNet_w0 = \<lparr>w_inc = dc_w0, w_down1 = dc_w0, w_down2 = dc_w0, w_down3 = dc_w0,
     w_up1 = (conv_w0, dc_w0), w_up2 = (conv_w0, dc_w0), w_up3 = (conv_w0, dc_w0),
     w_outc = conv_w0\<rparr>"

definition FuseNet_w0 :: FuseNet_w where
  "FuseNet_w0 = \<lparr>wf_inc = (dc_w0, att_w0), wf_down1 = (dc_w0, att_w0), wf_down2 = (dc_w0, att_w0),
     wf_up1 = ((conv_w0, dc_w0), att_w0), wf_up2 = ((conv_w0, dc_w0), att_w0),
     wf_outc = conv_w0\<rparr>"

section \<open>Properties of the layers\<close>

lemma bind_Inl [simp]: "bind (Inl e) f = Inl e"
  by (simp add: bind_def)

lemma bind_Inr [simp]: "bind (Inr y) f = f y"
  by (simp add: bind_def)

lemma bind_eq_Inr: "bind r f = Inr y \<longleftrightarrow> (\<exists>z. r = Inr z \<and> f z = Inr y)"
  by (cases r) simp_all

lemma bind_eq_Inl: "bind r f = Inl e \<longleftrightarrow> r = Inl e \<or> (\<exists>z. r = Inr z \<and> f z = Inl e)"
  by (cases r) simp_all

lemma Conv2d_init_Inr:
  "Conv2d_init i o' k p wb = Inr cv \<longleftrightarrow>
     0 \<le> i \<and> 0 \<le> o' \<and>
     cv = \<lparr>in_channels = nat i, out_channels = nat o', kernel_size = k, padding = p,
           weight = fst wb, bias = snd wb\<rparr>"
  by (auto simp: Conv2d_init_def)

lemma Conv2d_forward_InrD:
  assumes "Conv2d_forward cv x = Inr y"
  shows "1 \<le> out_channels cv" and "size1 x = in_channels cv"
    and "kernel_size cv \<le> size2 x + 2 * padding cv"
    and "kernel_size cv \<le> size3 x + 2 * padding cv"
    and "size0 y = size0 x" and "size1 y = (if size1 x = 0 then 0 else out_channels cv)"
    and "size2 y = size2 x + 2 * padding cv + 1 - kernel_size cv"
    and "size3 y = size3 x + 2 * padding cv + 1 - kernel_size cv"
  using assms by (auto simp: Conv2d_forward_def split: if_splits)

lemma Conv2d_forward_ok:
  assumes "1 \<le> out_channels cv" and "size1 x = in_channels cv"
    and "kernel_size cv \<le> size2 x + 2 * padding cv"
    and "kernel_size cv \<le> size3 x + 2 * padding cv"
    and "size0 x = 0 \<or> size1 x = 0 \<or> (1 \<le> size2 x \<and> 1 \<le> size3 x)"
  shows "\<exists>y. Conv2d_forward cv x = Inr y"
  using assms by (auto simp: Conv2d_forward_def)

lemma BatchNorm2d_forward_InrD:
  assumes "BatchNorm2d_forward training bn x = Inr y"
  shows "\<not> (training \<and> size0 x * size2 x * size3 x = 1)"
    and "size0 x * size1 x * size2 x * size3 x \<noteq> 0 \<longrightarrow> size1 x = num_features bn"
    and "size0 y = size0 x" and "size1 y = size1 x" and "size2 y = size2 x" and "size3 y = size3 x"
  using assms by (auto simp: BatchNorm2d_forward_def split: if_splits)

lemma BatchNorm2d_forward_ok:
  assumes "\<not> (training \<and> size0 x * size2 x * size3 x = 1)" and "size1 x = num_features bn"
    and "1 \<le> num_features bn"
  shows "\<exists>y. BatchNorm2d_forward training bn x = Inr y"
  using assms by (auto simp: BatchNorm2d_forward_def)

text \<open>In training mode the running statistics have no part in the result.\<close>

lemma BatchNorm2d_forward_training_stats:
  "BatchNorm2d_forward True (bn\<lparr>running_mean := rm, running_var := rv\<rparr>) x
     = BatchNorm2d_forward True bn x"
  by (simp add: BatchNorm2d_forward_def)

lemma pointwise_sizes [simp]:
  "size0 (pointwise f x) = size0 x" "size1 (pointwise f x) = size1 x"
  "size2 (pointwise f x) = size2 x" "size3 (pointwise f x) = size3 x"
  "elem (pointwise f x) n c h w = f (elem x n c h w)"
  by (simp_all add: pointwise_def)

text \<open>The two-layer blocks of DoubleConv.\<close>

lemma norm_layer_Inr:
  "norm_layer nrm n ps = Inr l \<longleftrightarrow>
     (if nrm then 0 \<le> n \<and> l = BatchNorm2d \<lparr>num_features = nat n, bn_weight = fst ps,
          bn_bias = fst (snd ps), running_mean = fst (snd (snd ps)),
          running_var = snd (snd (snd ps))\<rparr>
      else l = Identity)"
  by (auto simp: norm_layer_def BatchNorm2d_init_def)

lemma norm_layer_forward_InrD:
  assumes "norm_layer nrm n ps = Inr l" and "layer_forward training l x = Inr y"
  shows "\<not> (nrm \<and> training \<and> size0 x * size2 x * size3 x = 1)"
    and "nrm \<longrightarrow> size0 x * size1 x * size2 x * size3 x \<noteq> 0 \<longrightarrow> size1 x = nat n"
    and "size0 y = size0 x" and "size1 y = size1 x" and "size2 y = size2 x" and "size3 y = size3 x"
  using assms by (auto simp: norm_layer_Inr dest: BatchNorm2d_forward_InrD split: if_splits)

lemma norm_layer_forward_ok:
  assumes "norm_layer nrm n ps = Inr l" and "\<not> (nrm \<and> training \<and> size0 x * size2 x * size3 x = 1)"
    and "size1 x = nat n" and "1 \<le> n"
  shows "\<exists>y. layer_forward training l x = Inr y"
  using assms by (auto simp: norm_layer_Inr intro: BatchNorm2d_forward_ok split: if_splits)

lemma act_layer_forward:
  "\<exists>y. layer_forward training (act_layer leaky) x = Inr y \<and> size0 y = size0 x \<and> size1 y = size1 x
        \<and> size2 y = size2 x \<and> size3 y = size3 x"
  by (simp add: act_layer_def)

lemma act_layer_forward_InrD:
  assumes "layer_forward training (act_layer leaky) x = Inr y"
  shows "size0 y = size0 x" "size1 y = size1 x" "size2 y = size2 x" "size3 y = size3 x"
  using assms by (auto simp: act_layer_def split: if_splits)

lemma DoubleConv_init_Inr:
  "DoubleConv_init i o' nrm leaky ws = Inr m \<longleftrightarrow>
     (\<exists>c0 n1 c3 n4.
        Conv2d_init i o' 3 1 (fst ws) = Inr c0 \<and>
        norm_layer nrm o' (fst (snd ws)) = Inr n1 \<and>
        Conv2d_init o' o' 3 1 (fst (snd (snd ws))) = Inr c3 \<and>
        norm_layer nrm o' (snd (snd (snd ws))) = Inr n4 \<and>
        m = \<lparr>conv = [Conv2d c0, n1, act_layer leaky, Conv2d c3, n4, act_layer leaky]\<rparr>)"
  by (auto simp: DoubleConv_init_def bind_eq_Inr)

lemma DoubleConv_init_ok:
  assumes "0 \<le> i" and "0 \<le> o'"
  shows "\<exists>m. DoubleConv_init i o' nrm leaky ws = Inr m"
  using assms by (cases nrm) (simp_all add: DoubleConv_init_Inr Conv2d_init_Inr norm_layer_Inr)

lemma DoubleConv_init_nonneg:
  assumes "DoubleConv_init i o' nrm leaky ws = Inr m"
  shows "0 \<le> i" and "0 \<le> o'"
  using assms by (auto simp: DoubleConv_init_Inr Conv2d_init_Inr)

text \<open>One stage of DoubleConv: convolution 3x3 with padding 1, normalisation, activation.\<close>

lemma stage_InrD:
  assumes c: "Conv2d_init i o' 3 1 wb = Inr cv"
    and n: "norm_layer nrm o' ps = Inr nl"
    and s: "Sequential training (Conv2d cv # nl # act_layer leaky # ls) x = Inr y"
  shows "\<exists>z. Sequential training ls z = Inr y \<and> 1 \<le> o' \<and> size1 x = nat i
           \<and> 1 \<le> size2 x \<and> 1 \<le> size3 x
           \<and> \<not> (nrm \<and> training \<and> size0 x * size2 x * size3 x = 1)
           \<and> size0 z = size0 x \<and> size1 z = (if size1 x = 0 then 0 else nat o')
           \<and> size2 z = size2 x \<and> size3 z = size3 x"
proof -
  from s obtain a where a: "Conv2d_forward cv x = Inr a"
    and s1: "Sequential training (nl # act_layer leaky # ls) a = Inr y"
    by (auto split: sum.splits)
  from s1 obtain b where b: "layer_forward training nl a = Inr b"
    and s2: "Sequential training (act_layer leaky # ls) b = Inr y"
    by (auto split: sum.splits)
  from s2 obtain z where z: "layer_forward training (act_layer leaky) b = Inr z"
    and s3: "Sequential training ls z = Inr y"
    by (auto split: sum.splits)
  from c have cv: "in_channels cv = nat i" "out_channels cv = nat o'" "kernel_size cv = 3"
    "padding cv = 1" "0 \<le> o'"
    by (auto simp: Conv2d_init_Inr)
  note A = Conv2d_forward_InrD [OF a, unfolded cv]
  note B = norm_layer_forward_InrD [OF n b]
  note Z = act_layer_forward_InrD [OF z]
  from A B Z cv(5) have "1 \<le> o'" "size1 x = nat i" "1 \<le> size2 x" "1 \<le> size3 x"
    "size0 z = size0 x" "size1 z = (if size1 x = 0 then 0 else nat o')"
    "size2 z = size2 x" "size3 z = size3 x"
    by auto
  moreover from B(1) A have "\<not> (nrm \<and> training \<and> size0 x * size2 x * size3 x = 1)"
    by auto
  ultimately show ?thesis using s3 by blast
qed

lemma stage_ok:
  assumes c: "Conv2d_init i o' 3 1 wb = Inr cv"
    and n: "norm_layer nrm o' ps = Inr nl"
    and i: "1 \<le> i"
    and h: "1 \<le> o'" "size1 x = nat i" "1 \<le> size2 x" "1 \<le> size3 x"
      "\<not> (nrm \<and> training \<and> size0 x * size2 x * size3 x = 1)"
  shows "\<exists>z. Sequential training (Conv2d cv # nl # act_layer leaky # ls) x = Sequential training ls z
           \<and> size0 z = size0 x \<and> size1 z = nat o' \<and> size2 z = size2 x \<and> size3 z = size3 x"
proof -
  from c have cv: "in_channels cv = nat i" "out_channels cv = nat o'" "kernel_size cv = 3"
    "padding cv = 1"
    by (auto simp: Conv2d_init_Inr)
  have "\<exists>a. Conv2d_forward cv x = Inr a"
    by (rule Conv2d_forward_ok) (use h cv in auto)
  then obtain a where a: "Conv2d_forward cv x = Inr a" ..
  note A = Conv2d_forward_InrD [OF a, unfolded cv]
  from i h(2) have x: "size1 x \<noteq> 0"
    by simp
  from A h x have "\<not> (nrm \<and> training \<and> size0 a * size2 a * size3 a = 1)" "size1 a = nat o'"
    by auto
  from norm_layer_forward_ok [OF n this h(1)] obtain b where b: "layer_forward training nl a = Inr b"
    by blast
  note B = norm_layer_forward_InrD [OF n b]
  from act_layer_forward [of training leaky b] obtain z
    where z: "layer_forward training (act_layer leaky) b = Inr z"
      and Z: "size0 z = size0 b" "size1 z = size1 b" "size2 z = size2 b" "size3 z = size3 b"
    by blast
  have "Sequential training (Conv2d cv # nl # act_layer leaky # ls) x = Sequential training ls z"
    using a b z by simp
  moreover from A B Z x have "size0 z = size0 x" "size1 z = nat o'" "size2 z = size2 x"
    "size3 z = size3 x" by auto
  ultimately show ?thesis by blast
qed

lemma DoubleConv_forward_InrD:
  assumes m: "DoubleConv_init i o' nrm leaky ws = Inr m"
    and f: "DoubleConv_forward training m x = Inr y"
  shows "dc_cond training nrm i o' x"
    and "size0 y = size0 x" and "size1 y = nat o'" and "size2 y = size2 x" and "size3 y = size3 x"
proof -
  from m obtain c0 n1 c3 n4 where
    c0: "Conv2d_init i o' 3 1 (fst ws) = Inr c0" and
    n1: "norm_layer nrm o' (fst (snd ws)) = Inr n1" and
    c3: "Conv2d_init o' o' 3 1 (fst (snd (snd ws))) = Inr c3" and
    n4: "norm_layer nrm o' (snd (snd (snd ws))) = Inr n4" and
    cm: "conv m = [Conv2d c0, n1, act_layer leaky, Conv2d c3, n4, act_layer leaky]"
    by (auto simp: DoubleConv_init_Inr)
  from f cm have s: "Sequential training
       (Conv2d c0 # n1 # act_layer leaky # [Conv2d c3, n4, act_layer leaky]) x = Inr y"
    by (simp add: DoubleConv_forward_def)
  from stage_InrD [OF c0 n1 s] obtain z where
    s': "Sequential training (Conv2d c3 # n4 # act_layer leaky # []) z = Inr y"
    and Z: "1 \<le> o'" "size1 x = nat i" "1 \<le> size2 x" "1 \<le> size3 x"
      "\<not> (nrm \<and> training \<and> size0 x * size2 x * size3 x = 1)"
      "size0 z = size0 x" "size1 z = (if size1 x = 0 then 0 else nat o')"
      "size2 z = size2 x" "size3 z = size3 x"
    by blast
  from stage_InrD [OF c3 n4 s'] obtain u where
    U: "Inr u = Inr y" "size1 z = nat o'" "size0 u = size0 z"
      "size1 u = (if size1 z = 0 then 0 else nat o')" "size2 u = size2 z" "size3 u = size3 z"
    by auto
  from Z(1) U(2) Z(7) have x: "size1 x \<noteq> 0"
    by (auto split: if_splits)
  with Z(2) have i: "1 \<le> i"
    by (cases "0 < i") simp_all
  from Z i show "dc_cond training nrm i o' x" by (simp add: dc_cond_def)
  from U Z x show "size0 y = size0 x" "size1 y = nat o'" "size2 y = size2 x" "size3 y = size3 x"
    by auto
qed

lemma DoubleConv_forward_ok:
  assumes m: "DoubleConv_init i o' nrm leaky ws = Inr m"
    and h: "dc_cond training nrm i o' x"
  shows "\<exists>y. DoubleConv_forward training m x = Inr y"
proof -
  from m obtain c0 n1 c3 n4 where
    c0: "Conv2d_init i o' 3 1 (fst ws) = Inr c0" and
    n1: "norm_layer nrm o' (fst (snd ws)) = Inr n1" and
    c3: "Conv2d_init o' o' 3 1 (fst (snd (snd ws))) = Inr c3" and
    n4: "norm_layer nrm o' (snd (snd (snd ws))) = Inr n4" and
    cm: "conv m = [Conv2d c0, n1, act_layer leaky, Conv2d c3, n4, act_layer leaky]"
    by (auto simp: DoubleConv_init_Inr)
  from h have I: "1 \<le> i"
    by (simp add: dc_cond_def)
  from h have H: "1 \<le> o'" "size1 x = nat i" "1 \<le> size2 x" "1 \<le> size3 x"
      "\<not> (nrm \<and> training \<and> size0 x * size2 x * size3 x = 1)"
    by (auto simp: dc_cond_def)
  from stage_ok [OF c0 n1 I H, of leaky "[Conv2d c3, n4, act_layer leaky]"] obtain z where
    s: "Sequential training (conv m) x = Sequential training [Conv2d c3, n4, act_layer leaky] z"
    and Z: "size0 z = size0 x" "size1 z = nat o'" "size2 z = size2 x" "size3 z = size3 x"
    using cm by auto
  from Z H have H': "size1 z = nat o'" "1 \<le> size2 z" "1 \<le> size3 z"
      "\<not> (nrm \<and> training \<and> size0 z * size2 z * size3 z = 1)"
    by auto
  from stage_ok [OF c3 n4 H(1) H(1) H', of leaky "[]"] obtain u where
    "Sequential training [Conv2d c3, n4, act_layer leaky] z = Inr u"
    by auto
  with s show ?thesis by (simp add: DoubleConv_forward_def)
qed

lemma MaxPool2d_InrD:
  assumes "MaxPool2d 2 x = Inr y"
  shows "1 \<le> size1 x" and "2 \<le> size2 x" and "2 \<le> size3 x"
    and "size0 y = size0 x" and "size1 y = size1 x"
    and "size2 y = size2 x div 2" and "size3 y = size3 x div 2"
  using assms by (auto simp: MaxPool2d_def split: if_splits)

lemma MaxPool2d_ok:
  assumes "1 \<le> size1 x" and "2 \<le> size2 x" and "2 \<le> size3 x"
  shows "\<exists>y. MaxPool2d 2 x = Inr y"
  using assms by (auto simp: MaxPool2d_def)

lemma Down_init_Inr:
  "Down_init i o' nrm leaky ws = Inr m \<longleftrightarrow>
     (\<exists>dc. DoubleConv_init i o' nrm leaky ws = Inr dc \<and> m = \<lparr>maxpool = 2, maxpool_conv = dc\<rparr>)"
  by (auto simp: Down_init_def bind_eq_Inr)

lemma Down_forward_InrD:
  assumes m: "Down_init i o' nrm leaky ws = Inr m"
    and f: "Down_forward training m x = Inr y"
  shows "down_cond training nrm i o' x"
    and "size0 y = size0 x" and "size1 y = nat o'"
    and "size2 y = size2 x div 2" and "size3 y = size3 x div 2"
proof -
  from m obtain dc where dc: "DoubleConv_init i o' nrm leaky ws = Inr dc"
    and mm: "maxpool m = 2" "maxpool_conv m = dc"
    by (auto simp: Down_init_Inr)
  from f mm obtain p where p: "MaxPool2d 2 x = Inr p"
    and d: "DoubleConv_forward training dc p = Inr y"
    by (auto simp: Down_forward_def bind_eq_Inr)
  note P = MaxPool2d_InrD [OF p]
  note D = DoubleConv_forward_InrD [OF dc d]
  from P D(1) show "down_cond training nrm i o' x"
    by (auto simp: down_cond_def dc_cond_def)
  from P D show "size0 y = size0 x" "size1 y = nat o'"
    "size2 y = size2 x div 2" "size3 y = size3 x div 2"
    by auto
qed

lemma Down_forward_ok:
  assumes m: "Down_init i o' nrm leaky ws = Inr m"
    and h: "down_cond training nrm i o' x"
  shows "\<exists>y. Down_forward training m x = Inr y"
proof -
  from m obtain dc where dc: "DoubleConv_init i o' nrm leaky ws = Inr dc"
    and mm: "maxpool m = 2" "maxpool_conv m = dc"
    by (auto simp: Down_init_Inr)
  have "\<exists>p. MaxPool2d 2 x = Inr p"
    by (rule MaxPool2d_ok) (use h in \<open>auto simp: down_cond_def\<close>)
  then obtain p where p: "MaxPool2d 2 x = Inr p" ..
  note P = MaxPool2d_InrD [OF p]
  have "dc_cond training nrm i o' p"
    using h P by (auto simp: down_cond_def dc_cond_def)
  from DoubleConv_forward_ok [OF dc this] p mm show ?thesis
    by (simp add: Down_forward_def)
qed

text \<open>Up\<close>

lemma Upsample_bilinear2_InrD:
  assumes "Upsample_bilinear2 x = Inr y"
  shows "1 \<le> size1 x" and "1 \<le> size2 x" and "1 \<le> size3 x"
    and "size0 y = size0 x" and "size1 y = size1 x"
    and "size2 y = 2 * size2 x" and "size3 y = 2 * size3 x"
  using assms by (auto simp: Upsample_bilinear2_def split: if_splits)

lemma Upsample_bilinear2_ok:
  assumes "1 \<le> size1 x" and "1 \<le> size2 x" and "1 \<le> size3 x"
  shows "\<exists>y. Upsample_bilinear2 x = Inr y"
  using assms by (auto simp: Upsample_bilinear2_def)

lemma ConvTranspose2d_forward_InrD:
  assumes "ConvTranspose2d_forward ct x = Inr y"
  shows "1 \<le> ct_in_channels ct" and "size1 x = ct_in_channels ct"
    and "size0 x \<noteq> 0 \<longrightarrow> 1 \<le> size2 x" and "size0 x \<noteq> 0 \<longrightarrow> 1 \<le> size3 x"
    and "size0 y = size0 x" and "size1 y = ct_out_channels ct"
    and "size2 y = 2 * size2 x" and "size3 y = 2 * size3 x"
    and "1 \<le> ct_out_channels ct"
  using assms by (auto simp: ConvTranspose2d_forward_def split: if_splits)

lemma ConvTranspose2d_forward_ok:
  assumes "1 \<le> ct_in_channels ct" and "size1 x = ct_in_channels ct"
    and "size0 x \<noteq> 0 \<longrightarrow> 1 \<le> size2 x \<and> 1 \<le> size3 x" and "1 \<le> ct_out_channels ct"
  shows "\<exists>y. ConvTranspose2d_forward ct x = Inr y"
  using assms by (auto simp: ConvTranspose2d_forward_def)

lemma pad_to_size:
  fixes x :: tensor and h w :: nat
  defines "dY \<equiv> int h - int (size2 x)" and "dX \<equiv> int w - int (size3 x)"
  shows "\<exists>z. pad x (dX div 2) (dX - dX div 2) (dY div 2) (dY - dY div 2) = Inr z
           \<and> size0 z = size0 x \<and> size1 z = size1 x \<and> size2 z = h \<and> size3 z = w"
  by (simp add: pad_def dX_def dY_def)

lemma cat_InrD:
  assumes "cat a b = Inr y"
  shows "size0 a = size0 b" and "size2 a = size2 b" and "size3 a = size3 b"
    and "size0 y = size0 a" and "size1 y = size1 a + size1 b"
    and "size2 y = size2 a" and "size3 y = size3 a"
  using assms by (auto simp: cat_def split: if_splits)

lemma cat_ok:
  assumes "size0 a = size0 b" and "size2 a = size2 b" and "size3 a = size3 b"
  shows "\<exists>y. cat a b = Inr y"
  using assms by (auto simp: cat_def)

lemma Up_forward_up_fails:
  assumes "up_forward (up m) x1 = Inl e"
  shows "Up_forward training m x1 x2 = Inl e"
  using assms by (simp add: Up_forward_def)

lemma Up_forward_cat_fails:
  assumes u: "up_forward (up m) x1 = Inr u" and n: "size0 u \<noteq> size0 x2"
  shows "Up_forward training m x1 x2 = Inl CatMismatch"
proof -
  from pad_to_size [of u "size3 x2" "size2 x2"] obtain z where
    z: "pad u ((int (size3 x2) - int (size3 u)) div 2)
          (int (size3 x2) - int (size3 u) - (int (size3 x2) - int (size3 u)) div 2)
          ((int (size2 x2) - int (size2 u)) div 2)
          (int (size2 x2) - int (size2 u) - (int (size2 x2) - int (size2 u)) div 2) = Inr z"
    and Z: "size0 z = size0 u"
    by blast
  from n Z have "cat x2 z = Inl CatMismatch"
    by (auto simp: cat_def)
  with u z show ?thesis
    by (simp add: Up_forward_def Let_def)
qed

lemma Up_forward_unfold:
  assumes u: "up_forward (up m) x1 = Inr u" and n: "size0 u = size0 x2"
  shows "\<exists>c. Up_forward training m x1 x2 = DoubleConv_forward training (up_conv m) c
           \<and> size0 c = size0 x2 \<and> size1 c = size1 x2 + size1 u
           \<and> size2 c = size2 x2 \<and> size3 c = size3 x2"
proof -
  from pad_to_size [of u "size3 x2" "size2 x2"] obtain z where
    z: "pad u ((int (size3 x2) - int (size3 u)) div 2)
          (int (size3 x2) - int (size3 u) - (int (size3 x2) - int (size3 u)) div 2)
          ((int (size2 x2) - int (size2 u)) div 2)
          (int (size2 x2) - int (size2 u) - (int (size2 x2) - int (size2 u)) div 2) = Inr z"
    and Z: "size0 z = size0 u" "size1 z = size1 u" "size2 z = size2 x2" "size3 z = size3 x2"
    by blast
  have "\<exists>c. cat x2 z = Inr c"
    by (rule cat_ok) (use n Z in auto)
  then obtain c where c: "cat x2 z = Inr c" ..
  note C = cat_InrD [OF c]
  from u z c have "Up_forward training m x1 x2 = DoubleConv_forward training (up_conv m) c"
    by (simp add: Up_forward_def Let_def)
  with C Z show ?thesis by auto
qed

lemma Up_init_Inr:
  "Up_init i o' bilinear nrm leaky ws = Inr m \<longleftrightarrow>
     (\<exists>dc. DoubleConv_init i o' nrm leaky (snd ws) = Inr dc \<and>
        (if bilinear then m = \<lparr>up = Upsample, up_conv = dc\<rparr>
         else m = \<lparr>up = ConvTranspose2d \<lparr>ct_in_channels = nat i, ct_out_channels = nat (i div 2),
                       ct_weight = fst (fst ws), ct_bias = snd (fst ws)\<rparr>, up_conv = dc\<rparr>))"
  by (auto simp: Up_init_def bind_eq_Inr ConvTranspose2d_init_def DoubleConv_init_Inr
      Conv2d_init_Inr)

lemma Up_init_up:
  assumes "Up_init i o' bilinear nrm leaky ws = Inr m"
  shows "bilinear \<longrightarrow> up m = Upsample"
    and "\<not> bilinear \<longrightarrow> (\<exists>ct. up m = ConvTranspose2d ct \<and> ct_in_channels ct = nat i
           \<and> ct_out_channels ct = nat (i div 2))"
proof -
  from assms obtain dc where d: "if bilinear then m = \<lparr>up = Upsample, up_conv = dc\<rparr>
         else m = \<lparr>up = ConvTranspose2d \<lparr>ct_in_channels = nat i, ct_out_channels = nat (i div 2),
                       ct_weight = fst (fst ws), ct_bias = snd (fst ws)\<rparr>, up_conv = dc\<rparr>"
    unfolding Up_init_Inr by blast
  show "bilinear \<longrightarrow> up m = Upsample"
    using d by (cases bilinear) simp_all
  show "\<not> bilinear \<longrightarrow> (\<exists>ct. up m = ConvTranspose2d ct \<and> ct_in_channels ct = nat i
           \<and> ct_out_channels ct = nat (i div 2))"
    using d by (cases bilinear) simp_all
qed

lemma up_forward_InrD':
  assumes m: "Up_init i o' bilinear nrm leaky ws = Inr m"
    and u: "up_forward (up m) x1 = Inr u"
  shows "1 \<le> size1 x1 \<and> (bilinear \<or> size0 x1 \<noteq> 0 \<longrightarrow> 1 \<le> size2 x1) \<and>
      (bilinear \<or> size0 x1 \<noteq> 0 \<longrightarrow> 1 \<le> size3 x1) \<and>
      (\<not> bilinear \<longrightarrow> size1 x1 = nat i) \<and> size0 u = size0 x1 \<and>
      size1 u = up_channels bilinear i x1 \<and>
      size2 u = 2 * size2 x1 \<and> size3 u = 2 * size3 x1 \<and> (\<not> bilinear \<longrightarrow> 2 \<le> i)"
proof (cases bilinear)
  case True
  with Up_init_up(1) [OF m] u have "Upsample_bilinear2 x1 = Inr u"
    by simp
  from Upsample_bilinear2_InrD [OF this] True show ?thesis
    by (simp add: up_channels_def)
next
  case False
  with Up_init_up(2) [OF m] obtain ct where ct: "up m = ConvTranspose2d ct"
    "ct_in_channels ct = nat i" "ct_out_channels ct = nat (i div 2)"
    by blast
  with u have "ConvTranspose2d_forward ct x1 = Inr u" by simp
  note T = ConvTranspose2d_forward_InrD [OF this]
  from T(9) ct(3) have "2 \<le> i"
    by (cases "2 \<le> i") simp_all
  with T False ct show ?thesis
    by (simp add: up_channels_def)
qed

lemma up_forward_InrD:
  assumes "Up_init i o' bilinear nrm leaky ws = Inr m"
    and "up_forward (up m) x1 = Inr u"
  shows "1 \<le> size1 x1" and "bilinear \<or> size0 x1 \<noteq> 0 \<longrightarrow> 1 \<le> size2 x1"
    and "bilinear \<or> size0 x1 \<noteq> 0 \<longrightarrow> 1 \<le> size3 x1"
    and "\<not> bilinear \<longrightarrow> size1 x1 = nat i"
    and "size0 u = size0 x1" and "size1 u = up_channels bilinear i x1"
    and "size2 u = 2 * size2 x1" and "size3 u = 2 * size3 x1"
    and "\<not> bilinear \<longrightarrow> 2 \<le> i"
  using up_forward_InrD' [OF assms] by simp_all

lemma up_forward_ok:
  assumes m: "Up_init i o' bilinear nrm leaky ws = Inr m"
    and h: "1 \<le> size1 x1" "bilinear \<or> size0 x1 \<noteq> 0 \<longrightarrow> 1 \<le> size2 x1 \<and> 1 \<le> size3 x1"
      "\<not> bilinear \<longrightarrow> size1 x1 = nat i \<and> 2 \<le> i"
  shows "\<exists>u. up_forward (up m) x1 = Inr u"
proof (cases bilinear)
  case True
  with Up_init_up(1) [OF m] have "up m = Upsample" by simp
  moreover from True h(2) have "1 \<le> size2 x1" "1 \<le> size3 x1"
    by simp_all
  from Upsample_bilinear2_ok [OF h(1) this] have "\<exists>u. Upsample_bilinear2 x1 = Inr u" .
  ultimately show ?thesis by simp
next
  case False
  with Up_init_up(2) [OF m] obtain ct where ct: "up m = ConvTranspose2d ct"
    "ct_in_channels ct = nat i" "ct_out_channels ct = nat (i div 2)"
    by blast
  from False h(3) have i: "2 \<le> i" "size1 x1 = nat i"
    by simp_all
  from i(1) have "1 \<le> i div 2"
    by simp
  with ct(3) have o: "1 \<le> ct_out_channels ct"
    by simp
  have "\<exists>u. ConvTranspose2d_forward ct x1 = Inr u"
    by (rule ConvTranspose2d_forward_ok) (use h i o ct in auto)
  with ct show ?thesis by simp
qed

lemma Up_init_conv:
  assumes "Up_init i o' bilinear nrm leaky ws = Inr m"
  shows "DoubleConv_init i o' nrm leaky (snd ws) = Inr (up_conv m)"
  using assms by (auto simp: Up_init_Inr split: if_splits)

lemma Up_forward_InrD:
  assumes m: "Up_init i o' bilinear nrm leaky ws = Inr m"
    and f: "Up_forward training m x1 x2 = Inr y"
  shows "up_cond training bilinear nrm i o' x1 x2"
    and "size0 y = size0 x2" and "size1 y = nat o'"
    and "size2 y = size2 x2" and "size3 y = size3 x2"
proof -
  from f obtain u where u: "up_forward (up m) x1 = Inr u"
    by (cases "up_forward (up m) x1") (auto simp: Up_forward_up_fails)
  note U = up_forward_InrD [OF m u]
  have n: "size0 u = size0 x2"
    using Up_forward_cat_fails [OF u, of x2 training] f by auto
  from Up_forward_unfold [OF u n, of training] f obtain c where
    c: "DoubleConv_forward training (up_conv m) c = Inr y"
    and C: "size0 c = size0 x2" "size1 c = size1 x2 + size1 u"
      "size2 c = size2 x2" "size3 c = size3 x2"
    by auto
  note D = DoubleConv_forward_InrD [OF Up_init_conv [OF m] c]
  from D(1) U C n show "up_cond training bilinear nrm i o' x1 x2"
    by (auto simp: up_cond_def dc_cond_def)
  from D C show "size0 y = size0 x2" "size1 y = nat o'" "size2 y = size2 x2" "size3 y = size3 x2"
    by auto
qed

lemma Up_forward_ok:
  assumes m: "Up_init i o' bilinear nrm leaky ws = Inr m"
    and h: "up_cond training bilinear nrm i o' x1 x2"
  shows "\<exists>y. Up_forward training m x1 x2 = Inr y"
proof -
  have "\<exists>u. up_forward (up m) x1 = Inr u"
    by (rule up_forward_ok [OF m]) (use h in \<open>auto simp: up_cond_def\<close>)
  then obtain u where u: "up_forward (up m) x1 = Inr u" ..
  note U = up_forward_InrD [OF m u]
  from U h have n: "size0 u = size0 x2" by (simp add: up_cond_def)
  from Up_forward_unfold [OF u n, of training] obtain c where
    c: "Up_forward training m x1 x2 = DoubleConv_forward training (up_conv m) c"
    and C: "size0 c = size0 x2" "size1 c = size1 x2 + size1 u"
      "size2 c = size2 x2" "size3 c = size3 x2"
    by auto
  have "1 \<le> i"
    using h by (cases bilinear; cases "1 \<le> i") (auto simp: up_cond_def up_channels_def)
  then have "dc_cond training nrm i o' c"
    using h C U by (auto simp: up_cond_def dc_cond_def)
  from DoubleConv_forward_ok [OF Up_init_conv [OF m] this] c show ?thesis by simp
qed

text \<open>OutConv\<close>

lemma OutConv_init_Inr:
  "OutConv_init i o' act ws = Inr m \<longleftrightarrow>
     0 \<le> i \<and> 0 \<le> o' \<and>
     m = \<lparr>oconv = [Conv2d \<lparr>in_channels = nat i, out_channels = nat o', kernel_size = 3, padding = 1,
             weight = fst ws, bias = snd ws\<rparr>, if act then Sigmoid else Identity]\<rparr>"
  by (auto simp: OutConv_init_def bind_eq_Inr Conv2d_init_Inr)

lemma OutConv_init_oconv:
  assumes "OutConv_init i o' act ws = Inr m"
  shows "\<exists>cv. oconv m = [Conv2d cv, if act then Sigmoid else Identity]
    \<and> in_channels cv = nat i \<and> out_channels cv = nat o' \<and> kernel_size cv = 3
    \<and> padding cv = 1 \<and> 0 \<le> o'"
  using assms unfolding OutConv_init_Inr by simp

lemma OutConv_forward_InrD:
  assumes m: "OutConv_init i o' act ws = Inr m"
    and f: "OutConv_forward training m x = Inr y"
  shows "1 \<le> o' \<and> size1 x = nat i \<and> 1 \<le> size2 x \<and> 1 \<le> size3 x"
    and "size0 y = size0 x" and "size1 y = (if size1 x = 0 then 0 else nat o')"
    and "size2 y = size2 x" and "size3 y = size3 x"
proof -
  from m obtain cv where cv: "oconv m = [Conv2d cv, if act then Sigmoid else Identity]"
    "in_channels cv = nat i" "out_channels cv = nat o'" "kernel_size cv = 3" "padding cv = 1"
    "0 \<le> o'"
    using OutConv_init_oconv [OF m] by blast
  from f cv(1) obtain a where a: "Conv2d_forward cv x = Inr a"
    and y: "y = (if act then pointwise sigmoid a else a)"
    by (auto simp: OutConv_forward_def split: sum.splits if_splits)
  note A = Conv2d_forward_InrD [OF a, unfolded cv]
  from A cv(6) show "1 \<le> o' \<and> size1 x = nat i \<and> 1 \<le> size2 x \<and> 1 \<le> size3 x" by auto
  from A y show "size0 y = size0 x" "size1 y = (if size1 x = 0 then 0 else nat o')"
    "size2 y = size2 x" "size3 y = size3 x"
    by auto
qed

lemma OutConv_forward_ok:
  assumes m: "OutConv_init i o' act ws = Inr m"
    and h: "oc_cond i o' x"
  shows "\<exists>y. OutConv_forward training m x = Inr y"
proof -
  from m obtain cv where cv: "oconv m = [Conv2d cv, if act then Sigmoid else Identity]"
    "in_channels cv = nat i" "out_channels cv = nat o'" "kernel_size cv = 3" "padding cv = 1"
    using OutConv_init_oconv [OF m] by blast
  have "\<exists>a. Conv2d_forward cv x = Inr a"
    by (rule Conv2d_forward_ok) (use h cv in \<open>auto simp: oc_cond_def\<close>)
  then obtain a where a: "Conv2d_forward cv x = Inr a" ..
  with cv(1) show ?thesis by (simp add: OutConv_forward_def)
qed

lemma sigmoid_range: "0 \<le> sigmoid v" "sigmoid v \<le> 1"
proof -
  have "0 < exp (- v)" by simp
  then show "0 \<le> sigmoid v" "sigmoid v \<le> 1"
    by (simp_all add: sigmoid_def add_pos_pos)
qed

lemma bidx_less [simp]: "i < a \<Longrightarrow> bidx a i = i"
  by (auto simp: bidx_def)

lemma bidx_one [simp]: "bidx (Suc 0) i = 0"
  by (simp add: bidx_def)

lemma PALayer_init_Inr:
  "PALayer_init channel ws = Inr m \<longleftrightarrow>
     0 \<le> channel \<and>
     m = \<lparr>pa = [Conv2d \<lparr>in_channels = nat channel, out_channels = nat (channel div 8),
                   kernel_size = 1, padding = 0, weight = fst (fst ws), bias = snd (fst ws)\<rparr>,
                ReLU,
                Conv2d \<lparr>in_channels = nat (channel div 8), out_channels = 1,
                   kernel_size = 1, padding = 0, weight = fst (snd ws), bias = snd (snd ws)\<rparr>,
                Sigmoid]\<rparr>"
  by (auto simp: PALayer_init_def bind_eq_Inr Conv2d_init_Inr)

lemma CALayer_init_Inr:
  "CALayer_init channel ws = Inr m \<longleftrightarrow>
     0 \<le> channel \<and>
     m = \<lparr>ca = [Conv2d \<lparr>in_channels = nat channel, out_channels = nat (channel div 8),
                   kernel_size = 1, padding = 0, weight = fst (fst ws), bias = snd (fst ws)\<rparr>,
                ReLU,
                Conv2d \<lparr>in_channels = nat (channel div 8), out_channels = nat channel,
                   kernel_size = 1, padding = 0, weight = fst (snd ws), bias = snd (snd ws)\<rparr>,
                Sigmoid]\<rparr>"
  by (auto simp: CALayer_init_def bind_eq_Inr Conv2d_init_Inr)

lemma PALayer_init_pa:
  assumes "PALayer_init channel ws = Inr m"
  shows "\<exists>c0 c2. pa m = [Conv2d c0, ReLU, Conv2d c2, Sigmoid]
    \<and> in_channels c0 = nat channel \<and> out_channels c0 = nat (channel div 8)
    \<and> kernel_size c0 = 1 \<and> padding c0 = 0
    \<and> in_channels c2 = nat (channel div 8) \<and> out_channels c2 = 1
    \<and> kernel_size c2 = 1 \<and> padding c2 = 0 \<and> 0 \<le> channel"
  using assms unfolding PALayer_init_Inr by simp

lemma CALayer_init_ca:
  assumes "CALayer_init channel ws = Inr m"
  shows "\<exists>c0 c2. ca m = [Conv2d c0, ReLU, Conv2d c2, Sigmoid]
    \<and> in_channels c0 = nat channel \<and> out_channels c0 = nat (channel div 8)
    \<and> kernel_size c0 = 1 \<and> padding c0 = 0
    \<and> in_channels c2 = nat (channel div 8) \<and> out_channels c2 = nat channel
    \<and> kernel_size c2 = 1 \<and> padding c2 = 0 \<and> 0 \<le> channel"
  using assms unfolding CALayer_init_Inr by simp

text \<open>The gate pipeline: 1x1 convolution, rectifier, 1x1 convolution, sigmoid.\<close>

lemma gate_InrD:
  assumes c0: "in_channels c0 = ci" "out_channels c0 = ch" "kernel_size c0 = 1" "padding c0 = 0"
    and c2: "in_channels c2 = ch" "out_channels c2 = co" "kernel_size c2 = 1" "padding c2 = 0"
    and s: "Sequential training [Conv2d c0, ReLU, Conv2d c2, Sigmoid] x = Inr g"
  shows "1 \<le> ch" and "1 \<le> co" and "size1 x = ci" and "1 \<le> size2 x" and "1 \<le> size3 x"
    and "size0 g = size0 x" and "size1 g = co" and "size2 g = size2 x" and "size3 g = size3 x"
    and "0 \<le> elem g n c h w" and "elem g n c h w \<le> 1"
proof -
  from s obtain a where a: "Conv2d_forward c0 x = Inr a"
    and s1: "Sequential training [Conv2d c2, Sigmoid] (pointwise relu a) = Inr g"
    by (auto split: sum.splits)
  from s1 obtain b where b: "Conv2d_forward c2 (pointwise relu a) = Inr b"
    and g: "g = pointwise sigmoid b"
    by (auto split: sum.splits)
  note A = Conv2d_forward_InrD [OF a, unfolded c0]
  note B = Conv2d_forward_InrD [OF b, unfolded c2]
  from A(1) A(6) B(2) have x: "size1 x \<noteq> 0" "size1 a \<noteq> 0"
    by (auto split: if_splits)
  from A B g x show "1 \<le> ch" "1 \<le> co" "size1 x = ci" "1 \<le> size2 x" "1 \<le> size3 x"
    "size0 g = size0 x" "size1 g = co" "size2 g = size2 x" "size3 g = size3 x"
    by auto
  from g show "0 \<le> elem g n c h w" "elem g n c h w \<le> 1"
    by (simp_all add: sigmoid_range)
qed

lemma gate_ok:
  assumes c0: "in_channels c0 = ci" "out_channels c0 = ch" "kernel_size c0 = 1" "padding c0 = 0"
    and c2: "in_channels c2 = ch" "out_channels c2 = co" "kernel_size c2 = 1" "padding c2 = 0"
    and h: "1 \<le> ch" "1 \<le> co" "size1 x = ci" "1 \<le> size2 x" "1 \<le> size3 x"
    and i: "1 \<le> ci"
  shows "\<exists>g. Sequential training [Conv2d c0, ReLU, Conv2d c2, Sigmoid] x = Inr g"
proof -
  have "\<exists>a. Conv2d_forward c0 x = Inr a"
    by (rule Conv2d_forward_ok) (use h c0 in auto)
  then obtain a where a: "Conv2d_forward c0 x = Inr a" ..
  note A = Conv2d_forward_InrD [OF a, unfolded c0]
  have "\<exists>b. Conv2d_forward c2 (pointwise relu a) = Inr b"
    by (rule Conv2d_forward_ok) (use h i c2 A in auto)
  then obtain b where b: "Conv2d_forward c2 (pointwise relu a) = Inr b" ..
  from a b show ?thesis by simp
qed

lemma mul_InrD_same:
  assumes "mul x g = Inr y"
    and "size0 g = size0 x" and "size1 g = size1 x \<or> size1 g = 1"
    and "size2 g = size2 x \<or> size2 g = 1" and "size3 g = size3 x \<or> size3 g = 1"
  shows "size0 y = size0 x" and "size1 y = size1 x" and "size2 y = size2 x" and "size3 y = size3 x"
    and "n < size0 x \<Longrightarrow> c < size1 x \<Longrightarrow> h < size2 x \<Longrightarrow> w < size3 x \<Longrightarrow>
      elem y n c h w = elem x n c h w
        * elem g n (bidx (size1 g) c) (bidx (size2 g) h) (bidx (size3 g) w)"
  using assms by (auto simp: mul_def bsize_def split: if_splits)

lemma mul_ok_same:
  assumes "size0 g = size0 x" and "size1 g = size1 x \<or> size1 g = 1"
    and "size2 g = size2 x \<or> size2 g = 1" and "size3 g = size3 x \<or> size3 g = 1"
  shows "\<exists>y. mul x g = Inr y"
  using assms by (auto simp: mul_def bsize_def)

lemma PALayer_forward_InrD:
  assumes m: "PALayer_init channel ws = Inr m"
    and f: "PALayer_forward training m x = Inr y"
  shows "att_cond channel x"
    and "\<exists>g. Sequential training (pa m) x = Inr g \<and> mul x g = Inr y
          \<and> size0 g = size0 x \<and> size1 g = 1 \<and> size2 g = size2 x \<and> size3 g = size3 x
          \<and> (\<forall>n c h w. 0 \<le> elem g n c h w \<and> elem g n c h w \<le> 1)"
    and "size0 y = size0 x" and "size1 y = size1 x" and "size2 y = size2 x" and "size3 y = size3 x"
proof -
  from m obtain c0 c2 where pm: "pa m = [Conv2d c0, ReLU, Conv2d c2, Sigmoid]"
    and c0: "in_channels c0 = nat channel" "out_channels c0 = nat (channel div 8)"
      "kernel_size c0 = 1" "padding c0 = 0"
    and c2: "in_channels c2 = nat (channel div 8)" "out_channels c2 = 1"
      "kernel_size c2 = 1" "padding c2 = 0"
    and ch: "0 \<le> channel"
    using PALayer_init_pa [OF m] by blast
  from f obtain g where g: "Sequential training (pa m) x = Inr g" and y: "mul x g = Inr y"
    by (auto simp: PALayer_forward_def bind_eq_Inr)
  note G = gate_InrD [OF c0 c2 g [unfolded pm]]
  from G(1) ch have "8 \<le> channel" by linarith
  with G show "att_cond channel x" by (simp add: att_cond_def)
  from g y G show "\<exists>g. Sequential training (pa m) x = Inr g \<and> mul x g = Inr y
          \<and> size0 g = size0 x \<and> size1 g = 1 \<and> size2 g = size2 x \<and> size3 g = size3 x
          \<and> (\<forall>n c h w. 0 \<le> elem g n c h w \<and> elem g n c h w \<le> 1)"
    by auto
  from G have "size0 g = size0 x" "size1 g = size1 x \<or> size1 g = 1"
    "size2 g = size2 x \<or> size2 g = 1" "size3 g = size3 x \<or> size3 g = 1"
    by auto
  from mul_InrD_same(1-4) [OF y this]
  show "size0 y = size0 x" "size1 y = size1 x" "size2 y = size2 x" "size3 y = size3 x" .
qed

lemma PALayer_forward_ok:
  assumes m: "PALayer_init channel ws = Inr m"
    and h: "att_cond channel x"
  shows "\<exists>y. PALayer_forward training m x = Inr y"
proof -
  from m obtain c0 c2 where pm: "pa m = [Conv2d c0, ReLU, Conv2d c2, Sigmoid]"
    and c0: "in_channels c0 = nat channel" "out_channels c0 = nat (channel div 8)"
      "kernel_size c0 = 1" "padding c0 = 0"
    and c2: "in_channels c2 = nat (channel div 8)" "out_channels c2 = 1"
      "kernel_size c2 = 1" "padding c2 = 0"
    using PALayer_init_pa [OF m] by blast
  from h have H: "1 \<le> nat (channel div 8)" "(1::nat) \<le> 1" "size1 x = nat channel"
    "1 \<le> size2 x" "1 \<le> size3 x"
    by (auto simp: att_cond_def)
  from h have "8 \<le> channel"
    by (simp add: att_cond_def)
  then have I: "1 \<le> nat channel"
    by linarith
  from gate_ok [OF c0 c2 H I] obtain g where g: "Sequential training (pa m) x = Inr g"
    using pm by auto
  note G = gate_InrD [OF c0 c2 g [unfolded pm]]
  have "\<exists>y. mul x g = Inr y"
    by (rule mul_ok_same) (use G in auto)
  with g show ?thesis by (auto simp: PALayer_forward_def)
qed

lemma AdaptiveAvgPool2d_1_InrD:
  assumes "AdaptiveAvgPool2d_1 x = Inr y"
  shows "size0 y = size0 x" and "size1 y = size1 x" and "size2 y = 1" and "size3 y = 1"
  using assms by (auto simp: AdaptiveAvgPool2d_1_def)

lemma AdaptiveAvgPool2d_1_ok:
  shows "\<exists>y. AdaptiveAvgPool2d_1 x = Inr y"
  by (simp add: AdaptiveAvgPool2d_1_def)

lemma CALayer_forward_InrD:
  assumes m: "CALayer_init channel ws = Inr m"
    and f: "CALayer_forward training m x = Inr y"
  shows "ca_cond channel x"
    and "\<exists>a g. AdaptiveAvgPool2d_1 x = Inr a \<and> Sequential training (ca m) a = Inr g
          \<and> mul x g = Inr y
          \<and> size0 g = size0 x \<and> size1 g = size1 x \<and> size2 g = 1 \<and> size3 g = 1
          \<and> (\<forall>n c h w. 0 \<le> elem g n c h w \<and> elem g n c h w \<le> 1)"
    and "size0 y = size0 x" and "size1 y = size1 x" and "size2 y = size2 x" and "size3 y = size3 x"
proof -
  from m obtain c0 c2 where pm: "ca m = [Conv2d c0, ReLU, Conv2d c2, Sigmoid]"
    and c0: "in_channels c0 = nat channel" "out_channels c0 = nat (channel div 8)"
      "kernel_size c0 = 1" "padding c0 = 0"
    and c2: "in_channels c2 = nat (channel div 8)" "out_channels c2 = nat channel"
      "kernel_size c2 = 1" "padding c2 = 0"
    and ch: "0 \<le> channel"
    using CALayer_init_ca [OF m] by blast
  from f obtain a g where a: "AdaptiveAvgPool2d_1 x = Inr a"
    and g: "Sequential training (ca m) a = Inr g" and y: "mul x g = Inr y"
    by (auto simp: CALayer_forward_def bind_eq_Inr)
  note A = AdaptiveAvgPool2d_1_InrD [OF a]
  note G = gate_InrD [OF c0 c2 g [unfolded pm]]
  from G(1) ch have "8 \<le> channel" by linarith
  with G A show "ca_cond channel x" by (simp add: ca_cond_def)
  from a g y G A show "\<exists>a g. AdaptiveAvgPool2d_1 x = Inr a \<and> Sequential training (ca m) a = Inr g
          \<and> mul x g = Inr y
          \<and> size0 g = size0 x \<and> size1 g = size1 x \<and> size2 g = 1 \<and> size3 g = 1
          \<and> (\<forall>n c h w. 0 \<le> elem g n c h w \<and> elem g n c h w \<le> 1)"
    by auto
  from G A have "size0 g = size0 x" "size1 g = size1 x \<or> size1 g = 1"
    "size2 g = size2 x \<or> size2 g = 1" "size3 g = size3 x \<or> size3 g = 1"
    by auto
  from mul_InrD_same(1-4) [OF y this]
  show "size0 y = size0 x" "size1 y = size1 x" "size2 y = size2 x" "size3 y = size3 x" .
qed

lemma CALayer_forward_ok:
  assumes m: "CALayer_init channel ws = Inr m"
    and h: "ca_cond channel x"
  shows "\<exists>y. CALayer_forward training m x = Inr y"
proof -
  from m obtain c0 c2 where pm: "ca m = [Conv2d c0, ReLU, Conv2d c2, Sigmoid]"
    and c0: "in_channels c0 = nat channel" "out_channels c0 = nat (channel div 8)"
      "kernel_size c0 = 1" "padding c0 = 0"
    and c2: "in_channels c2 = nat (channel div 8)" "out_channels c2 = nat channel"
      "kernel_size c2 = 1" "padding c2 = 0"
    using CALayer_init_ca [OF m] by blast
  have "\<exists>a. AdaptiveAvgPool2d_1 x = Inr a"
    by (rule AdaptiveAvgPool2d_1_ok)
  then obtain a where a: "AdaptiveAvgPool2d_1 x = Inr a" ..
  note A = AdaptiveAvgPool2d_1_InrD [OF a]
  from h A have H: "1 \<le> nat (channel div 8)" "1 \<le> nat channel" "size1 a = nat channel"
    "1 \<le> size2 a" "1 \<le> size3 a"
    by (auto simp: ca_cond_def)
  from gate_ok [OF c0 c2 H H(2)] obtain g where g: "Sequential training (ca m) a = Inr g"
    using pm by auto
  note G = gate_InrD [OF c0 c2 g [unfolded pm]]
  have "\<exists>y. mul x g = Inr y"
    by (rule mul_ok_same) (use G A in auto)
  with a g show ?thesis by (auto simp: CALayer_forward_def)
qed

text \<open>The attention pipeline: CALayer, then PALayer.\<close>

lemma attention_init_Inr:
  "attention_init o' ws = Inr m \<longleftrightarrow>
     (\<exists>a0 a1. CALayer_init o' (fst ws) = Inr a0 \<and> PALayer_init o' (snd ws) = Inr a1
        \<and> m = \<lparr>att0 = a0, att1 = a1\<rparr>)"
  by (auto simp: attention_init_def bind_eq_Inr)

lemma attention_init_ok:
  assumes "0 \<le> o'"
  shows "\<exists>m. attention_init o' ws = Inr m"
  using assms by (simp add: attention_init_Inr CALayer_init_Inr PALayer_init_Inr)

lemma attention_forward_InrD:
  assumes m: "attention_init o' ws = Inr m"
    and f: "attention_forward training m x = Inr y"
  shows "att_cond o' x"
    and "size0 y = size0 x" and "size1 y = size1 x" and "size2 y = size2 x" and "size3 y = size3 x"
proof -
  from m obtain a0 a1 where a0: "CALayer_init o' (fst ws) = Inr a0"
    and a1: "PALayer_init o' (snd ws) = Inr a1" and mm: "att0 m = a0" "att1 m = a1"
    by (auto simp: attention_init_Inr)
  from f mm obtain z where z: "CALayer_forward training a0 x = Inr z"
    and y: "PALayer_forward training a1 z = Inr y"
    by (auto simp: attention_forward_def bind_eq_Inr)
  note Z = CALayer_forward_InrD [OF a0 z]
  note Y = PALayer_forward_InrD [OF a1 y]
  from Y(1) Z show "att_cond o' x" by (simp add: att_cond_def)
  from Z Y show "size0 y = size0 x" "size1 y = size1 x" "size2 y = size2 x" "size3 y = size3 x"
    by auto
qed

lemma attention_forward_ok:
  assumes m: "attention_init o' ws = Inr m"
    and h: "att_cond o' x"
  shows "\<exists>y. attention_forward training m x = Inr y"
proof -
  from m obtain a0 a1 where a0: "CALayer_init o' (fst ws) = Inr a0"
    and a1: "PALayer_init o' (snd ws) = Inr a1" and mm: "att0 m = a0" "att1 m = a1"
    by (auto simp: attention_init_Inr)
  from h have "ca_cond o' x"
    by (simp add: att_cond_def ca_cond_def)
  from CALayer_forward_ok [OF a0 this] obtain z where z: "CALayer_forward training a0 x = Inr z"
    by blast
  note Z = CALayer_forward_InrD [OF a0 z]
  from h Z have "att_cond o' z" by (simp add: att_cond_def)
  from PALayer_forward_ok [OF a1 this] z mm show ?thesis
    by (auto simp: attention_forward_def)
qed

lemma AttentiveDoubleConv_init_Inr:
  "AttentiveDoubleConv_init i o' nrm leaky ws = Inr m \<longleftrightarrow>
     (\<exists>d a. DoubleConv_init i o' nrm leaky (fst ws) = Inr d \<and> attention_init o' (snd ws) = Inr a
        \<and> m = \<lparr>adc_conv = d, adc_attention = a\<rparr>)"
  by (auto simp: AttentiveDoubleConv_init_def bind_eq_Inr)

lemma AttentiveDown_init_Inr:
  "AttentiveDown_init i o' nrm leaky ws = Inr m \<longleftrightarrow>
     (\<exists>d a. Down_init i o' nrm leaky (fst ws) = Inr d \<and> attention_init o' (snd ws) = Inr a
        \<and> m = \<lparr>ad_down = d, ad_attention = a\<rparr>)"
  by (auto simp: AttentiveDown_init_def bind_eq_Inr)

lemma AttentiveUp_init_Inr:
  "AttentiveUp_init i o' bilinear nrm leaky ws = Inr m \<longleftrightarrow>
     (\<exists>u a. Up_init i o' bilinear nrm leaky (fst ws) = Inr u \<and> attention_init o' (snd ws) = Inr a
        \<and> m = \<lparr>au_up = u, au_attention = a\<rparr>)"
  by (auto simp: AttentiveUp_init_def bind_eq_Inr)

lemma AttentiveDoubleConv_forward_InrD:
  assumes m: "AttentiveDoubleConv_init i o' nrm leaky ws = Inr m"
    and f: "AttentiveDoubleConv_forward training m x = Inr y"
  shows "dc_cond training nrm i o' x" and "8 \<le> o'"
    and "size0 y = size0 x" and "size1 y = nat o'" and "size2 y = size2 x" and "size3 y = size3 x"
proof -
  from m obtain d a where d: "DoubleConv_init i o' nrm leaky (fst ws) = Inr d"
    and a: "attention_init o' (snd ws) = Inr a" and mm: "adc_conv m = d" "adc_attention m = a"
    by (auto simp: AttentiveDoubleConv_init_Inr)
  from f mm obtain z where z: "DoubleConv_forward training d x = Inr z"
    and y: "attention_forward training a z = Inr y"
    by (auto simp: AttentiveDoubleConv_forward_def bind_eq_Inr)
  note Z = DoubleConv_forward_InrD [OF d z]
  note Y = attention_forward_InrD [OF a y]
  from Z show "dc_cond training nrm i o' x" by simp
  from Y show "8 \<le> o'" by (simp add: att_cond_def)
  from Z Y show "size0 y = size0 x" "size1 y = nat o'" "size2 y = size2 x" "size3 y = size3 x"
    by auto
qed

lemma AttentiveDoubleConv_forward_ok:
  assumes m: "AttentiveDoubleConv_init i o' nrm leaky ws = Inr m"
    and h: "dc_cond training nrm i o' x" "8 \<le> o'"
  shows "\<exists>y. AttentiveDoubleConv_forward training m x = Inr y"
proof -
  from m obtain d a where d: "DoubleConv_init i o' nrm leaky (fst ws) = Inr d"
    and a: "attention_init o' (snd ws) = Inr a" and mm: "adc_conv m = d" "adc_attention m = a"
    by (auto simp: AttentiveDoubleConv_init_Inr)
  from DoubleConv_forward_ok [OF d h(1)] obtain z
    where z: "DoubleConv_forward training d x = Inr z" by blast
  note Z = DoubleConv_forward_InrD [OF d z]
  from Z h have "att_cond o' z" by (simp add: att_cond_def dc_cond_def)
  from attention_forward_ok [OF a this] z mm show ?thesis
    by (auto simp: AttentiveDoubleConv_forward_def)
qed

lemma AttentiveDown_forward_InrD:
  assumes m: "AttentiveDown_init i o' nrm leaky ws = Inr m"
    and f: "AttentiveDown_forward training m x = Inr y"
  shows "down_cond training nrm i o' x" and "8 \<le> o'"
    and "size0 y = size0 x" and "size1 y = nat o'"
    and "size2 y = size2 x div 2" and "size3 y = size3 x div 2"
proof -
  from m obtain d a where d: "Down_init i o' nrm leaky (fst ws) = Inr d"
    and a: "attention_init o' (snd ws) = Inr a" and mm: "ad_down m = d" "ad_attention m = a"
    by (auto simp: AttentiveDown_init_Inr)
  from f mm obtain z where z: "Down_forward training d x = Inr z"
    and y: "attention_forward training a z = Inr y"
    by (auto simp: AttentiveDown_forward_def bind_eq_Inr)
  note Z = Down_forward_InrD [OF d z]
  note Y = attention_forward_InrD [OF a y]
  from Z show "down_cond training nrm i o' x" by simp
  from Y show "8 \<le> o'" by (simp add: att_cond_def)
  from Z Y show "size0 y = size0 x" "size1 y = nat o'"
    "size2 y = size2 x div 2" "size3 y = size3 x div 2"
    by auto
qed

lemma AttentiveDown_forward_ok:
  assumes m: "AttentiveDown_init i o' nrm leaky ws = Inr m"
    and h: "down_cond training nrm i o' x" "8 \<le> o'"
  shows "\<exists>y. AttentiveDown_forward training m x = Inr y"
proof -
  from m obtain d a where d: "Down_init i o' nrm leaky (fst ws) = Inr d"
    and a: "attention_init o' (snd ws) = Inr a" and mm: "ad_down m = d" "ad_attention m = a"
    by (auto simp: AttentiveDown_init_Inr)
  from Down_forward_ok [OF d h(1)] obtain z
    where z: "Down_forward training d x = Inr z" by blast
  note Z = Down_forward_InrD [OF d z]
  from Z h have "att_cond o' z" by (auto simp: att_cond_def down_cond_def)
  from attention_forward_ok [OF a this] z mm show ?thesis
    by (auto simp: AttentiveDown_forward_def)
qed

lemma AttentiveUp_forward_InrD:
  assumes m: "AttentiveUp_init i o' bilinear nrm leaky ws = Inr m"
    and f: "AttentiveUp_forward training m x1 x2 = Inr y"
  shows "up_cond training bilinear nrm i o' x1 x2" and "8 \<le> o'"
    and "size0 y = size0 x2" and "size1 y = nat o'"
    and "size2 y = size2 x2" and "size3 y = size3 x2"
proof -
  from m obtain u a where u: "Up_init i o' bilinear nrm leaky (fst ws) = Inr u"
    and a: "attention_init o' (snd ws) = Inr a" and mm: "au_up m = u" "au_attention m = a"
    by (auto simp: AttentiveUp_init_Inr)
  from f mm obtain z where z: "Up_forward training u x1 x2 = Inr z"
    and y: "attention_forward training a z = Inr y"
    by (auto simp: AttentiveUp_forward_def bind_eq_Inr)
  note Z = Up_forward_InrD [OF u z]
  note Y = attention_forward_InrD [OF a y]
  from Z show "up_cond training bilinear nrm i o' x1 x2" by simp
  from Y show "8 \<le> o'" by (simp add: att_cond_def)
  from Z Y show "size0 y = size0 x2" "size1 y = nat o'"
    "size2 y = size2 x2" "size3 y = size3 x2"
    by auto
qed

lemma AttentiveUp_forward_ok:
  assumes m: "AttentiveUp_init i o' bilinear nrm leaky ws = Inr m"
    and h: "up_cond training bilinear nrm i o' x1 x2" "8 \<le> o'"
  shows "\<exists>y. AttentiveUp_forward training m x1 x2 = Inr y"
proof -
  from m obtain u a where u: "Up_init i o' bilinear nrm leaky (fst ws) = Inr u"
    and a: "attention_init o' (snd ws) = Inr a" and mm: "au_up m = u" "au_attention m = a"
    by (auto simp: AttentiveUp_init_Inr)
  from Up_forward_ok [OF u h(1)] obtain z
    where z: "Up_forward training u x1 x2 = Inr z" by blast
  note Z = Up_forward_InrD [OF u z]
  from Z h have "att_cond o' z" by (auto simp: att_cond_def up_cond_def)
  from attention_forward_ok [OF a this] z mm show ?thesis
    by (auto simp: AttentiveUp_forward_def)
qed

lemma BaseNet_init_InrD:
  assumes "BaseNet_init i o' nrm ws = Inr m"
  shows "DoubleConv_init i 32 nrm True (w_inc ws) = Inr (inc m)"
    and "Down_init 32 64 nrm True (w_down1 ws) = Inr (down1 m)"
    and "Down_init 64 128 nrm True (w_down2 ws) = Inr (down2 m)"
    and "Down_init 128 128 nrm True (w_down3 ws) = Inr (down3 m)"
    and "Up_init 256 64 True nrm True (w_up1 ws) = Inr (up1 m)"
    and "Up_init 128 32 True nrm True (w_up2 ws) = Inr (up2 m)"
    and "Up_init 64 32 True nrm True (w_up3 ws) = Inr (up3 m)"
    and "OutConv_init 32 o' True (w_outc ws) = Inr (outc m)"
    and "n_channels m = i" and "n_classes m = o'"
  using assms unfolding BaseNet_init_def bind_eq_Inr by auto

lemma Down_init_ok:
  assumes "0 \<le> i" and "0 \<le> o'"
  shows "\<exists>m. Down_init i o' nrm leaky ws = Inr m"
  using DoubleConv_init_ok [OF assms, of nrm leaky ws] by (auto simp: Down_init_Inr)

lemma Up_init_ok:
  assumes "0 \<le> i" and "0 \<le> o'"
  shows "\<exists>m. Up_init i o' bilinear nrm leaky ws = Inr m"
  using DoubleConv_init_ok [OF assms, of nrm leaky "snd ws"]
  by (cases bilinear) (auto simp: Up_init_Inr)

lemma OutConv_init_ok:
  assumes "0 \<le> i" and "0 \<le> o'"
  shows "\<exists>m. OutConv_init i o' act ws = Inr m"
  using assms by (simp add: OutConv_init_Inr)

lemma BaseNet_init_ok:
  assumes "0 \<le> i" and "0 \<le> o'"
  shows "\<exists>m. BaseNet_init i o' nrm ws = Inr m"
proof -
  obtain a where a: "DoubleConv_init i 32 nrm True (w_inc ws) = Inr a"
    using DoubleConv_init_ok [of i 32 nrm True "w_inc ws"] assms by auto
  obtain b where b: "Down_init 32 64 nrm True (w_down1 ws) = Inr b"
    using Down_init_ok [of 32 64 nrm True "w_down1 ws"] by auto
  obtain c where c: "Down_init 64 128 nrm True (w_down2 ws) = Inr c"
    using Down_init_ok [of 64 128 nrm True "w_down2 ws"] by auto
  obtain d where d: "Down_init 128 128 nrm True (w_down3 ws) = Inr d"
    using Down_init_ok [of 128 128 nrm True "w_down3 ws"] by auto
  obtain e where e: "Up_init 256 64 True nrm True (w_up1 ws) = Inr e"
    using Up_init_ok [of 256 64 True nrm True "w_up1 ws"] by auto
  obtain f where f: "Up_init 128 32 True nrm True (w_up2 ws) = Inr f"
    using Up_init_ok [of 128 32 True nrm True "w_up2 ws"] by auto
  obtain g where g: "Up_init 64 32 True nrm True (w_up3 ws) = Inr g"
    using Up_init_ok [of 64 32 True nrm True "w_up3 ws"] by auto
  obtain h where h: "OutConv_init 32 o' True (w_outc ws) = Inr h"
    using OutConv_init_ok [of 32 o' True "w_outc ws"] assms by auto
  show ?thesis
    unfolding BaseNet_init_def by (simp add: a b c d e f g h)
qed

lemma BaseNet_init_nonneg:
  assumes "BaseNet_init i o' nrm ws = Inr m"
  shows "0 \<le> i" and "0 \<le> o'"
  using BaseNet_init_InrD(1,8) [OF assms]
  by (auto simp: DoubleConv_init_Inr Conv2d_init_Inr OutConv_init_Inr)

lemma nat_mult3_ne_1:
  fixes n a b :: nat
  assumes "2 \<le> a"
  shows "n * a * b \<noteq> 1"
  using assms by auto

lemma div2_div2: "(a::nat) div 2 div 2 = a div 4" and div4_div2: "(a::nat) div 4 div 2 = a div 8"
  by (simp_all add: div_mult2_eq [symmetric])

lemma parts_forward_InrD:
  assumes M: "DoubleConv_init i 32 nrm True w1 = Inr (inc m)"
      "Down_init 32 64 nrm True w2 = Inr (down1 m)"
      "Down_init 64 128 nrm True w3 = Inr (down2 m)"
      "Down_init 128 128 nrm True w4 = Inr (down3 m)"
      "Up_init 256 64 True nrm True w5 = Inr (up1 m)"
      "Up_init 128 32 True nrm True w6 = Inr (up2 m)"
      "Up_init 64 32 True nrm True w7 = Inr (up3 m)"
      "OutConv_init 32 o' act w8 = Inr (outc m)"
    and f: "BaseNet_forward training m x = Inr y"
  shows "base_cond training nrm i o' x"
    and "size0 y = size0 x" and "size1 y = nat o'" and "size2 y = size2 x" and "size3 y = size3 x"
proof -
  from f obtain x1 x2 x3 x4 u1 u2 u3 where
    x1: "DoubleConv_forward training (inc m) x = Inr x1" and
    x2: "Down_forward training (down1 m) x1 = Inr x2" and
    x3: "Down_forward training (down2 m) x2 = Inr x3" and
    x4: "Down_forward training (down3 m) x3 = Inr x4" and
    u1: "Up_forward training (up1 m) x4 x3 = Inr u1" and
    u2: "Up_forward training (up2 m) u1 x2 = Inr u2" and
    u3: "Up_forward training (up3 m) u2 x1 = Inr u3" and
    y: "OutConv_forward training (outc m) u3 = Inr y"
    unfolding BaseNet_forward_def bind_eq_Inr by blast
  note X1 = DoubleConv_forward_InrD [OF M(1) x1]
  note X2 = Down_forward_InrD [OF M(2) x2]
  note X3 = Down_forward_InrD [OF M(3) x3]
  note X4 = Down_forward_InrD [OF M(4) x4]
  note U3 = Up_forward_InrD [OF M(7) u3]
  note Y = OutConv_forward_InrD [OF M(8) y]
  have s3: "size0 x3 = size0 x" "size2 x3 = size2 x div 4" "size3 x3 = size3 x div 4"
    using X1 X2 X3 by (simp_all add: div2_div2)
  from X1(1) have "size1 x = nat i" "1 \<le> i" by (simp_all add: dc_cond_def)
  moreover from X4(1) s3 have "8 \<le> size2 x" "8 \<le> size3 x"
    "\<not> (nrm \<and> training \<and> size0 x * (size2 x div 8) * (size3 x div 8) = 1)"
    by (auto simp: down_cond_def div4_div2)
  moreover from Y(1) have "1 \<le> o'" by simp
  ultimately show "base_cond training nrm i o' x" by (simp add: base_cond_def)
  from Y U3 X1 show "size0 y = size0 x" "size1 y = nat o'" "size2 y = size2 x" "size3 y = size3 x"
    by auto
qed

lemma parts_forward_ok:
  assumes M: "DoubleConv_init i 32 nrm True w1 = Inr (inc m)"
      "Down_init 32 64 nrm True w2 = Inr (down1 m)"
      "Down_init 64 128 nrm True w3 = Inr (down2 m)"
      "Down_init 128 128 nrm True w4 = Inr (down3 m)"
      "Up_init 256 64 True nrm True w5 = Inr (up1 m)"
      "Up_init 128 32 True nrm True w6 = Inr (up2 m)"
      "Up_init 64 32 True nrm True w7 = Inr (up3 m)"
      "OutConv_init 32 o' act w8 = Inr (outc m)"
    and h: "base_cond training nrm i o' x"
  shows "\<exists>y. BaseNet_forward training m x = Inr y"
proof -
  from h have H: "1 \<le> o'" "size1 x = nat i" "8 \<le> size2 x" "8 \<le> size3 x"
    "\<not> (nrm \<and> training \<and> size0 x * (size2 x div 8) * (size3 x div 8) = 1)" "1 \<le> i"
    by (auto simp: base_cond_def)
  have "dc_cond training nrm i 32 x"
    using H nat_mult3_ne_1 [of "size2 x" "size0 x" "size3 x"] by (auto simp: dc_cond_def)
  from DoubleConv_forward_ok [OF M(1) this] obtain x1
    where x1: "DoubleConv_forward training (inc m) x = Inr x1" by blast
  note X1 = DoubleConv_forward_InrD(2-) [OF M(1) x1]
  have "down_cond training nrm 32 64 x1"
    using H X1 nat_mult3_ne_1 [of "size2 x div 2" "size0 x" "size3 x div 2"]
    by (auto simp: down_cond_def)
  from Down_forward_ok [OF M(2) this] obtain x2
    where x2: "Down_forward training (down1 m) x1 = Inr x2" by blast
  note X2 = Down_forward_InrD(2-) [OF M(2) x2, unfolded X1]
  have "down_cond training nrm 64 128 x2"
    using H X2 nat_mult3_ne_1 [of "size2 x div 4" "size0 x" "size3 x div 4"]
    by (auto simp: down_cond_def div2_div2)
  from Down_forward_ok [OF M(3) this] obtain x3
    where x3: "Down_forward training (down2 m) x2 = Inr x3" by blast
  note X3 = Down_forward_InrD(2-) [OF M(3) x3, unfolded X2 div2_div2]
  have "down_cond training nrm 128 128 x3"
    using H X3 by (auto simp: down_cond_def div4_div2)
  from Down_forward_ok [OF M(4) this] obtain x4
    where x4: "Down_forward training (down3 m) x3 = Inr x4" by blast
  note X4 = Down_forward_InrD(2-) [OF M(4) x4, unfolded X3 div4_div2]
  have "up_cond training True nrm 256 64 x4 x3"
    using H X3 X4 nat_mult3_ne_1 [of "size2 x div 4" "size0 x" "size3 x div 4"]
    by (auto simp: up_cond_def up_channels_def)
  from Up_forward_ok [OF M(5) this] obtain u1
    where u1: "Up_forward training (up1 m) x4 x3 = Inr u1" by blast
  note U1 = Up_forward_InrD(2-) [OF M(5) u1, unfolded X3]
  have "up_cond training True nrm 128 32 u1 x2"
    using H X2 U1 nat_mult3_ne_1 [of "size2 x div 2" "size0 x" "size3 x div 2"]
    by (auto simp: up_cond_def up_channels_def)
  from Up_forward_ok [OF M(6) this] obtain u2
    where u2: "Up_forward training (up2 m) u1 x2 = Inr u2" by blast
  note U2 = Up_forward_InrD(2-) [OF M(6) u2, unfolded X2]
  have "up_cond training True nrm 64 32 u2 x1"
    using H X1 U2 nat_mult3_ne_1 [of "size2 x" "size0 x" "size3 x"]
    by (auto simp: up_cond_def up_channels_def)
  from Up_forward_ok [OF M(7) this] obtain u3
    where u3: "Up_forward training (up3 m) u2 x1 = Inr u3" by blast
  note U3 = Up_forward_InrD(2-) [OF M(7) u3, unfolded X1]
  have "oc_cond 32 o' u3"
    using H U3 by (auto simp: oc_cond_def)
  from OutConv_forward_ok [OF M(8) this] obtain y
    where y: "OutConv_forward training (outc m) u3 = Inr y" by blast
  show ?thesis
    unfolding BaseNet_forward_def by (simp add: x1 x2 x3 x4 u1 u2 u3 y)
qed

lemma BaseNet_forward_InrD:
  assumes m: "BaseNet_init i o' nrm ws = Inr m"
    and f: "BaseNet_forward training m x = Inr y"
  shows "base_cond training nrm i o' x"
    and "size0 y = size0 x" and "size1 y = nat o'" and "size2 y = size2 x" and "size3 y = size3 x"
  using parts_forward_InrD [OF BaseNet_init_InrD(1-8) [OF m] f] by simp_all

lemma BaseNet_forward_ok:
  assumes m: "BaseNet_init i o' nrm ws = Inr m"
    and h: "base_cond training nrm i o' x"
  shows "\<exists>y. BaseNet_forward training m x = Inr y"
  using parts_forward_ok [OF BaseNet_init_InrD(1-8) [OF m] h] .

lemma ANSN_init_Inr:
  "ANSN_init i o' nrm ws ws' = Inr m \<longleftrightarrow>
     (\<exists>a oc. BaseNet_init i o' nrm ws = Inr a \<and> OutConv_init 32 o' False ws' = Inr oc
        \<and> m = a\<lparr>outc := oc\<rparr>)"
  by (auto simp: ANSN_init_def bind_eq_Inr)

lemma ANSN_init_InrD:
  assumes "ANSN_init i o' nrm ws ws' = Inr m"
  shows "DoubleConv_init i 32 nrm True (w_inc ws) = Inr (inc m)"
    and "Down_init 32 64 nrm True (w_down1 ws) = Inr (down1 m)"
    and "Down_init 64 128 nrm True (w_down2 ws) = Inr (down2 m)"
    and "Down_init 128 128 nrm True (w_down3 ws) = Inr (down3 m)"
    and "Up_init 256 64 True nrm True (w_up1 ws) = Inr (up1 m)"
    and "Up_init 128 32 True nrm True (w_up2 ws) = Inr (up2 m)"
    and "Up_init 64 32 True nrm True (w_up3 ws) = Inr (up3 m)"
    and "OutConv_init 32 o' False ws' = Inr (outc m)"
proof -
  from assms obtain a oc where a: "BaseNet_init i o' nrm ws = Inr a"
    and oc: "OutConv_init 32 o' False ws' = Inr oc" and m: "m = a\<lparr>outc := oc\<rparr>"
    by (auto simp: ANSN_init_Inr)
  note A = BaseNet_init_InrD [OF a]
  from A oc m show "DoubleConv_init i 32 nrm True (w_inc ws) = Inr (inc m)"
    "Down_init 32 64 nrm True (w_down1 ws) = Inr (down1 m)"
    "Down_init 64 128 nrm True (w_down2 ws) = Inr (down2 m)"
    "Down_init 128 128 nrm True (w_down3 ws) = Inr (down3 m)"
    "Up_init 256 64 True nrm True (w_up1 ws) = Inr (up1 m)"
    "Up_init 128 32 True nrm True (w_up2 ws) = Inr (up2 m)"
    "Up_init 64 32 True nrm True (w_up3 ws) = Inr (up3 m)"
    "OutConv_init 32 o' False ws' = Inr (outc m)"
    by simp_all
qed

lemma ANSN_init_ok:
  assumes "0 \<le> i" and "0 \<le> o'"
  shows "\<exists>m. ANSN_init i o' nrm ws ws' = Inr m"
  using BaseNet_init_ok [OF assms, of nrm ws] OutConv_init_ok [of 32 o' False ws'] assms
  by (auto simp: ANSN_init_Inr)

lemma ANSN_forward_InrD:
  assumes m: "ANSN_init i o' nrm ws ws' = Inr m"
    and f: "BaseNet_forward training m x = Inr y"
  shows "base_cond training nrm i o' x"
    and "size0 y = size0 x" and "size1 y = nat o'" and "size2 y = size2 x" and "size3 y = size3 x"
  using parts_forward_InrD [OF ANSN_init_InrD [OF m] f] by simp_all

lemma ANSN_forward_ok:
  assumes m: "ANSN_init i o' nrm ws ws' = Inr m"
    and h: "base_cond training nrm i o' x"
  shows "\<exists>y. BaseNet_forward training m x = Inr y"
  using parts_forward_ok [OF ANSN_init_InrD [OF m] h] .

lemma FuseNet_init_InrD:
  assumes "FuseNet_init i o' nrm ws = Inr m"
  shows "AttentiveDoubleConv_init i 32 nrm False (wf_inc ws) = Inr (f_inc m)"
    and "AttentiveDown_init 32 64 nrm False (wf_down1 ws) = Inr (f_down1 m)"
    and "AttentiveDown_init 64 64 nrm False (wf_down2 ws) = Inr (f_down2 m)"
    and "AttentiveUp_init 128 32 True nrm False (wf_up1 ws) = Inr (f_up1 m)"
    and "AttentiveUp_init 64 32 True nrm False (wf_up2 ws) = Inr (f_up2 m)"
    and "OutConv_init 32 o' True (wf_outc ws) = Inr (f_outc m)"
  using assms unfolding FuseNet_init_def bind_eq_Inr by auto

lemma AttentiveDoubleConv_init_ok:
  assumes "0 \<le> i" and "0 \<le> o'"
  shows "\<exists>m. AttentiveDoubleConv_init i o' nrm leaky ws = Inr m"
  using DoubleConv_init_ok [OF assms, of nrm leaky "fst ws"] attention_init_ok [OF assms(2), of "snd ws"]
  by (auto simp: AttentiveDoubleConv_init_Inr)

lemma AttentiveDown_init_ok:
  assumes "0 \<le> i" and "0 \<le> o'"
  shows "\<exists>m. AttentiveDown_init i o' nrm leaky ws = Inr m"
  using Down_init_ok [OF assms, of nrm leaky "fst ws"] attention_init_ok [OF assms(2), of "snd ws"]
  by (auto simp: AttentiveDown_init_Inr)

lemma AttentiveUp_init_ok:
  assumes "0 \<le> i" and "0 \<le> o'"
  shows "\<exists>m. AttentiveUp_init i o' bilinear nrm leaky ws = Inr m"
  using Up_init_ok [OF assms, of bilinear nrm leaky "fst ws"]
    attention_init_ok [OF assms(2), of "snd ws"]
  by (auto simp: AttentiveUp_init_Inr)

lemma FuseNet_init_ok:
  assumes "0 \<le> i" and "0 \<le> o'"
  shows "\<exists>m. FuseNet_init i o' nrm ws = Inr m"
proof -
  obtain a where a: "AttentiveDoubleConv_init i 32 nrm False (wf_inc ws) = Inr a"
    using AttentiveDoubleConv_init_ok [of i 32 nrm False "wf_inc ws"] assms by auto
  obtain b where b: "AttentiveDown_init 32 64 nrm False (wf_down1 ws) = Inr b"
    using AttentiveDown_init_ok [of 32 64 nrm False "wf_down1 ws"] by auto
  obtain c where c: "AttentiveDown_init 64 64 nrm False (wf_down2 ws) = Inr c"
    using AttentiveDown_init_ok [of 64 64 nrm False "wf_down2 ws"] by auto
  obtain e where e: "AttentiveUp_init 128 32 True nrm False (wf_up1 ws) = Inr e"
    using AttentiveUp_init_ok [of 128 32 True nrm False "wf_up1 ws"] by auto
  obtain f where f: "AttentiveUp_init 64 32 True nrm False (wf_up2 ws) = Inr f"
    using AttentiveUp_init_ok [of 64 32 True nrm False "wf_up2 ws"] by auto
  obtain h where h: "OutConv_init 32 o' True (wf_outc ws) = Inr h"
    using OutConv_init_ok [of 32 o' True "wf_outc ws"] assms by auto
  show ?thesis
    unfolding FuseNet_init_def by (simp add: a b c e f h)
qed

lemma FuseNet_forward_InrD:
  assumes m: "FuseNet_init i o' nrm ws = Inr m"
    and f: "FuseNet_forward training m x = Inr y"
  shows "fuse_cond training nrm i o' x"
    and "size0 y = size0 x" and "size1 y = nat o'" and "size2 y = size2 x" and "size3 y = size3 x"
proof -
  note M = FuseNet_init_InrD [OF m]
  from f obtain x1 x2 x3 u1 u2 where
    x1: "AttentiveDoubleConv_forward training (f_inc m) x = Inr x1" and
    x2: "AttentiveDown_forward training (f_down1 m) x1 = Inr x2" and
    x3: "AttentiveDown_forward training (f_down2 m) x2 = Inr x3" and
    u1: "AttentiveUp_forward training (f_up1 m) x3 x2 = Inr u1" and
    u2: "AttentiveUp_forward training (f_up2 m) u1 x1 = Inr u2" and
    y: "OutConv_forward training (f_outc m) u2 = Inr y"
    unfolding FuseNet_forward_def bind_eq_Inr by blast
  note X1 = AttentiveDoubleConv_forward_InrD [OF M(1) x1]
  note X2 = AttentiveDown_forward_InrD [OF M(2) x2]
  note X3 = AttentiveDown_forward_InrD [OF M(3) x3]
  note U2 = AttentiveUp_forward_InrD [OF M(5) u2]
  note Y = OutConv_forward_InrD [OF M(6) y]
  have s2: "size0 x2 = size0 x" "size2 x2 = size2 x div 2" "size3 x2 = size3 x div 2"
    using X1 X2 by simp_all
  from X1(1) have "size1 x = nat i" "1 \<le> i" by (simp_all add: dc_cond_def)
  moreover from X3(1) s2 have "4 \<le> size2 x" "4 \<le> size3 x"
    "\<not> (nrm \<and> training \<and> size0 x * (size2 x div 4) * (size3 x div 4) = 1)"
    by (auto simp: down_cond_def div2_div2)
  moreover from Y(1) have "1 \<le> o'" by simp
  ultimately show "fuse_cond training nrm i o' x" by (simp add: fuse_cond_def)
  from Y U2 X1 show "size0 y = size0 x" "size1 y = nat o'" "size2 y = size2 x" "size3 y = size3 x"
    by auto
qed

lemma FuseNet_forward_ok:
  assumes m: "FuseNet_init i o' nrm ws = Inr m"
    and h: "fuse_cond training nrm i o' x"
  shows "\<exists>y. FuseNet_forward training m x = Inr y"
proof -
  note M = FuseNet_init_InrD [OF m]
  from h have H: "1 \<le> o'" "size1 x = nat i" "4 \<le> size2 x" "4 \<le> size3 x"
    "\<not> (nrm \<and> training \<and> size0 x * (size2 x div 4) * (size3 x div 4) = 1)" "1 \<le> i"
    by (auto simp: fuse_cond_def)
  have "dc_cond training nrm i 32 x"
    using H nat_mult3_ne_1 [of "size2 x" "size0 x" "size3 x"] by (auto simp: dc_cond_def)
  from AttentiveDoubleConv_forward_ok [OF M(1) this] obtain x1
    where x1: "AttentiveDoubleConv_forward training (f_inc m) x = Inr x1" by auto
  note X1 = AttentiveDoubleConv_forward_InrD(3-) [OF M(1) x1]
  have "down_cond training nrm 32 64 x1"
    using H X1 nat_mult3_ne_1 [of "size2 x div 2" "size0 x" "size3 x div 2"]
    by (auto simp: down_cond_def)
  from AttentiveDown_forward_ok [OF M(2) this] obtain x2
    where x2: "AttentiveDown_forward training (f_down1 m) x1 = Inr x2" by auto
  note X2 = AttentiveDown_forward_InrD(3-) [OF M(2) x2, unfolded X1]
  have "down_cond training nrm 64 64 x2"
    using H X2 by (auto simp: down_cond_def div2_div2)
  from AttentiveDown_forward_ok [OF M(3) this] obtain x3
    where x3: "AttentiveDown_forward training (f_down2 m) x2 = Inr x3" by auto
  note X3 = AttentiveDown_forward_InrD(3-) [OF M(3) x3, unfolded X2 div2_div2]
  have "up_cond training True nrm 128 32 x3 x2"
    using H X2 X3 nat_mult3_ne_1 [of "size2 x div 2" "size0 x" "size3 x div 2"]
    by (auto simp: up_cond_def up_channels_def)
  from AttentiveUp_forward_ok [OF M(4) this] obtain u1
    where u1: "AttentiveUp_forward training (f_up1 m) x3 x2 = Inr u1" by auto
  note U1 = AttentiveUp_forward_InrD(3-) [OF M(4) u1, unfolded X2]
  have "up_cond training True nrm 64 32 u1 x1"
    using H X1 U1 nat_mult3_ne_1 [of "size2 x" "size0 x" "size3 x"]
    by (auto simp: up_cond_def up_channels_def)
  from AttentiveUp_forward_ok [OF M(5) this] obtain u2
    where u2: "AttentiveUp_forward training (f_up2 m) u1 x1 = Inr u2" by auto
  note U2 = AttentiveUp_forward_InrD(3-) [OF M(5) u2, unfolded X1]
  have "oc_cond 32 o' u2"
    using H U2 by (auto simp: oc_cond_def)
  from OutConv_forward_ok [OF M(6) this] obtain y
    where y: "OutConv_forward training (f_outc m) u2 = Inr y" by blast
  show ?thesis
    unfolding FuseNet_forward_def by (simp add: x1 x2 x3 u1 u2 y)
qed

lemma FuseNet_init_nonneg:
  assumes "FuseNet_init i o' nrm ws = Inr m"
  shows "0 \<le> i" and "0 \<le> o'"
  using FuseNet_init_InrD(1,6) [OF assms]
  by (auto simp: AttentiveDoubleConv_init_Inr DoubleConv_init_Inr Conv2d_init_Inr OutConv_init_Inr)

lemma zeros_sizes [simp]:
  "size0 (zeros n c h w) = n" "size1 (zeros n c h w) = c"
  "size2 (zeros n c h w) = h" "size3 (zeros n c h w) = w"
  "elem (zeros n c h w) a b d e = 0"
  by (simp_all add: zeros_def)

section \<open>Failures, and where they arise\<close>

lemma DoubleConv_forward_wrong_channels:
  assumes m: "DoubleConv_init i o' nrm leaky ws = Inr m"
    and h: "size1 c \<noteq> nat i"
  shows "isl (DoubleConv_forward training m c)"
    and "1 \<le> o' \<longrightarrow> DoubleConv_forward training m c = Inl (ChannelMismatch (nat i) (size1 c))"
proof -
  from m obtain c0 ls where cm: "conv m = Conv2d c0 # ls"
    and c0: "in_channels c0 = nat i" "out_channels c0 = nat o'"
    by (auto simp: DoubleConv_init_Inr Conv2d_init_Inr)
  from h c0 have "isl (Conv2d_forward c0 c)"
    and "1 \<le> o' \<longrightarrow> Conv2d_forward c0 c = Inl (ChannelMismatch (nat i) (size1 c))"
    by (auto simp: Conv2d_forward_def)
  with cm show "isl (DoubleConv_forward training m c)"
    and "1 \<le> o' \<longrightarrow> DoubleConv_forward training m c = Inl (ChannelMismatch (nat i) (size1 c))"
    by (auto simp: DoubleConv_forward_def split: sum.splits)
qed


lemma map_sum_bind: "map_sum id f (bind r g) = bind r (\<lambda>z. map_sum id f (g z))"
  by (cases r) simp_all

lemma OutConv_forward_act:
  assumes "oconv a = [Conv2d cv, Sigmoid]" and "oconv b = [Conv2d cv, Identity]"
  shows "OutConv_forward training a u = map_sum id (pointwise sigmoid) (OutConv_forward training b u)"
  using assms by (simp add: OutConv_forward_def split: sum.splits)

lemma bind_not_Cat:
  assumes "r \<noteq> Inl CatMismatch" and "\<And>z. r = Inr z \<Longrightarrow> f z \<noteq> Inl CatMismatch"
  shows "bind r f \<noteq> Inl CatMismatch"
  using assms by (cases r) auto

lemma layer_forward_not_Cat: "layer_forward training l x \<noteq> Inl CatMismatch"
  by (cases l) (auto simp: Conv2d_forward_def BatchNorm2d_forward_def)

lemma Sequential_not_Cat: "Sequential training ls x \<noteq> Inl CatMismatch"
  by (induction ls arbitrary: x) (auto simp: layer_forward_not_Cat split: sum.splits)

lemma DoubleConv_forward_not_Cat: "DoubleConv_forward training m x \<noteq> Inl CatMismatch"
  by (simp add: DoubleConv_forward_def Sequential_not_Cat)

lemma OutConv_forward_not_Cat: "OutConv_forward training m x \<noteq> Inl CatMismatch"
  by (simp add: OutConv_forward_def Sequential_not_Cat)

lemma MaxPool2d_not_Cat: "MaxPool2d k x \<noteq> Inl CatMismatch"
  by (simp add: MaxPool2d_def)

lemma Down_forward_not_Cat: "Down_forward training m x \<noteq> Inl CatMismatch"
  unfolding Down_forward_def
  by (intro bind_not_Cat MaxPool2d_not_Cat DoubleConv_forward_not_Cat)

lemma up_forward_not_Cat: "up_forward us x \<noteq> Inl CatMismatch"
  by (cases us) (auto simp: Upsample_bilinear2_def ConvTranspose2d_forward_def)

lemma up_forward_size0:
  assumes "up_forward us x = Inr u"
  shows "size0 u = size0 x"
  using assms
  by (cases us) (auto simp: Upsample_bilinear2_def ConvTranspose2d_forward_def split: if_splits)

lemma Up_forward_not_Cat:
  assumes "size0 x1 = size0 x2"
  shows "Up_forward training m x1 x2 \<noteq> Inl CatMismatch"
proof (cases "up_forward (up m) x1")
  case (Inl e)
  with up_forward_not_Cat [of "up m" x1] show ?thesis
    by (simp add: Up_forward_up_fails)
next
  case (Inr u)
  from up_forward_size0 [OF Inr] assms have "size0 u = size0 x2" by simp
  from Up_forward_unfold [OF Inr this, of training] obtain c
    where "Up_forward training m x1 x2 = DoubleConv_forward training (up_conv m) c"
    by blast
  then show ?thesis
    by (simp add: DoubleConv_forward_not_Cat)
qed

lemma mul_not_Cat: "mul x y \<noteq> Inl CatMismatch"
  by (auto simp: mul_def split: option.splits)

lemma PALayer_forward_not_Cat: "PALayer_forward training m x \<noteq> Inl CatMismatch"
  unfolding PALayer_forward_def
  by (intro bind_not_Cat Sequential_not_Cat mul_not_Cat)

lemma CALayer_forward_not_Cat: "CALayer_forward training m x \<noteq> Inl CatMismatch"
  unfolding CALayer_forward_def
  by (intro bind_not_Cat Sequential_not_Cat mul_not_Cat) (simp add: AdaptiveAvgPool2d_1_def)

lemma attention_forward_not_Cat: "attention_forward training m x \<noteq> Inl CatMismatch"
  unfolding attention_forward_def
  by (intro bind_not_Cat CALayer_forward_not_Cat PALayer_forward_not_Cat)

lemma AttentiveDoubleConv_forward_not_Cat:
  "AttentiveDoubleConv_forward training m x \<noteq> Inl CatMismatch"
  unfolding AttentiveDoubleConv_forward_def
  by (intro bind_not_Cat DoubleConv_forward_not_Cat attention_forward_not_Cat)

lemma AttentiveDown_forward_not_Cat:
  "AttentiveDown_forward training m x \<noteq> Inl CatMismatch"
  unfolding AttentiveDown_forward_def
  by (intro bind_not_Cat Down_forward_not_Cat attention_forward_not_Cat)

lemma AttentiveUp_forward_not_Cat:
  assumes "size0 x1 = size0 x2"
  shows "AttentiveUp_forward training m x1 x2 \<noteq> Inl CatMismatch"
  unfolding AttentiveUp_forward_def
  by (intro bind_not_Cat Up_forward_not_Cat attention_forward_not_Cat assms)

lemma parts_forward_not_Cat:
  assumes M: "DoubleConv_init i 32 nrm True w1 = Inr (inc m)"
      "Down_init 32 64 nrm True w2 = Inr (down1 m)"
      "Down_init 64 128 nrm True w3 = Inr (down2 m)"
      "Down_init 128 128 nrm True w4 = Inr (down3 m)"
      "Up_init 256 64 True nrm True w5 = Inr (up1 m)"
      "Up_init 128 32 True nrm True w6 = Inr (up2 m)"
      "Up_init 64 32 True nrm True w7 = Inr (up3 m)"
  shows "BaseNet_forward training m x \<noteq> Inl CatMismatch"
  unfolding BaseNet_forward_def
proof (intro bind_not_Cat)
  show "DoubleConv_forward training (inc m) x \<noteq> Inl CatMismatch"
    by (rule DoubleConv_forward_not_Cat)
next
  fix x1
  show "Down_forward training (down1 m) x1 \<noteq> Inl CatMismatch"
    by (rule Down_forward_not_Cat)
next
  fix x2
  show "Down_forward training (down2 m) x2 \<noteq> Inl CatMismatch"
    by (rule Down_forward_not_Cat)
next
  fix x3
  show "Down_forward training (down3 m) x3 \<noteq> Inl CatMismatch"
    by (rule Down_forward_not_Cat)
next
  fix x1 x2 x3 x4
  assume "Down_forward training (down3 m) x3 = Inr x4"
  from Down_forward_InrD(2) [OF M(4) this]
  show "Up_forward training (up1 m) x4 x3 \<noteq> Inl CatMismatch"
    by (rule Up_forward_not_Cat)
next
  fix x1 x2 x3 x4 u1
  assume "Down_forward training (down2 m) x2 = Inr x3"
    and "Up_forward training (up1 m) x4 x3 = Inr u1"
  from Down_forward_InrD(2) [OF M(3) this(1)] Up_forward_InrD(2) [OF M(5) this(2)]
  have "size0 u1 = size0 x2" by simp
  then show "Up_forward training (up2 m) u1 x2 \<noteq> Inl CatMismatch"
    by (rule Up_forward_not_Cat)
next
  fix x1 x2 x3 x4 u1 u2
  assume "Down_forward training (down1 m) x1 = Inr x2"
    and "Up_forward training (up2 m) u1 x2 = Inr u2"
  from Down_forward_InrD(2) [OF M(2) this(1)] Up_forward_InrD(2) [OF M(6) this(2)]
  have "size0 u2 = size0 x1" by simp
  then show "Up_forward training (up3 m) u2 x1 \<noteq> Inl CatMismatch"
    by (rule Up_forward_not_Cat)
next
  fix u3
  show "OutConv_forward training (outc m) u3 \<noteq> Inl CatMismatch"
    by (rule OutConv_forward_not_Cat)
qed

lemma FuseNet_forward_not_Cat:
  assumes m: "FuseNet_init i o' nrm ws = Inr m"
  shows "FuseNet_forward training m x \<noteq> Inl CatMismatch"
  unfolding FuseNet_forward_def
proof (intro bind_not_Cat)
  note M = FuseNet_init_InrD [OF m]
  show "AttentiveDoubleConv_forward training (f_inc m) x \<noteq> Inl CatMismatch"
    by (rule AttentiveDoubleConv_forward_not_Cat)
  fix x1
  show "AttentiveDown_forward training (f_down1 m) x1 \<noteq> Inl CatMismatch"
    by (rule AttentiveDown_forward_not_Cat)
  fix x2
  show "AttentiveDown_forward training (f_down2 m) x2 \<noteq> Inl CatMismatch"
    by (rule AttentiveDown_forward_not_Cat)
  fix x3
  assume "AttentiveDown_forward training (f_down2 m) x2 = Inr x3"
  from AttentiveDown_forward_InrD(3) [OF M(3) this]
  show "AttentiveUp_forward training (f_up1 m) x3 x2 \<noteq> Inl CatMismatch"
    by (rule AttentiveUp_forward_not_Cat)
  fix u1
  assume "AttentiveDown_forward training (f_down1 m) x1 = Inr x2"
    and "AttentiveUp_forward training (f_up1 m) x3 x2 = Inr u1"
  from AttentiveDown_forward_InrD(3) [OF M(2) this(1)] AttentiveUp_forward_InrD(3) [OF M(4) this(2)]
  have "size0 u1 = size0 x1" by simp
  then show "AttentiveUp_forward training (f_up2 m) u1 x1 \<noteq> Inl CatMismatch"
    by (rule AttentiveUp_forward_not_Cat)
  fix u2
  show "OutConv_forward training (f_outc m) u2 \<noteq> Inl CatMismatch"
    by (rule OutConv_forward_not_Cat)
qed

text \<open>Construction fails only on a negative channel count.\<close>

lemma Conv2d_init_cases:
  "(\<exists>m. Conv2d_init i o' k p ws = Inr m) \<or> Conv2d_init i o' k p ws = Inl NegativeDimension"
  by (simp add: Conv2d_init_def)

lemma bind_cases:
  assumes "(\<exists>m. r = Inr m) \<or> r = Inl NegativeDimension"
    and "\<And>z. (\<exists>m. f z = Inr m) \<or> f z = Inl NegativeDimension"
  shows "(\<exists>m. bind r f = Inr m) \<or> bind r f = Inl NegativeDimension"
  using assms by (cases r) auto

lemma norm_layer_cases:
  "(\<exists>m. norm_layer nrm n ps = Inr m) \<or> norm_layer nrm n ps = Inl NegativeDimension"
  by (simp add: norm_layer_def BatchNorm2d_init_def)

lemma DoubleConv_init_cases:
  "(\<exists>m. DoubleConv_init i o' nrm leaky ws = Inr m)
   \<or> DoubleConv_init i o' nrm leaky ws = Inl NegativeDimension"
  unfolding DoubleConv_init_def
  by (intro bind_cases Conv2d_init_cases norm_layer_cases) simp_all

lemma OutConv_init_cases:
  "(\<exists>m. OutConv_init i o' act ws = Inr m) \<or> OutConv_init i o' act ws = Inl NegativeDimension"
  unfolding OutConv_init_def
  by (intro bind_cases Conv2d_init_cases) simp_all

lemma Down_init_cases:
  "(\<exists>m. Down_init i o' nrm leaky ws = Inr m) \<or> Down_init i o' nrm leaky ws = Inl NegativeDimension"
  unfolding Down_init_def
  by (intro bind_cases DoubleConv_init_cases) simp_all

lemma Up_init_cases:
  "(\<exists>m. Up_init i o' bilinear nrm leaky ws = Inr m)
   \<or> Up_init i o' bilinear nrm leaky ws = Inl NegativeDimension"
proof (cases bilinear)
  case True
  then show ?thesis
    unfolding Up_init_def by (simp only: if_True, intro bind_cases DoubleConv_init_cases) simp_all
next
  case False
  have "(\<exists>m. ConvTranspose2d_init i (i div 2) (fst ws) = Inr m)
     \<or> ConvTranspose2d_init i (i div 2) (fst ws) = Inl NegativeDimension"
    by (simp add: ConvTranspose2d_init_def)
  with False show ?thesis
    unfolding Up_init_def by (simp only: if_False, intro bind_cases DoubleConv_init_cases) simp_all
qed

lemma BaseNet_init_cases:
  "(\<exists>m. BaseNet_init i o' nrm ws = Inr m) \<or> BaseNet_init i o' nrm ws = Inl NegativeDimension"
  unfolding BaseNet_init_def
  by (intro bind_cases DoubleConv_init_cases Down_init_cases Up_init_cases OutConv_init_cases) simp_all

lemma ANSN_init_cases:
  "(\<exists>m. ANSN_init i o' nrm ws ws' = Inr m) \<or> ANSN_init i o' nrm ws ws' = Inl NegativeDimension"
  unfolding ANSN_init_def
  by (intro bind_cases BaseNet_init_cases OutConv_init_cases) simp_all

lemma attention_init_cases:
  "(\<exists>m. attention_init o' ws = Inr m) \<or> attention_init o' ws = Inl NegativeDimension"
  unfolding attention_init_def PALayer_init_def CALayer_init_def
  by (intro bind_cases Conv2d_init_cases) simp_all

lemma FuseNet_init_cases:
  "(\<exists>m. FuseNet_init i o' nrm ws = Inr m) \<or> FuseNet_init i o' nrm ws = Inl NegativeDimension"
  unfolding FuseNet_init_def AttentiveDoubleConv_init_def AttentiveDown_init_def
    AttentiveUp_init_def
  by (intro bind_cases DoubleConv_init_cases Down_init_cases Up_init_cases OutConv_init_cases
      attention_init_cases) simp_all

lemma DoubleConv_forward_BatchTooSmall:
  assumes m: "DoubleConv_init i o' True leaky ws = Inr m"
    and h: "1 \<le> o'" "size1 x = nat i" "size0 x * size2 x * size3 x = 1"
  shows "DoubleConv_forward True m x = Inl BatchTooSmall"
proof -
  from m obtain c0 n1 ls where
    c0: "Conv2d_init i o' 3 1 (fst ws) = Inr c0" and
    n1: "norm_layer True o' (fst (snd ws)) = Inr n1" and
    cm: "conv m = Conv2d c0 # n1 # ls"
    unfolding DoubleConv_init_Inr by auto
  from c0 have cv: "in_channels c0 = nat i" "out_channels c0 = nat o'" "kernel_size c0 = 3"
    "padding c0 = 1"
    by (auto simp: Conv2d_init_Inr)
  from h(3) have s: "size0 x = 1" "size2 x = 1" "size3 x = 1" by auto
  have "\<exists>a. Conv2d_forward c0 x = Inr a"
    by (rule Conv2d_forward_ok) (use h s cv in auto)
  then obtain a where a: "Conv2d_forward c0 x = Inr a" ..
  note A = Conv2d_forward_InrD(5-) [OF a, unfolded cv]
  from n1 obtain bn where bn: "n1 = BatchNorm2d bn"
    by (auto simp: norm_layer_Inr)
  from A s have "BatchNorm2d_forward True bn a = Inl BatchTooSmall"
    by (simp add: BatchNorm2d_forward_def)
  with a bn cm show ?thesis
    by (simp add: DoubleConv_forward_def)
qed

lemma Down_forward_BatchTooSmall:
  assumes m: "Down_init i o' True leaky ws = Inr m"
    and h: "1 \<le> i" "1 \<le> o'" "size1 x = nat i" "2 \<le> size2 x" "2 \<le> size3 x"
      "size0 x * (size2 x div 2) * (size3 x div 2) = 1"
  shows "Down_forward True m x = Inl BatchTooSmall"
proof -
  from m obtain dc where dc: "DoubleConv_init i o' True leaky ws = Inr dc"
    and mm: "maxpool m = 2" "maxpool_conv m = dc"
    by (auto simp: Down_init_Inr)
  have "\<exists>p. MaxPool2d 2 x = Inr p"
    by (rule MaxPool2d_ok) (use h in auto)
  then obtain p where p: "MaxPool2d 2 x = Inr p" ..
  note P = MaxPool2d_InrD(4-) [OF p]
  have "DoubleConv_forward True dc p = Inl BatchTooSmall"
    by (rule DoubleConv_forward_BatchTooSmall [OF dc]) (use h P in auto)
  with p mm show ?thesis
    by (simp add: Down_forward_def)
qed

lemma IAN_call_eq: "IAN_call i o' nrm ws training x = BaseNet_call i o' nrm ws training x"
  by (simp add: IAN_call_def BaseNet_call_def IAN_init_def)

lemma BaseNet_call_ok:
  assumes "0 \<le> i" and h: "base_cond training nrm i o' x"
  shows "\<exists>y. BaseNet_call i o' nrm ws training x = Inr y
           \<and> shape y = (size0 x, nat o', size2 x, size3 x)"
proof -
  from h have "0 \<le> o'" by (simp add: base_cond_def)
  from BaseNet_init_ok [OF assms(1) this] obtain m
    where m: "BaseNet_init i o' nrm ws = Inr m" by blast
  from BaseNet_forward_ok [OF m h] obtain y
    where y: "BaseNet_forward training m x = Inr y" by blast
  from BaseNet_forward_InrD(2-) [OF m y] m y show ?thesis
    by (simp add: BaseNet_call_def shape_def)
qed

lemma ANSN_call_ok:
  assumes "0 \<le> i" and h: "base_cond training nrm i o' x"
  shows "\<exists>y. ANSN_call i o' nrm ws ws' training x = Inr y
           \<and> shape y = (size0 x, nat o', size2 x, size3 x)"
proof -
  from h have "0 \<le> o'" by (simp add: base_cond_def)
  from ANSN_init_ok [OF assms(1) this] obtain m
    where m: "ANSN_init i o' nrm ws ws' = Inr m" by blast
  from ANSN_forward_ok [OF m h] obtain y
    where y: "BaseNet_forward training m x = Inr y" by blast
  from ANSN_forward_InrD(2-) [OF m y] m y show ?thesis
    by (simp add: ANSN_call_def shape_def)
qed

lemma FuseNet_call_ok:
  assumes "0 \<le> i" and h: "fuse_cond training nrm i o' x"
  shows "\<exists>y. FuseNet_call i o' nrm ws training x = Inr y
           \<and> shape y = (size0 x, nat o', size2 x, size3 x)"
proof -
  from h have "0 \<le> o'" by (simp add: fuse_cond_def)
  from FuseNet_init_ok [OF assms(1) this] obtain m
    where m: "FuseNet_init i o' nrm ws = Inr m" by blast
  from FuseNet_forward_ok [OF m h] obtain y
    where y: "FuseNet_forward training m x = Inr y" by blast
  from FuseNet_forward_InrD(2-) [OF m y] m y show ?thesis
    by (simp add: FuseNet_call_def shape_def)
qed

lemma BaseNet_call_InrD:
  assumes "BaseNet_call i o' nrm ws training x = Inr y"
  shows "base_cond training nrm i o' x"
  using assms by (auto simp: BaseNet_call_def bind_eq_Inr dest: BaseNet_forward_InrD(1))

lemma ANSN_call_InrD:
  assumes "ANSN_call i o' nrm ws ws' training x = Inr y"
  shows "base_cond training nrm i o' x"
  using assms by (auto simp: ANSN_call_def bind_eq_Inr dest: ANSN_forward_InrD(1))

lemma FuseNet_call_InrD:
  assumes "FuseNet_call i o' nrm ws training x = Inr y"
  shows "fuse_cond training nrm i o' x"
  using assms by (auto simp: FuseNet_call_def bind_eq_Inr dest: FuseNet_forward_InrD(1))

lemma BaseNet_call_not_Cat: "BaseNet_call i o' nrm ws training x \<noteq> Inl CatMismatch"
proof -
  from BaseNet_init_cases [of i o' nrm ws] show ?thesis
  proof
    assume "\<exists>m. BaseNet_init i o' nrm ws = Inr m"
    then obtain m where m: "BaseNet_init i o' nrm ws = Inr m" ..
    from parts_forward_not_Cat [OF BaseNet_init_InrD(1-7) [OF m]] m show ?thesis
      by (simp add: BaseNet_call_def)
  next
    assume "BaseNet_init i o' nrm ws = Inl NegativeDimension"
    then show ?thesis by (simp add: BaseNet_call_def)
  qed
qed

lemma ANSN_call_not_Cat: "ANSN_call i o' nrm ws ws' training x \<noteq> Inl CatMismatch"
proof -
  from ANSN_init_cases [of i o' nrm ws ws'] show ?thesis
  proof
    assume "\<exists>m. ANSN_init i o' nrm ws ws' = Inr m"
    then obtain m where m: "ANSN_init i o' nrm ws ws' = Inr m" ..
    from parts_forward_not_Cat [OF ANSN_init_InrD(1-7) [OF m]] m show ?thesis
      by (simp add: ANSN_call_def)
  next
    assume "ANSN_init i o' nrm ws ws' = Inl NegativeDimension"
    then show ?thesis by (simp add: ANSN_call_def)
  qed
qed

lemma FuseNet_call_not_Cat: "FuseNet_call i o' nrm ws training x \<noteq> Inl CatMismatch"
proof -
  from FuseNet_init_cases [of i o' nrm ws] show ?thesis
  proof
    assume "\<exists>m. FuseNet_init i o' nrm ws = Inr m"
    then obtain m where m: "FuseNet_init i o' nrm ws = Inr m" ..
    from FuseNet_forward_not_Cat [OF m] m show ?thesis
      by (simp add: FuseNet_call_def)
  next
    assume "FuseNet_init i o' nrm ws = Inl NegativeDimension"
    then show ?thesis by (simp add: FuseNet_call_def)
  qed
qed

lemma isl_iff_not_Inr: "isl r \<longleftrightarrow> (\<forall>y. r \<noteq> Inr y)"
  by (cases r) simp_all

lemma attention_forward_gates:
  assumes m: "attention_init o' aw = Inr att"
    and f: "attention_forward training att t = Inr y"
  shows "\<exists>(gc::tensor) (gp::tensor). (\<forall>n c h w. 0 \<le> elem gc n c h w \<and> elem gc n c h w \<le> 1
                    \<and> 0 \<le> elem gp n c h w \<and> elem gp n c h w \<le> 1)
            \<and> (\<forall>n c h w. n < size0 t \<longrightarrow> c < size1 t \<longrightarrow> h < size2 t \<longrightarrow> w < size3 t \<longrightarrow>
                  elem y n c h w = elem t n c h w * elem gc n c 0 0 * elem gp n 0 h w)"
proof -
  from m obtain a0 a1 where a0: "CALayer_init o' (fst aw) = Inr a0"
    and a1: "PALayer_init o' (snd aw) = Inr a1" and mm: "att0 att = a0" "att1 att = a1"
    by (auto simp: attention_init_Inr)
  from f mm obtain z where z: "CALayer_forward training a0 t = Inr z"
    and y: "PALayer_forward training a1 z = Inr y"
    by (auto simp: attention_forward_def bind_eq_Inr)
  from CALayer_forward_InrD(2) [OF a0 z] obtain gc where
    zc: "mul t gc = Inr z"
    and GC: "size0 gc = size0 t" "size1 gc = size1 t" "size2 gc = 1" "size3 gc = 1"
    and rc: "\<forall>n c h w. 0 \<le> elem gc n c h w \<and> elem gc n c h w \<le> 1"
    by blast
  note Z = CALayer_forward_InrD(3-) [OF a0 z]
  from PALayer_forward_InrD(2) [OF a1 y] obtain gp where
    yp: "mul z gp = Inr y"
    and GP: "size0 gp = size0 z" "size1 gp = 1" "size2 gp = size2 z" "size3 gp = size3 z"
    and rp: "\<forall>n c h w. 0 \<le> elem gp n c h w \<and> elem gp n c h w \<le> 1"
    by blast
  have GC': "size0 gc = size0 t" "size1 gc = size1 t \<or> size1 gc = 1"
    "size2 gc = size2 t \<or> size2 gc = 1" "size3 gc = size3 t \<or> size3 gc = 1"
    using GC by auto
  have GP': "size0 gp = size0 z" "size1 gp = size1 z \<or> size1 gp = 1"
    "size2 gp = size2 z \<or> size2 gp = 1" "size3 gp = size3 z \<or> size3 gp = 1"
    using GP by auto
  have e: "elem y n c h w = elem t n c h w * elem gc n c 0 0 * elem gp n 0 h w"
    if "n < size0 t" "c < size1 t" "h < size2 t" "w < size3 t" for n c h w
    using mul_InrD_same(5) [OF zc GC', of n c h w] mul_InrD_same(5) [OF yp GP', of n c h w]
      that Z GC GP
    by simp
  have "(\<forall>n c h w. 0 \<le> elem gc n c h w \<and> elem gc n c h w \<le> 1
                    \<and> 0 \<le> elem gp n c h w \<and> elem gp n c h w \<le> 1)
            \<and> (\<forall>n c h w. n < size0 t \<longrightarrow> c < size1 t \<longrightarrow> h < size2 t \<longrightarrow> w < size3 t \<longrightarrow>
                  elem y n c h w = elem t n c h w * elem gc n c 0 0 * elem gp n 0 h w)"
    using rc rp e by simp
  then show ?thesis by blast
qed

section \<open>The claims of the specification\<close>

subsection \<open>Shape of the networks' output\<close>

text \<open>
  Claim C1, as amended. For every input of shape (N, Cin, H, W) whose H and W are
  positive multiples of 8, with Cin the declared number of input channels, at least one
  input channel and at least one output channel, the forward pass of \<^verbatim>\<open>BaseNet\<close>,
  \<^verbatim>\<open>IAN\<close> and \<^verbatim>\<open>ANSN\<close> returns a tensor of shape (N, Cout, H, W), provided that
  batch normalisation is switched off, or the module is in evaluation mode, or
  N * (H / 8) * (W / 8) is not 1. \<^verbatim>\<open>FuseNet\<close> does the same for positive multiples of
  4, with N * (H / 4) * (W / 4). As the claim is written (every input with H and W
  divisible by 8) it fails: with batch normalisation in training mode, which is how the
  networks are constructed by default, an input of shape (1, 1, 8, 8) leaves one value
  per channel at the deepest stage, and batch normalisation refuses it.
\<close>

theorem forward_preserves_shape:
  "(int (size1 x) = i \<longrightarrow> 1 \<le> i \<longrightarrow> 1 \<le> o' \<longrightarrow> 8 dvd size2 x \<longrightarrow> 8 dvd size3 x \<longrightarrow>
      0 < size2 x \<longrightarrow> 0 < size3 x \<longrightarrow>
      \<not> (nrm \<and> training \<and> size0 x * (size2 x div 8) * (size3 x div 8) = 1) \<longrightarrow>
      (\<exists>y. BaseNet_call i o' nrm ws training x = Inr y
         \<and> shape y = (size0 x, nat o', size2 x, size3 x))
      \<and> (\<exists>y. IAN_call i o' nrm ws training x = Inr y
         \<and> shape y = (size0 x, nat o', size2 x, size3 x))
      \<and> (\<exists>y. ANSN_call i o' nrm ws ws' training x = Inr y
         \<and> shape y = (size0 x, nat o', size2 x, size3 x)))
   \<and> (int (size1 x) = i \<longrightarrow> 1 \<le> i \<longrightarrow> 1 \<le> o' \<longrightarrow> 4 dvd size2 x \<longrightarrow> 4 dvd size3 x \<longrightarrow>
      0 < size2 x \<longrightarrow> 0 < size3 x \<longrightarrow>
      \<not> (nrm \<and> training \<and> size0 x * (size2 x div 4) * (size3 x div 4) = 1) \<longrightarrow>
      (\<exists>y. FuseNet_call i o' nrm wsf training x = Inr y
         \<and> shape y = (size0 x, nat o', size2 x, size3 x)))"
proof (intro conjI impI)
  assume a: "int (size1 x) = i" "1 \<le> i" "1 \<le> o'" "8 dvd size2 x" "8 dvd size3 x"
    "0 < size2 x" "0 < size3 x"
    "\<not> (nrm \<and> training \<and> size0 x * (size2 x div 8) * (size3 x div 8) = 1)"
  then have h: "0 \<le> i" "1 \<le> o'" "size1 x = nat i" "8 dvd size2 x" "8 dvd size3 x"
    "0 < size2 x" "0 < size3 x"
    "\<not> (nrm \<and> training \<and> size0 x * (size2 x div 8) * (size3 x div 8) = 1)"
    by auto
  from h(4-7) have "8 \<le> size2 x" "8 \<le> size3 x"
    by (auto dest: dvd_imp_le)
  with h a(2) have c: "base_cond training nrm i o' x"
    by (simp add: base_cond_def)
  from BaseNet_call_ok [OF h(1) c]
  show "\<exists>y. BaseNet_call i o' nrm ws training x = Inr y
         \<and> shape y = (size0 x, nat o', size2 x, size3 x)" .
  then show "\<exists>y. IAN_call i o' nrm ws training x = Inr y
         \<and> shape y = (size0 x, nat o', size2 x, size3 x)"
    by (simp add: IAN_call_eq)
  from ANSN_call_ok [OF h(1) c]
  show "\<exists>y. ANSN_call i o' nrm ws ws' training x = Inr y
         \<and> shape y = (size0 x, nat o', size2 x, size3 x)" .
next
  assume a: "int (size1 x) = i" "1 \<le> i" "1 \<le> o'" "4 dvd size2 x" "4 dvd size3 x"
    "0 < size2 x" "0 < size3 x"
    "\<not> (nrm \<and> training \<and> size0 x * (size2 x div 4) * (size3 x div 4) = 1)"
  then have h: "0 \<le> i" "1 \<le> o'" "size1 x = nat i" "4 dvd size2 x" "4 dvd size3 x"
    "0 < size2 x" "0 < size3 x"
    "\<not> (nrm \<and> training \<and> size0 x * (size2 x div 4) * (size3 x div 4) = 1)"
    by auto
  from h(4-7) have "4 \<le> size2 x" "4 \<le> size3 x"
    by (auto dest: dvd_imp_le)
  with h a(2) have c: "fuse_cond training nrm i o' x"
    by (simp add: fuse_cond_def)
  from FuseNet_call_ok [OF h(1) c]
  show "\<exists>y. FuseNet_call i o' nrm wsf training x = Inr y
         \<and> shape y = (size0 x, nat o', size2 x, size3 x)" .
qed

theorem forward_preserves_shape_witness:
  "(\<exists>y. IAN_call 1 1 True BaseNet_w0 True (zeros 1 1 16 16) = Inr y \<and> shape y = (1, 1, 16, 16))
   \<and> (\<exists>y. ANSN_call 1 1 True BaseNet_w0 conv_w0 True (zeros 1 1 16 16) = Inr y
         \<and> shape y = (1, 1, 16, 16))
   \<and> (\<exists>y. FuseNet_call 1 1 False FuseNet_w0 True (zeros 1 1 4 4) = Inr y
         \<and> shape y = (1, 1, 4, 4))"
  using forward_preserves_shape [where i = 1 and o' = 1 and nrm = True and training = True
      and ws = BaseNet_w0 and ws' = conv_w0 and x = "zeros 1 1 16 16", THEN conjunct1]
    forward_preserves_shape [where i = 1 and o' = 1 and nrm = False and training = True
      and wsf = FuseNet_w0 and x = "zeros 1 1 4 4", THEN conjunct2]
  by simp

text \<open>
  The default \<^verbatim>\<open>IAN()\<close>, in training mode as constructed, on \<^verbatim>\<open>torch.zeros(1, 1, 8, 8)\<close>:
  after three poolings the first batch normalisation of \<^verbatim>\<open>down3\<close> receives a tensor of
  shape (1, 128, 1, 1).
\<close>

theorem IAN_training_8x8_counterexample:
  "IAN_call 1 1 True BaseNet_w0 True (zeros 1 1 8 8) = Inl BatchTooSmall"
proof -
  obtain m where m: "BaseNet_init 1 1 True BaseNet_w0 = Inr m"
    using BaseNet_init_ok [of 1 1 True BaseNet_w0] by auto
  note M = BaseNet_init_InrD [OF m]
  have "dc_cond True True 1 32 (zeros 1 1 8 8)"
    by (simp add: dc_cond_def)
  from DoubleConv_forward_ok [OF M(1) this] obtain x1
    where x1: "DoubleConv_forward True (inc m) (zeros 1 1 8 8) = Inr x1" by blast
  note X1 = DoubleConv_forward_InrD(2-) [OF M(1) x1]
  have "down_cond True True 32 64 x1"
    using X1 by (simp add: down_cond_def)
  from Down_forward_ok [OF M(2) this] obtain x2
    where x2: "Down_forward True (down1 m) x1 = Inr x2" by blast
  note X2 = Down_forward_InrD(2-) [OF M(2) x2, unfolded X1]
  have "down_cond True True 64 128 x2"
    using X2 by (simp add: down_cond_def)
  from Down_forward_ok [OF M(3) this] obtain x3
    where x3: "Down_forward True (down2 m) x2 = Inr x3" by blast
  note X3 = Down_forward_InrD(2-) [OF M(3) x3, unfolded X2]
  have x4: "Down_forward True (down3 m) x3 = Inl BatchTooSmall"
    by (rule Down_forward_BatchTooSmall [OF M(4)]) (use X3 in simp_all)
  show ?thesis
    by (simp only: IAN_call_def IAN_init_def m BaseNet_forward_def bind_Inr bind_Inl x1 x2 x3 x4)
qed

subsection \<open>The attention layers\<close>

text \<open>
  Claim C2, as amended. Whenever \<^verbatim>\<open>PALayer.forward\<close> returns, its result has the
  shape of the input and is the input multiplied elementwise by a gate with values in
  [0, 1]; the gate has a single channel and is computed by 1x1 convolutions
  C -> C // 8 -> 1 with a rectifier between them and a sigmoid at the end. Whenever
  \<^verbatim>\<open>CALayer.forward\<close> returns, its result has the shape of the input and the gate, of
  shape (N, C, 1, 1), is computed from the spatial average of every channel by 1x1
  convolutions C -> C // 8 -> C with a rectifier between them and a sigmoid at the end;
  on an input with a non-empty spatial extent the gate has its values in [0, 1] and the
  result is the input multiplied by it (on an empty extent the average is not a number,
  and the result has no element). For a layer constructed with C channels, C at least 8,
  \<^verbatim>\<open>CALayer.forward\<close> returns for every input with C channels, and
  \<^verbatim>\<open>PALayer.forward\<close> for every such input with a non-empty spatial extent. As the
  claim is written (every input, whatever the number of channels) it fails: a layer
  constructed with fewer than 8 channels has a hidden convolution without output channel,
  and its forward pass returns for no input.
\<close>

theorem attention_gates:
  "(PALayer_init channel ws = Inr pm \<longrightarrow> PALayer_forward training pm x = Inr y \<longrightarrow>
      (\<exists>c0 c2 g. pa pm = [Conv2d c0, ReLU, Conv2d c2, Sigmoid]
         \<and> in_channels c0 = nat channel \<and> out_channels c0 = nat (channel div 8)
         \<and> kernel_size c0 = 1 \<and> padding c0 = 0
         \<and> in_channels c2 = nat (channel div 8) \<and> out_channels c2 = 1
         \<and> kernel_size c2 = 1 \<and> padding c2 = 0
         \<and> Sequential training (pa pm) x = Inr g
         \<and> shape g = (size0 x, 1, size2 x, size3 x)
         \<and> (\<forall>n c h w. 0 \<le> elem g n c h w \<and> elem g n c h w \<le> 1)
         \<and> shape y = shape x
         \<and> (\<forall>n c h w. n < size0 x \<longrightarrow> c < size1 x \<longrightarrow> h < size2 x \<longrightarrow> w < size3 x \<longrightarrow>
               elem y n c h w = elem x n c h w * elem g n 0 h w)))
   \<and> (CALayer_init channel ws = Inr cm \<longrightarrow> CALayer_forward training cm x = Inr z \<longrightarrow>
      (\<exists>c0 c2 a g. ca cm = [Conv2d c0, ReLU, Conv2d c2, Sigmoid]
         \<and> in_channels c0 = nat channel \<and> out_channels c0 = nat (channel div 8)
         \<and> kernel_size c0 = 1 \<and> padding c0 = 0
         \<and> in_channels c2 = nat (channel div 8) \<and> out_channels c2 = nat channel
         \<and> kernel_size c2 = 1 \<and> padding c2 = 0
         \<and> AdaptiveAvgPool2d_1 x = Inr a
         \<and> shape a = (size0 x, size1 x, 1, 1)
         \<and> Sequential training (ca cm) a = Inr g
         \<and> shape g = (size0 x, size1 x, 1, 1)
         \<and> shape z = shape x
         \<and> (1 \<le> size2 x \<longrightarrow> 1 \<le> size3 x \<longrightarrow>
              (\<forall>n c. elem a n c 0 0
                 = (\<Sum>i<size2 x. \<Sum>j<size3 x. elem x n c i j) / real (size2 x * size3 x))
              \<and> (\<forall>n c h w. 0 \<le> elem g n c h w \<and> elem g n c h w \<le> 1)
              \<and> (\<forall>n c h w. n < size0 x \<longrightarrow> c < size1 x \<longrightarrow> h < size2 x \<longrightarrow> w < size3 x \<longrightarrow>
                    elem z n c h w = elem x n c h w * elem g n c 0 0))))
   \<and> (8 \<le> channel \<longrightarrow> size1 x = nat channel \<longrightarrow> 1 \<le> size2 x \<longrightarrow> 1 \<le> size3 x \<longrightarrow>
        (\<exists>pm' y'. PALayer_init channel ws = Inr pm' \<and> PALayer_forward training pm' x = Inr y'))
   \<and> (8 \<le> channel \<longrightarrow> size1 x = nat channel \<longrightarrow>
        (\<exists>cm' z'. CALayer_init channel ws = Inr cm' \<and> CALayer_forward training cm' x = Inr z'))"
proof (intro conjI impI)
  assume m: "PALayer_init channel ws = Inr pm" and f: "PALayer_forward training pm x = Inr y"
  from m obtain c0 c2 where pm: "pa pm = [Conv2d c0, ReLU, Conv2d c2, Sigmoid]"
    and c0: "in_channels c0 = nat channel" "out_channels c0 = nat (channel div 8)"
      "kernel_size c0 = 1" "padding c0 = 0"
    and c2: "in_channels c2 = nat (channel div 8)" "out_channels c2 = 1"
      "kernel_size c2 = 1" "padding c2 = 0"
    using PALayer_init_pa [OF m] by blast
  from PALayer_forward_InrD(2) [OF m f] obtain g where
    g: "Sequential training (pa pm) x = Inr g" and y: "mul x g = Inr y"
    and G: "size0 g = size0 x" "size1 g = 1" "size2 g = size2 x" "size3 g = size3 x"
    and r: "\<forall>n c h w. 0 \<le> elem g n c h w \<and> elem g n c h w \<le> 1"
    by blast
  have G': "size0 g = size0 x" "size1 g = size1 x \<or> size1 g = 1"
    "size2 g = size2 x \<or> size2 g = 1" "size3 g = size3 x \<or> size3 g = 1"
    using G by auto
  note Y = PALayer_forward_InrD(3-) [OF m f]
  have e: "\<forall>n c h w. n < size0 x \<longrightarrow> c < size1 x \<longrightarrow> h < size2 x \<longrightarrow> w < size3 x \<longrightarrow>
               elem y n c h w = elem x n c h w * elem g n 0 h w"
    using mul_InrD_same(5) [OF y G'] G by simp
  from pm c0 c2 g G r Y e
  show "\<exists>c0 c2 g. pa pm = [Conv2d c0, ReLU, Conv2d c2, Sigmoid]
         \<and> in_channels c0 = nat channel \<and> out_channels c0 = nat (channel div 8)
         \<and> kernel_size c0 = 1 \<and> padding c0 = 0
         \<and> in_channels c2 = nat (channel div 8) \<and> out_channels c2 = 1
         \<and> kernel_size c2 = 1 \<and> padding c2 = 0
         \<and> Sequential training (pa pm) x = Inr g
         \<and> shape g = (size0 x, 1, size2 x, size3 x)
         \<and> (\<forall>n c h w. 0 \<le> elem g n c h w \<and> elem g n c h w \<le> 1)
         \<and> shape y = shape x
         \<and> (\<forall>n c h w. n < size0 x \<longrightarrow> c < size1 x \<longrightarrow> h < size2 x \<longrightarrow> w < size3 x \<longrightarrow>
               elem y n c h w = elem x n c h w * elem g n 0 h w)"
    unfolding shape_def by (intro exI [of _ c0] exI [of _ c2] exI [of _ g]) simp
next
  assume m: "CALayer_init channel ws = Inr cm" and f: "CALayer_forward training cm x = Inr z"
  from m obtain c0 c2 where pm: "ca cm = [Conv2d c0, ReLU, Conv2d c2, Sigmoid]"
    and c0: "in_channels c0 = nat channel" "out_channels c0 = nat (channel div 8)"
      "kernel_size c0 = 1" "padding c0 = 0"
    and c2: "in_channels c2 = nat (channel div 8)" "out_channels c2 = nat channel"
      "kernel_size c2 = 1" "padding c2 = 0"
    using CALayer_init_ca [OF m] by blast
  from CALayer_forward_InrD(2) [OF m f] obtain a g where
    a: "AdaptiveAvgPool2d_1 x = Inr a" and
    g: "Sequential training (ca cm) a = Inr g" and y: "mul x g = Inr z"
    and G: "size0 g = size0 x" "size1 g = size1 x" "size2 g = 1" "size3 g = 1"
    and r: "\<forall>n c h w. 0 \<le> elem g n c h w \<and> elem g n c h w \<le> 1"
    by blast
  have G': "size0 g = size0 x" "size1 g = size1 x \<or> size1 g = 1"
    "size2 g = size2 x \<or> size2 g = 1" "size3 g = size3 x \<or> size3 g = 1"
    using G by auto
  note A = AdaptiveAvgPool2d_1_InrD [OF a]
  have av: "\<forall>n c. elem a n c 0 0
               = (\<Sum>i<size2 x. \<Sum>j<size3 x. elem x n c i j) / real (size2 x * size3 x)"
    using a by (auto simp: AdaptiveAvgPool2d_1_def)
  note Y = CALayer_forward_InrD(3-) [OF m f]
  have e: "\<forall>n c h w. n < size0 x \<longrightarrow> c < size1 x \<longrightarrow> h < size2 x \<longrightarrow> w < size3 x \<longrightarrow>
               elem z n c h w = elem x n c h w * elem g n c 0 0"
    using mul_InrD_same(5) [OF y G'] G by simp
  from pm c0 c2 a A av g G r Y e
  show "\<exists>c0 c2 a g. ca cm = [Conv2d c0, ReLU, Conv2d c2, Sigmoid]
         \<and> in_channels c0 = nat channel \<and> out_channels c0 = nat (channel div 8)
         \<and> kernel_size c0 = 1 \<and> padding c0 = 0
         \<and> in_channels c2 = nat (channel div 8) \<and> out_channels c2 = nat channel
         \<and> kernel_size c2 = 1 \<and> padding c2 = 0
         \<and> AdaptiveAvgPool2d_1 x = Inr a
         \<and> shape a = (size0 x, size1 x, 1, 1)
         \<and> Sequential training (ca cm) a = Inr g
         \<and> shape g = (size0 x, size1 x, 1, 1)
         \<and> shape z = shape x
         \<and> (1 \<le> size2 x \<longrightarrow> 1 \<le> size3 x \<longrightarrow>
              (\<forall>n c. elem a n c 0 0
                 = (\<Sum>i<size2 x. \<Sum>j<size3 x. elem x n c i j) / real (size2 x * size3 x))
              \<and> (\<forall>n c h w. 0 \<le> elem g n c h w \<and> elem g n c h w \<le> 1)
              \<and> (\<forall>n c h w. n < size0 x \<longrightarrow> c < size1 x \<longrightarrow> h < size2 x \<longrightarrow> w < size3 x \<longrightarrow>
                    elem z n c h w = elem x n c h w * elem g n c 0 0))"
    unfolding shape_def by (intro exI [of _ c0] exI [of _ c2] exI [of _ a] exI [of _ g]) simp
next
  assume h: "8 \<le> channel" "size1 x = nat channel" "1 \<le> size2 x" "1 \<le> size3 x"
  then have c: "att_cond channel x" by (simp add: att_cond_def)
  from h obtain pm' where pm': "PALayer_init channel ws = Inr pm'"
    by (simp add: PALayer_init_Inr)
  from PALayer_forward_ok [OF pm' c] pm'
  show "\<exists>pm' y'. PALayer_init channel ws = Inr pm' \<and> PALayer_forward training pm' x = Inr y'"
    by blast
next
  assume h: "8 \<le> channel" "size1 x = nat channel"
  then have c: "ca_cond channel x" by (simp add: ca_cond_def)
  from h obtain cm' where cm': "CALayer_init channel ws = Inr cm'"
    by (simp add: CALayer_init_Inr)
  from CALayer_forward_ok [OF cm' c] cm'
  show "\<exists>cm' z'. CALayer_init channel ws = Inr cm' \<and> CALayer_forward training cm' x = Inr z'"
    by blast
qed

theorem attention_gates_witness:
  "\<exists>pm y cm z. PALayer_init 8 (conv_w0, conv_w0) = Inr pm
     \<and> PALayer_forward True pm (zeros 1 8 2 3) = Inr y
     \<and> CALayer_init 8 (conv_w0, conv_w0) = Inr cm
     \<and> CALayer_forward True cm (zeros 1 8 2 3) = Inr z
     \<and> shape y = (1, 8, 2, 3) \<and> shape z = (1, 8, 2, 3)"
proof -
  note T = attention_gates [where channel = 8 and ws = "(conv_w0, conv_w0)" and training = True
      and x = "zeros 1 8 2 3"]
  have "(\<exists>pm y. PALayer_init 8 (conv_w0, conv_w0) = Inr pm
            \<and> PALayer_forward True pm (zeros 1 8 2 3) = Inr y)
      \<and> (\<exists>cm z. CALayer_init 8 (conv_w0, conv_w0) = Inr cm
            \<and> CALayer_forward True cm (zeros 1 8 2 3) = Inr z)"
    using T [THEN conjunct2, THEN conjunct2, THEN conjunct1]
      T [THEN conjunct2, THEN conjunct2, THEN conjunct2] by simp
  then obtain pm y cm z where pm: "PALayer_init 8 (conv_w0, conv_w0) = Inr pm"
    and y: "PALayer_forward True pm (zeros 1 8 2 3) = Inr y"
    and cm: "CALayer_init 8 (conv_w0, conv_w0) = Inr cm"
    and z: "CALayer_forward True cm (zeros 1 8 2 3) = Inr z"
    by blast
  from T [where pm = pm and y = y and cm = cm and z = z] pm y cm z
  have "shape y = shape (zeros 1 8 2 3)" "shape z = shape (zeros 1 8 2 3)"
    by blast+
  with pm y cm z show ?thesis
    by (auto simp: shape_def)
qed

text \<open>
  \<^verbatim>\<open>PALayer(7)\<close> and \<^verbatim>\<open>CALayer(7)\<close> on \<^verbatim>\<open>torch.zeros(1, 7, 2, 2)\<close>: the hidden
  convolution is \<^verbatim>\<open>nn.Conv2d(7, 0, 1)\<close>, whose weight has size 0 in dimension 0, and
  the forward pass raises instead of returning a tensor of shape (1, 7, 2, 2).
\<close>

theorem attention_7_channels_counterexample:
  "PALayer_call 7 (conv_w0, conv_w0) True (zeros 1 7 2 2) = Inl WeightTooSmall
   \<and> CALayer_call 7 (conv_w0, conv_w0) True (zeros 1 7 2 2) = Inl WeightTooSmall"
  by (simp add: PALayer_call_def PALayer_init_def CALayer_call_def CALayer_init_def
      Conv2d_init_def PALayer_forward_def CALayer_forward_def AdaptiveAvgPool2d_1_def
      Conv2d_forward_def)

subsection \<open>Up\<close>



subsection \<open>IAN and ANSN\<close>

text \<open>
  Claim C4. Constructed with the same arguments and the same weights, \<^verbatim>\<open>IAN\<close> and
  \<^verbatim>\<open>ANSN\<close> have the same layers except for the last one of \<^verbatim>\<open>outc\<close>, which is a
  sigmoid in IAN and the identity in ANSN. On the same input, the output of ANSN is the
  output of the final 3x3 convolution, and the output of IAN is the sigmoid of that same
  tensor, hence bounded by 0 and 1.
\<close>

theorem IAN_ANSN_differ_in_activation:
  "IAN_init i o' nrm ws = Inr a \<longrightarrow> ANSN_init i o' nrm ws (w_outc ws) = Inr b \<longrightarrow>
     inc b = inc a \<and> down1 b = down1 a \<and> down2 b = down2 a \<and> down3 b = down3 a
     \<and> up1 b = up1 a \<and> up2 b = up2 a \<and> up3 b = up3 a
     \<and> (\<exists>cv. oconv (outc a) = [Conv2d cv, Sigmoid] \<and> oconv (outc b) = [Conv2d cv, Identity])
     \<and> BaseNet_forward training a x
         = map_sum id (pointwise sigmoid) (BaseNet_forward training b x)
     \<and> (\<forall>y. BaseNet_forward training b x = Inr y \<longrightarrow>
          (\<forall>n c h w. 0 \<le> elem (pointwise sigmoid y) n c h w
             \<and> elem (pointwise sigmoid y) n c h w \<le> 1))"
proof (intro impI)
  assume a: "IAN_init i o' nrm ws = Inr a" and b: "ANSN_init i o' nrm ws (w_outc ws) = Inr b"
  from a have a': "BaseNet_init i o' nrm ws = Inr a" by (simp add: IAN_init_def)
  from b a' obtain oc where oc: "OutConv_init 32 o' False (w_outc ws) = Inr oc"
    and ba: "b = a\<lparr>outc := oc\<rparr>"
    by (auto simp: ANSN_init_Inr)
  from BaseNet_init_InrD(8) [OF a'] oc obtain cv where
    cv: "oconv (outc a) = [Conv2d cv, Sigmoid]" "oconv oc = [Conv2d cv, Identity]"
    by (auto simp: OutConv_init_Inr)
  have f: "BaseNet_forward training a x
         = map_sum id (pointwise sigmoid) (BaseNet_forward training b x)"
  proof -
    have oc_eq: "OutConv_forward training (outc a)
        = (\<lambda>u. map_sum id (pointwise sigmoid) (OutConv_forward training oc u))"
      by (rule ext) (rule OutConv_forward_act [OF cv])
    show ?thesis
      unfolding BaseNet_forward_def ba by (simp add: map_sum_bind oc_eq)
  qed
  from ba cv f show "inc b = inc a \<and> down1 b = down1 a \<and> down2 b = down2 a \<and> down3 b = down3 a
     \<and> up1 b = up1 a \<and> up2 b = up2 a \<and> up3 b = up3 a
     \<and> (\<exists>cv. oconv (outc a) = [Conv2d cv, Sigmoid] \<and> oconv (outc b) = [Conv2d cv, Identity])
     \<and> BaseNet_forward training a x
         = map_sum id (pointwise sigmoid) (BaseNet_forward training b x)
     \<and> (\<forall>y. BaseNet_forward training b x = Inr y \<longrightarrow>
          (\<forall>n c h w. 0 \<le> elem (pointwise sigmoid y) n c h w
             \<and> elem (pointwise sigmoid y) n c h w \<le> 1))"
    by (simp add: sigmoid_range)
qed

theorem IAN_ANSN_differ_in_activation_witness:
  "\<exists>a b. IAN_init 1 1 True BaseNet_w0 = Inr a
     \<and> ANSN_init 1 1 True BaseNet_w0 (w_outc BaseNet_w0) = Inr b
     \<and> BaseNet_forward True a (zeros 1 1 16 16)
         = map_sum id (pointwise sigmoid) (BaseNet_forward True b (zeros 1 1 16 16))
     \<and> \<not> isl (BaseNet_forward True b (zeros 1 1 16 16))"
proof -
  obtain a where a: "IAN_init 1 1 True BaseNet_w0 = Inr a"
    using BaseNet_init_ok [of 1 1 True BaseNet_w0] by (auto simp: IAN_init_def)
  obtain b where b: "ANSN_init 1 1 True BaseNet_w0 (w_outc BaseNet_w0) = Inr b"
    using ANSN_init_ok [of 1 1 True BaseNet_w0 "w_outc BaseNet_w0"] by auto
  have "base_cond True True 1 1 (zeros 1 1 16 16)"
    by (simp add: base_cond_def)
  from ANSN_forward_ok [OF b this] have "\<not> isl (BaseNet_forward True b (zeros 1 1 16 16))"
    by auto
  with IAN_ANSN_differ_in_activation [where i = 1 and o' = 1 and nrm = True
      and ws = BaseNet_w0 and a = a and b = b and training = True and x = "zeros 1 1 16 16"] a b
  show ?thesis by blast
qed

subsection \<open>OutConv\<close>

text \<open>
  Claim C5. With \<^verbatim>\<open>act=True\<close> every value of the tensor returned by \<^verbatim>\<open>OutConv\<close>
  lies in [0, 1]. With \<^verbatim>\<open>act=False\<close> the module returns the output of its single 3x3
  convolution with padding 1 unchanged, and this output is negative for some weights and
  input. The module returns a tensor with the declared number of output channels for
  every input with the declared number of channels, at least one, and a non-empty spatial
  extent.
\<close>

theorem OutConv_range:
  "(OutConv_init i o' True ws = Inr m \<longrightarrow> OutConv_forward training m x = Inr y \<longrightarrow>
      0 \<le> elem y n c h w \<and> elem y n c h w \<le> 1)
   \<and> (OutConv_init i o' False ws = Inr m' \<longrightarrow>
      (\<exists>cv. Conv2d_init i o' 3 1 ws = Inr cv \<and> kernel_size cv = 3 \<and> padding cv = 1
         \<and> OutConv_forward training m' x = Conv2d_forward cv x))
   \<and> (OutConv_init i o' act ws = Inr m'' \<longrightarrow> oc_cond i o' x \<longrightarrow>
      (\<exists>z. OutConv_forward training m'' x = Inr z \<and> shape z = (size0 x, nat o', size2 x, size3 x)))
   \<and> (\<exists>z. OutConv_call 1 1 False conv_w_neg True (zeros 1 1 1 1) = Inr z \<and> elem z 0 0 0 0 < 0)"
proof (intro conjI impI)
  assume m: "OutConv_init i o' True ws = Inr m" and f: "OutConv_forward training m x = Inr y"
  from OutConv_init_oconv [OF m] obtain cv where cv: "oconv m = [Conv2d cv, Sigmoid]"
    by auto
  from f cv obtain a where "y = pointwise sigmoid a"
    by (auto simp: OutConv_forward_def split: sum.splits)
  then show "0 \<le> elem y n c h w" "elem y n c h w \<le> 1"
    by (simp_all add: sigmoid_range)
next
  assume m: "OutConv_init i o' False ws = Inr m'"
  then obtain cv where cv: "Conv2d_init i o' 3 1 ws = Inr cv" "oconv m' = [Conv2d cv, Identity]"
    by (auto simp: OutConv_init_def bind_eq_Inr)
  from cv(1) have k: "kernel_size cv = 3" "padding cv = 1"
    by (auto simp: Conv2d_init_Inr)
  have "OutConv_forward training m' x = Conv2d_forward cv x"
    using cv(2) by (simp add: OutConv_forward_def split: sum.splits)
  with cv k show "\<exists>cv. Conv2d_init i o' 3 1 ws = Inr cv \<and> kernel_size cv = 3 \<and> padding cv = 1
         \<and> OutConv_forward training m' x = Conv2d_forward cv x"
    by blast
next
  assume m: "OutConv_init i o' act ws = Inr m''" and h: "oc_cond i o' x"
  from OutConv_forward_ok [OF m h] obtain z where z: "OutConv_forward training m'' x = Inr z"
    by blast
  from h have "size1 x \<noteq> 0"
    by (cases "0 < i") (simp_all add: oc_cond_def)
  with OutConv_forward_InrD(2-) [OF m z] z
  show "\<exists>z. OutConv_forward training m'' x = Inr z \<and> shape z = (size0 x, nat o', size2 x, size3 x)"
    by (simp add: shape_def)
next
  show "\<exists>z. OutConv_call 1 1 False conv_w_neg True (zeros 1 1 1 1) = Inr z \<and> elem z 0 0 0 0 < 0"
    by (simp add: OutConv_call_def OutConv_init_def Conv2d_init_def OutConv_forward_def
        Conv2d_forward_def conv_w_neg_def)
qed

theorem OutConv_range_witness:
  "\<exists>m y m' cv. OutConv_init 1 1 True conv_w_neg = Inr m
     \<and> OutConv_forward True m (zeros 1 1 1 1) = Inr y
     \<and> oc_cond 1 1 (zeros 1 1 1 1)
     \<and> shape y = (1, 1, 1, 1) \<and> 0 \<le> elem y 0 0 0 0 \<and> elem y 0 0 0 0 \<le> 1
     \<and> OutConv_init 1 1 False conv_w_neg = Inr m'
     \<and> Conv2d_init 1 1 3 1 conv_w_neg = Inr cv
     \<and> OutConv_forward True m' (zeros 1 1 1 1) = Conv2d_forward cv (zeros 1 1 1 1)"
proof -
  obtain m where m: "OutConv_init 1 1 True conv_w_neg = Inr m"
    using OutConv_init_ok [of 1 1 True conv_w_neg] by auto
  obtain m' where m': "OutConv_init 1 1 False conv_w_neg = Inr m'"
    using OutConv_init_ok [of 1 1 False conv_w_neg] by auto
  have c: "oc_cond 1 1 (zeros 1 1 1 1)"
    by (simp add: oc_cond_def)
  note T = OutConv_range [where i = 1 and o' = 1 and ws = conv_w_neg and m = m and m'' = m
      and m' = m' and act = True and training = True and x = "zeros 1 1 1 1" and n = 0
      and c = 0 and h = 0 and w = 0]
  from T [THEN conjunct2, THEN conjunct2, THEN conjunct1, THEN mp, OF m, THEN mp, OF c]
  obtain y where y: "OutConv_forward True m (zeros 1 1 1 1) = Inr y"
    and s: "shape y = (1, 1, 1, 1)"
    by auto
  from T [where y = y, THEN conjunct1, THEN mp, OF m, THEN mp, OF y]
  have r: "0 \<le> elem y 0 0 0 0 \<and> elem y 0 0 0 0 \<le> 1" .
  from T [THEN conjunct2, THEN conjunct1, THEN mp, OF m'] obtain cv
    where cv: "Conv2d_init 1 1 3 1 conv_w_neg = Inr cv"
      "OutConv_forward True m' (zeros 1 1 1 1) = Conv2d_forward cv (zeros 1 1 1 1)"
    by blast
  from m y c s r m' cv show ?thesis by blast
qed

subsection \<open>The attentive wrappers\<close>

text \<open>
  Claim C6. \<^verbatim>\<open>AttentiveDown.forward\<close>, \<^verbatim>\<open>AttentiveUp.forward\<close> and
  \<^verbatim>\<open>AttentiveDoubleConv.forward\<close> are the forward pass of the wrapped \<^verbatim>\<open>Down\<close>,
  \<^verbatim>\<open>Up\<close> or \<^verbatim>\<open>DoubleConv\<close> followed by the CALayer and then the PALayer. The
  wrapped module is constructed with the arguments of the wrapper, both attention layers
  with its output channels, and the attention changes nothing but the values: the shape
  is kept and every element is multiplied by a channel gate and a pixel gate in [0, 1].
\<close>

theorem attentive_wrappers:
  "AttentiveDown_forward training d x
     = CA_then_PA training (ad_attention d) (Down_forward training (ad_down d) x)
   \<and> AttentiveUp_forward training u x1 x2
     = CA_then_PA training (au_attention u) (Up_forward training (au_up u) x1 x2)
   \<and> AttentiveDoubleConv_forward training dc x
     = CA_then_PA training (adc_attention dc) (DoubleConv_forward training (adc_conv dc) x)
   \<and> (AttentiveDown_init i o' nrm leaky wd = Inr d \<longrightarrow>
        Down_init i o' nrm leaky (fst wd) = Inr (ad_down d)
        \<and> attention_init o' (snd wd) = Inr (ad_attention d))
   \<and> (AttentiveUp_init i o' bilinear nrm leaky wu = Inr u \<longrightarrow>
        Up_init i o' bilinear nrm leaky (fst wu) = Inr (au_up u)
        \<and> attention_init o' (snd wu) = Inr (au_attention u))
   \<and> (AttentiveDoubleConv_init i o' nrm leaky wc = Inr dc \<longrightarrow>
        DoubleConv_init i o' nrm leaky (fst wc) = Inr (adc_conv dc)
        \<and> attention_init o' (snd wc) = Inr (adc_attention dc))
   \<and> (attention_init o' aw = Inr att \<longrightarrow>
        CALayer_init o' (fst aw) = Inr (att0 att) \<and> PALayer_init o' (snd aw) = Inr (att1 att))
   \<and> (attention_init o' aw = Inr att \<longrightarrow> CA_then_PA training att (Inr t) = Inr y \<longrightarrow>
        shape y = shape t
        \<and> (\<exists>(gc::tensor) (gp::tensor). (\<forall>n c h w. 0 \<le> elem gc n c h w \<and> elem gc n c h w \<le> 1
                      \<and> 0 \<le> elem gp n c h w \<and> elem gp n c h w \<le> 1)
              \<and> (\<forall>n c h w. n < size0 t \<longrightarrow> c < size1 t \<longrightarrow> h < size2 t \<longrightarrow> w < size3 t \<longrightarrow>
                    elem y n c h w = elem t n c h w * elem gc n c 0 0 * elem gp n 0 h w)))"
proof (intro conjI impI)
  show "AttentiveDown_forward training d x
     = CA_then_PA training (ad_attention d) (Down_forward training (ad_down d) x)"
    by (simp add: AttentiveDown_forward_def CA_then_PA_def attention_forward_def bind_def)
  show "AttentiveUp_forward training u x1 x2
     = CA_then_PA training (au_attention u) (Up_forward training (au_up u) x1 x2)"
    by (simp add: AttentiveUp_forward_def CA_then_PA_def attention_forward_def bind_def)
  show "AttentiveDoubleConv_forward training dc x
     = CA_then_PA training (adc_attention dc) (DoubleConv_forward training (adc_conv dc) x)"
    by (simp add: AttentiveDoubleConv_forward_def CA_then_PA_def attention_forward_def bind_def)
next
  assume "AttentiveDown_init i o' nrm leaky wd = Inr d"
  then show "Down_init i o' nrm leaky (fst wd) = Inr (ad_down d)"
    "attention_init o' (snd wd) = Inr (ad_attention d)"
    by (auto simp: AttentiveDown_init_Inr)
next
  assume "AttentiveUp_init i o' bilinear nrm leaky wu = Inr u"
  then show "Up_init i o' bilinear nrm leaky (fst wu) = Inr (au_up u)"
    "attention_init o' (snd wu) = Inr (au_attention u)"
    by (auto simp: AttentiveUp_init_Inr)
next
  assume "AttentiveDoubleConv_init i o' nrm leaky wc = Inr dc"
  then show "DoubleConv_init i o' nrm leaky (fst wc) = Inr (adc_conv dc)"
    "attention_init o' (snd wc) = Inr (adc_attention dc)"
    by (auto simp: AttentiveDoubleConv_init_Inr)
next
  assume "attention_init o' aw = Inr att"
  then show "CALayer_init o' (fst aw) = Inr (att0 att)" "PALayer_init o' (snd aw) = Inr (att1 att)"
    by (auto simp: attention_init_Inr)
next
  assume m: "attention_init o' aw = Inr att" and "CA_then_PA training att (Inr t) = Inr y"
  then have f: "attention_forward training att t = Inr y"
    by (simp add: CA_then_PA_def attention_forward_def bind_def)
  from attention_forward_InrD(2-) [OF m f] show "shape y = shape t"
    by (simp add: shape_def)
  from attention_forward_gates [OF m f]
  show "\<exists>(gc::tensor) (gp::tensor). (\<forall>n c h w. 0 \<le> elem gc n c h w \<and> elem gc n c h w \<le> 1
                      \<and> 0 \<le> elem gp n c h w \<and> elem gp n c h w \<le> 1)
              \<and> (\<forall>n c h w. n < size0 t \<longrightarrow> c < size1 t \<longrightarrow> h < size2 t \<longrightarrow> w < size3 t \<longrightarrow>
                    elem y n c h w = elem t n c h w * elem gc n c 0 0 * elem gp n 0 h w)" .
qed

theorem attentive_wrappers_witness:
  "\<exists>d t y. AttentiveDown_init 8 8 False False (dc_w0, att_w0) = Inr d
     \<and> Down_init 8 8 False False dc_w0 = Inr (ad_down d)
     \<and> attention_init 8 att_w0 = Inr (ad_attention d)
     \<and> Down_forward True (ad_down d) (zeros 1 8 2 2) = Inr t
     \<and> AttentiveDown_forward True d (zeros 1 8 2 2) = Inr y
     \<and> CA_then_PA True (ad_attention d) (Inr t) = Inr y
     \<and> shape y = shape t"
proof -
  obtain d where d: "AttentiveDown_init 8 8 False False (dc_w0, att_w0) = Inr d"
    using AttentiveDown_init_ok [of 8 8 False False "(dc_w0, att_w0)"] by auto
  have "down_cond True False 8 8 (zeros 1 8 2 2)"
    by (simp add: down_cond_def)
  from AttentiveDown_forward_ok [OF d this] obtain y
    where y: "AttentiveDown_forward True d (zeros 1 8 2 2) = Inr y" by auto
  note T = attentive_wrappers [where i = 8 and o' = 8 and nrm = False and leaky = False
      and wd = "(dc_w0, att_w0)" and d = d and training = True and x = "zeros 1 8 2 2"
      and aw = att_w0 and att = "ad_attention d"]
  from T have 1: "AttentiveDown_forward True d (zeros 1 8 2 2)
         = CA_then_PA True (ad_attention d) (Down_forward True (ad_down d) (zeros 1 8 2 2))"
    by (rule conjunct1)
  from T [THEN conjunct2, THEN conjunct2, THEN conjunct2, THEN conjunct1] d
  have 2: "Down_init 8 8 False False dc_w0 = Inr (ad_down d)"
    "attention_init 8 att_w0 = Inr (ad_attention d)"
    by simp_all
  from 1 y obtain t where t: "Down_forward True (ad_down d) (zeros 1 8 2 2) = Inr t"
    by (cases "Down_forward True (ad_down d) (zeros 1 8 2 2)") (simp_all add: CA_then_PA_def)
  from 1 y t have 3: "CA_then_PA True (ad_attention d) (Inr t) = Inr y" by simp
  from T [where t = t and y = y, THEN conjunct2, THEN conjunct2, THEN conjunct2, THEN conjunct2,
      THEN conjunct2, THEN conjunct2, THEN conjunct2, THEN mp, OF 2(2), THEN mp, OF 3]
  have 4: "shape y = shape t" by (rule conjunct1)
  from d 2 t y 3 4 show ?thesis by blast
qed

subsection \<open>Spatial sizes that are not multiples of the pooling factor\<close>

text \<open>
  Claim C7, as amended. A spatial size that is not divisible by 8 (by 4 for
  \<^verbatim>\<open>FuseNet\<close>) does not make the forward pass fail: for every H and W of at least 8
  (at least 4), divisible or not, the forward pass returns a tensor with the spatial size
  of the input, under the conditions on channels (the declared number of input channels,
  at least one, and at least one output channel) and batch normalisation of C1, because
  \<^verbatim>\<open>Up\<close> pads the upsampled tensor to the size of the skip tensor. For H or W below 8
  (below 4) the forward pass fails, and no forward pass fails in the concatenation. As
  the claim is written it fails: an input of shape (1, 1, 17, 17) is accepted.
\<close>

theorem forward_fails_only_below_minimum_size:
  "(int (size1 x) = i \<longrightarrow> 1 \<le> i \<longrightarrow> 1 \<le> o' \<longrightarrow> 8 \<le> size2 x \<longrightarrow> 8 \<le> size3 x \<longrightarrow>
      \<not> (nrm \<and> training \<and> size0 x * (size2 x div 8) * (size3 x div 8) = 1) \<longrightarrow>
      (\<exists>y. BaseNet_call i o' nrm ws training x = Inr y
         \<and> size2 y = size2 x \<and> size3 y = size3 x)
      \<and> (\<exists>y. IAN_call i o' nrm ws training x = Inr y
         \<and> size2 y = size2 x \<and> size3 y = size3 x)
      \<and> (\<exists>y. ANSN_call i o' nrm ws ws' training x = Inr y
         \<and> size2 y = size2 x \<and> size3 y = size3 x))
   \<and> (size2 x < 8 \<or> size3 x < 8 \<longrightarrow>
      isl (BaseNet_call i o' nrm ws training x) \<and> isl (IAN_call i o' nrm ws training x)
      \<and> isl (ANSN_call i o' nrm ws ws' training x))
   \<and> BaseNet_call i o' nrm ws training x \<noteq> Inl CatMismatch
   \<and> IAN_call i o' nrm ws training x \<noteq> Inl CatMismatch
   \<and> ANSN_call i o' nrm ws ws' training x \<noteq> Inl CatMismatch
   \<and> (int (size1 x) = i \<longrightarrow> 1 \<le> i \<longrightarrow> 1 \<le> o' \<longrightarrow> 4 \<le> size2 x \<longrightarrow> 4 \<le> size3 x \<longrightarrow>
      \<not> (nrm \<and> training \<and> size0 x * (size2 x div 4) * (size3 x div 4) = 1) \<longrightarrow>
      (\<exists>y. FuseNet_call i o' nrm wsf training x = Inr y
         \<and> size2 y = size2 x \<and> size3 y = size3 x))
   \<and> (size2 x < 4 \<or> size3 x < 4 \<longrightarrow> isl (FuseNet_call i o' nrm wsf training x))
   \<and> FuseNet_call i o' nrm wsf training x \<noteq> Inl CatMismatch"
proof (intro conjI impI)
  assume a: "int (size1 x) = i" "1 \<le> i" "1 \<le> o'" "8 \<le> size2 x" "8 \<le> size3 x"
    "\<not> (nrm \<and> training \<and> size0 x * (size2 x div 8) * (size3 x div 8) = 1)"
  then have h: "0 \<le> i" "1 \<le> o'" "size1 x = nat i" "8 \<le> size2 x" "8 \<le> size3 x"
    "\<not> (nrm \<and> training \<and> size0 x * (size2 x div 8) * (size3 x div 8) = 1)"
    by auto
  with a(2) have c: "base_cond training nrm i o' x"
    by (simp add: base_cond_def)
  from BaseNet_call_ok [OF h(1) c, of ws]
  show b: "\<exists>y. BaseNet_call i o' nrm ws training x = Inr y
         \<and> size2 y = size2 x \<and> size3 y = size3 x"
    by (auto simp: shape_def)
  then show "\<exists>y. IAN_call i o' nrm ws training x = Inr y
         \<and> size2 y = size2 x \<and> size3 y = size3 x"
    by (simp add: IAN_call_eq)
  from ANSN_call_ok [OF h(1) c, of ws ws']
  show "\<exists>y. ANSN_call i o' nrm ws ws' training x = Inr y
         \<and> size2 y = size2 x \<and> size3 y = size3 x"
    by (auto simp: shape_def)
next
  assume h: "size2 x < 8 \<or> size3 x < 8"
  then have n: "\<not> base_cond training nrm i o' x"
    by (auto simp: base_cond_def)
  with BaseNet_call_InrD show b: "isl (BaseNet_call i o' nrm ws training x)"
    unfolding isl_iff_not_Inr by blast
  then show "isl (IAN_call i o' nrm ws training x)"
    by (simp add: IAN_call_eq)
  from n ANSN_call_InrD show "isl (ANSN_call i o' nrm ws ws' training x)"
    unfolding isl_iff_not_Inr by blast
next
  show "BaseNet_call i o' nrm ws training x \<noteq> Inl CatMismatch"
    by (rule BaseNet_call_not_Cat)
  then show "IAN_call i o' nrm ws training x \<noteq> Inl CatMismatch"
    by (simp add: IAN_call_eq)
  show "ANSN_call i o' nrm ws ws' training x \<noteq> Inl CatMismatch"
    by (rule ANSN_call_not_Cat)
next
  assume a: "int (size1 x) = i" "1 \<le> i" "1 \<le> o'" "4 \<le> size2 x" "4 \<le> size3 x"
    "\<not> (nrm \<and> training \<and> size0 x * (size2 x div 4) * (size3 x div 4) = 1)"
  then have h: "0 \<le> i" "1 \<le> o'" "size1 x = nat i" "4 \<le> size2 x" "4 \<le> size3 x"
    "\<not> (nrm \<and> training \<and> size0 x * (size2 x div 4) * (size3 x div 4) = 1)"
    by auto
  with a(2) have c: "fuse_cond training nrm i o' x"
    by (simp add: fuse_cond_def)
  from FuseNet_call_ok [OF h(1) c, of wsf]
  show "\<exists>y. FuseNet_call i o' nrm wsf training x = Inr y
         \<and> size2 y = size2 x \<and> size3 y = size3 x"
    by (auto simp: shape_def)
next
  assume h: "size2 x < 4 \<or> size3 x < 4"
  then have n: "\<not> fuse_cond training nrm i o' x"
    by (auto simp: fuse_cond_def)
  with FuseNet_call_InrD show "isl (FuseNet_call i o' nrm wsf training x)"
    unfolding isl_iff_not_Inr by blast
next
  show "FuseNet_call i o' nrm wsf training x \<noteq> Inl CatMismatch"
    by (rule FuseNet_call_not_Cat)
qed

theorem forward_fails_only_below_minimum_size_witness:
  "(\<exists>y. IAN_call 1 1 True BaseNet_w0 True (zeros 1 1 17 19) = Inr y
      \<and> size2 y = 17 \<and> size3 y = 19)
   \<and> isl (IAN_call 1 1 True BaseNet_w0 True (zeros 1 1 7 16))
   \<and> (\<exists>y. FuseNet_call 1 1 False FuseNet_w0 True (zeros 1 1 5 6) = Inr y
      \<and> size2 y = 5 \<and> size3 y = 6)
   \<and> isl (FuseNet_call 1 1 False FuseNet_w0 True (zeros 1 1 3 8))"
  using forward_fails_only_below_minimum_size [where i = 1 and o' = 1 and nrm = True
      and training = True and ws = BaseNet_w0 and x = "zeros 1 1 17 19", THEN conjunct1]
    forward_fails_only_below_minimum_size [where i = 1 and o' = 1 and nrm = True
      and training = True and ws = BaseNet_w0 and x = "zeros 1 1 7 16",
      THEN conjunct2, THEN conjunct1]
    forward_fails_only_below_minimum_size [where i = 1 and o' = 1 and nrm = False
      and training = True and wsf = FuseNet_w0 and x = "zeros 1 1 5 6",
      THEN conjunct2, THEN conjunct2, THEN conjunct2, THEN conjunct2, THEN conjunct2,
      THEN conjunct1]
    forward_fails_only_below_minimum_size [where i = 1 and o' = 1 and nrm = False
      and training = True and wsf = FuseNet_w0 and x = "zeros 1 1 3 8",
      THEN conjunct2, THEN conjunct2, THEN conjunct2, THEN conjunct2, THEN conjunct2,
      THEN conjunct2, THEN conjunct1]
  by simp

text \<open>
  The default \<^verbatim>\<open>IAN()\<close> on \<^verbatim>\<open>torch.zeros(1, 1, 17, 17)\<close>: the spatial sizes along the
  encoder are 17, 8, 4 and 2, and the last \<^verbatim>\<open>Up\<close> pads its upsampled tensor from 16 to 17.
\<close>

theorem IAN_17x17_counterexample:
  "map_sum id shape (IAN_call 1 1 True BaseNet_w0 True (zeros 1 1 17 17)) = Inr (1, 1, 17, 17)"
proof -
  have "base_cond True True 1 1 (zeros 1 1 17 17)"
    by (simp add: base_cond_def)
  from BaseNet_call_ok [OF _ this, of BaseNet_w0] show ?thesis
    by (auto simp: IAN_call_eq)
qed

subsection \<open>Channel count of the attention layers\<close>

text \<open>
  Claim C9. The hidden layer of the gate of \<^verbatim>\<open>PALayer\<close> and \<^verbatim>\<open>CALayer\<close> has
  \<^verbatim>\<open>channel // 8\<close> channels. For every channel argument below 8, a module that is
  constructed declares its hidden 1x1 convolution with zero output channels and its
  forward pass fails on every input (for a negative argument the constructor itself
  fails); for a channel argument of at least 8 the forward pass returns for every input
  with that many channels and a non-empty spatial extent.
\<close>

theorem attention_needs_8_channels:
  "(channel < 8 \<longrightarrow> PALayer_init channel ws = Inr pm \<longrightarrow>
      (\<exists>c0 ls. pa pm = Conv2d c0 # ls \<and> out_channels c0 = 0)
      \<and> PALayer_forward training pm x = Inl WeightTooSmall)
   \<and> (channel < 8 \<longrightarrow> CALayer_init channel ws = Inr cm \<longrightarrow>
      (\<exists>c0 ls. ca cm = Conv2d c0 # ls \<and> out_channels c0 = 0)
      \<and> isl (CALayer_forward training cm x))
   \<and> (channel < 8 \<longrightarrow>
        isl (PALayer_call channel ws training x) \<and> isl (CALayer_call channel ws training x))
   \<and> (8 \<le> channel \<longrightarrow> size1 x = nat channel \<longrightarrow> 1 \<le> size2 x \<longrightarrow> 1 \<le> size3 x \<longrightarrow>
        \<not> isl (PALayer_call channel ws training x) \<and> \<not> isl (CALayer_call channel ws training x))"
proof -
  have P: "(\<exists>c0 ls. pa pm = Conv2d c0 # ls \<and> out_channels c0 = 0)
      \<and> PALayer_forward training pm x = Inl WeightTooSmall"
    if "channel < 8" "PALayer_init channel ws = Inr pm" for pm
    using that
    by (auto simp: PALayer_init_Inr PALayer_forward_def Conv2d_forward_def)
  have C: "(\<exists>c0 ls. ca cm = Conv2d c0 # ls \<and> out_channels c0 = 0)
      \<and> isl (CALayer_forward training cm x)"
    if "channel < 8" "CALayer_init channel ws = Inr cm" for cm
  proof -
    from that have c: "ca cm = [Conv2d \<lparr>in_channels = nat channel, out_channels = nat (channel div 8),
                   kernel_size = 1, padding = 0, weight = fst (fst ws), bias = snd (fst ws)\<rparr>,
                ReLU,
                Conv2d \<lparr>in_channels = nat (channel div 8), out_channels = nat channel,
                   kernel_size = 1, padding = 0, weight = fst (snd ws), bias = snd (snd ws)\<rparr>,
                Sigmoid]" and n: "nat (channel div 8) = 0"
      by (auto simp: CALayer_init_Inr)
    have "isl (CALayer_forward training cm x)"
      by (simp add: CALayer_forward_def AdaptiveAvgPool2d_1_def c n Conv2d_forward_def)
    with c n show ?thesis by simp
  qed
  have L: "isl (PALayer_call channel ws training x) \<and> isl (CALayer_call channel ws training x)"
    if "channel < 8"
  proof
    show "isl (PALayer_call channel ws training x)"
      using P [OF that] by (cases "PALayer_init channel ws") (auto simp: PALayer_call_def)
    show "isl (CALayer_call channel ws training x)"
      using C [OF that] by (cases "CALayer_init channel ws") (auto simp: CALayer_call_def)
  qed
  have G: "\<not> isl (PALayer_call channel ws training x) \<and> \<not> isl (CALayer_call channel ws training x)"
    if h: "8 \<le> channel" "size1 x = nat channel" "1 \<le> size2 x" "1 \<le> size3 x"
  proof -
    from h have c: "att_cond channel x" by (simp add: att_cond_def)
    from h have c': "ca_cond channel x" by (simp add: ca_cond_def)
    from h obtain pm' where pm': "PALayer_init channel ws = Inr pm'"
      by (simp add: PALayer_init_Inr)
    from h obtain cm' where cm': "CALayer_init channel ws = Inr cm'"
      by (simp add: CALayer_init_Inr)
    from PALayer_forward_ok [OF pm' c, of training] CALayer_forward_ok [OF cm' c', of training]
    show ?thesis
      by (auto simp: PALayer_call_def CALayer_call_def pm' cm')
  qed
  from P C L G show ?thesis by blast
qed

theorem attention_needs_8_channels_witness:
  "(\<exists>pm. PALayer_init 7 (conv_w0, conv_w0) = Inr pm
       \<and> PALayer_forward True pm (zeros 1 7 2 2) = Inl WeightTooSmall)
   \<and> (\<exists>cm. CALayer_init 7 (conv_w0, conv_w0) = Inr cm
       \<and> isl (CALayer_forward True cm (zeros 1 7 2 2)))
   \<and> isl (PALayer_call 7 (conv_w0, conv_w0) True (zeros 1 7 2 2))
   \<and> isl (CALayer_call 7 (conv_w0, conv_w0) True (zeros 1 7 2 2))
   \<and> \<not> isl (PALayer_call 8 (conv_w0, conv_w0) True (zeros 1 8 2 2))
   \<and> \<not> isl (CALayer_call 8 (conv_w0, conv_w0) True (zeros 1 8 2 2))"
proof -
  obtain pm where pm: "PALayer_init 7 (conv_w0, conv_w0) = Inr pm"
    by (simp add: PALayer_init_Inr)
  obtain cm where cm: "CALayer_init 7 (conv_w0, conv_w0) = Inr cm"
    by (simp add: CALayer_init_Inr)
  note T = attention_needs_8_channels [where channel = 7 and ws = "(conv_w0, conv_w0)"
      and training = True and x = "zeros 1 7 2 2" and pm = pm and cm = cm]
  from T [THEN conjunct1] pm
  have 1: "PALayer_forward True pm (zeros 1 7 2 2) = Inl WeightTooSmall" by simp
  from T [THEN conjunct2, THEN conjunct1] cm
  have 2: "isl (CALayer_forward True cm (zeros 1 7 2 2))" by simp
  from T [THEN conjunct2, THEN conjunct2, THEN conjunct1]
  have 3: "isl (PALayer_call 7 (conv_w0, conv_w0) True (zeros 1 7 2 2))"
    "isl (CALayer_call 7 (conv_w0, conv_w0) True (zeros 1 7 2 2))"
    by simp_all
  from attention_needs_8_channels [where channel = 8 and ws = "(conv_w0, conv_w0)"
      and training = True and x = "zeros 1 8 2 2", THEN conjunct2, THEN conjunct2, THEN conjunct2]
  have 4: "\<not> isl (PALayer_call 8 (conv_w0, conv_w0) True (zeros 1 8 2 2))"
    "\<not> isl (CALayer_call 8 (conv_w0, conv_w0) True (zeros 1 8 2 2))"
    by simp_all
  from pm cm 1 2 3 4 show ?thesis by blast
qed

subsection \<open>Channel contract of Up\<close>

text \<open>
  Claim C10, as amended. With \<^verbatim>\<open>bilinear=False\<close> the transposed convolution of
  \<^verbatim>\<open>Up\<close> maps \<^verbatim>\<open>in_channels\<close> channels to \<^verbatim>\<open>in_channels // 2\<close>, while the
  \<^verbatim>\<open>DoubleConv\<close> declares \<^verbatim>\<open>in_channels\<close> input channels. So the forward pass
  returns only if x2 has exactly \<^verbatim>\<open>in_channels - in_channels // 2\<close> channels, and,
  when \<^verbatim>\<open>in_channels\<close> is at least 2, for every other channel count of x2 (x1 being
  accepted by the transposed convolution, with the batch size of x2, and the spatial
  extent of x2 not empty) it fails in the
  \<^verbatim>\<open>DoubleConv\<close>, with a channel mismatch when the \<^verbatim>\<open>DoubleConv\<close> has an output
  channel. With \<^verbatim>\<open>bilinear=True\<close> the upsampling keeps the channels of x1, and the
  forward pass returns only if the channels of x2 and x1 add up to \<^verbatim>\<open>in_channels\<close>.
  As the claim is written (every \<^verbatim>\<open>in_channels\<close>) it fails: with
  \<^verbatim>\<open>in_channels = 1\<close> the transposed convolution has no output channel and the
  forward pass fails there, before the \<^verbatim>\<open>DoubleConv\<close>, whatever the channels of x2.
\<close>

theorem Up_channel_contract:
  "(Up_init i o' False nrm leaky ws = Inr m \<longrightarrow>
      (\<exists>ct c0 ls. up m = ConvTranspose2d ct
         \<and> ct_in_channels ct = nat i \<and> ct_out_channels ct = nat (i div 2)
         \<and> conv (up_conv m) = Conv2d c0 # ls \<and> in_channels c0 = nat i))
   \<and> (Up_init i o' False nrm leaky ws = Inr m \<longrightarrow> Up_forward training m x1 x2 = Inr y \<longrightarrow>
        size1 x1 = nat i \<and> int (size1 x2) = i - i div 2)
   \<and> (Up_init i o' False nrm leaky ws = Inr m \<longrightarrow> 2 \<le> i \<longrightarrow> size1 x1 = nat i \<longrightarrow>
        1 \<le> size2 x1 \<longrightarrow> 1 \<le> size3 x1 \<longrightarrow> size0 x1 = size0 x2 \<longrightarrow>
        1 \<le> size2 x2 \<longrightarrow> 1 \<le> size3 x2 \<longrightarrow> int (size1 x2) \<noteq> i - i div 2 \<longrightarrow>
        (\<exists>c. Up_forward training m x1 x2 = DoubleConv_forward training (up_conv m) c
           \<and> size1 c = size1 x2 + nat (i div 2)
           \<and> isl (DoubleConv_forward training (up_conv m) c)
           \<and> (1 \<le> o' \<longrightarrow> DoubleConv_forward training (up_conv m) c
                 = Inl (ChannelMismatch (nat i) (size1 c)))))
   \<and> (Up_init i o' True nrm leaky ws = Inr m' \<longrightarrow> up_forward (up m') x1 = Inr u \<longrightarrow>
        size1 u = size1 x1)
   \<and> (Up_init i o' True nrm leaky ws = Inr m' \<longrightarrow> Up_forward training m' x1 x2 = Inr y' \<longrightarrow>
        size1 x2 + size1 x1 = nat i)"
proof (intro conjI impI)
  assume m: "Up_init i o' False nrm leaky ws = Inr m"
  then show "\<exists>ct c0 ls. up m = ConvTranspose2d ct
         \<and> ct_in_channels ct = nat i \<and> ct_out_channels ct = nat (i div 2)
         \<and> conv (up_conv m) = Conv2d c0 # ls \<and> in_channels c0 = nat i"
    by (auto simp: Up_init_Inr DoubleConv_init_Inr Conv2d_init_Inr)
next
  assume m: "Up_init i o' False nrm leaky ws = Inr m"
    and f: "Up_forward training m x1 x2 = Inr y"
  from Up_forward_InrD(1) [OF m f] have c: "up_cond training False nrm i o' x1 x2" .
  from m have "0 \<le> i" by (auto simp: Up_init_Inr DoubleConv_init_Inr Conv2d_init_Inr)
  with c show "size1 x1 = nat i" "int (size1 x2) = i - i div 2"
    by (auto simp: up_cond_def up_channels_def)
next
  assume m: "Up_init i o' False nrm leaky ws = Inr m"
    and h: "2 \<le> i" "size1 x1 = nat i" "1 \<le> size2 x1" "1 \<le> size3 x1"
      "size0 x1 = size0 x2" "1 \<le> size2 x2" "1 \<le> size3 x2" "int (size1 x2) \<noteq> i - i div 2"
  have "\<exists>u. up_forward (up m) x1 = Inr u"
    by (rule up_forward_ok [OF m]) (use h in auto)
  then obtain u where u: "up_forward (up m) x1 = Inr u" ..
  note U = up_forward_InrD(5,6) [OF m u]
  from U h have n: "size0 u = size0 x2" by simp
  from Up_forward_unfold [OF u n, of training] obtain c where
    c: "Up_forward training m x1 x2 = DoubleConv_forward training (up_conv m) c"
    and C: "size1 c = size1 x2 + size1 u"
    by blast
  from C U have s: "size1 c = size1 x2 + nat (i div 2)" by (simp add: up_channels_def)
  with h have "size1 c \<noteq> nat i" by linarith
  from DoubleConv_forward_wrong_channels [OF Up_init_conv [OF m] this, of training] c s
  show "\<exists>c. Up_forward training m x1 x2 = DoubleConv_forward training (up_conv m) c
           \<and> size1 c = size1 x2 + nat (i div 2)
           \<and> isl (DoubleConv_forward training (up_conv m) c)
           \<and> (1 \<le> o' \<longrightarrow> DoubleConv_forward training (up_conv m) c
                 = Inl (ChannelMismatch (nat i) (size1 c)))"
    by blast
next
  assume m: "Up_init i o' True nrm leaky ws = Inr m'"
    and u: "up_forward (up m') x1 = Inr u"
  from up_forward_InrD(6) [OF m u] show "size1 u = size1 x1"
    by (simp add: up_channels_def)
next
  assume m: "Up_init i o' True nrm leaky ws = Inr m'"
    and f: "Up_forward training m' x1 x2 = Inr y'"
  from Up_forward_InrD(1) [OF m f] show "size1 x2 + size1 x1 = nat i"
    by (simp add: up_cond_def up_channels_def)
qed

theorem Up_channel_contract_witness:
  "\<exists>m y m' y'. Up_init 4 1 False False True (conv_w0, dc_w0) = Inr m
     \<and> Up_forward True m (zeros 1 4 1 1) (zeros 1 2 2 2) = Inr y
     \<and> size1 (zeros 1 4 1 1) = nat 4 \<and> int (size1 (zeros 1 2 2 2)) = 4 - 4 div 2
     \<and> Up_forward True m (zeros 1 4 1 1) (zeros 1 3 2 2) = Inl (ChannelMismatch 4 5)
     \<and> Up_init 4 1 True False True (conv_w0, dc_w0) = Inr m'
     \<and> Up_forward True m' (zeros 1 1 1 1) (zeros 1 3 2 2) = Inr y'
     \<and> size1 (zeros 1 3 2 2) + size1 (zeros 1 1 1 1) = nat 4"
proof -
  obtain m where m: "Up_init 4 1 False False True (conv_w0, dc_w0) = Inr m"
    using Up_init_ok [of 4 1 False False True "(conv_w0, dc_w0)"] by auto
  have "up_cond True False False 4 1 (zeros 1 4 1 1) (zeros 1 2 2 2)"
    by (simp add: up_cond_def up_channels_def)
  from Up_forward_ok [OF m this] obtain y
    where y: "Up_forward True m (zeros 1 4 1 1) (zeros 1 2 2 2) = Inr y" by blast
  from Up_channel_contract [where i = 4 and o' = 1 and nrm = False and leaky = True
      and ws = "(conv_w0, dc_w0)" and m = m and training = True and ?x1.0 = "zeros 1 4 1 1"
      and ?x2.0 = "zeros 1 2 2 2" and y = y, THEN conjunct2, THEN conjunct1, THEN mp, OF m,
      THEN mp, OF y]
  have a: "size1 (zeros 1 4 1 1) = nat 4 \<and> int (size1 (zeros 1 2 2 2)) = 4 - 4 div 2" .
  from Up_channel_contract [where i = 4 and o' = 1 and nrm = False and leaky = True
      and ws = "(conv_w0, dc_w0)" and m = m and training = True and ?x1.0 = "zeros 1 4 1 1"
      and ?x2.0 = "zeros 1 3 2 2", THEN conjunct2, THEN conjunct2, THEN conjunct1] m
  obtain c where "Up_forward True m (zeros 1 4 1 1) (zeros 1 3 2 2)
        = DoubleConv_forward True (up_conv m) c" "size1 c = size1 (zeros 1 3 2 2) + nat (4 div 2)"
    "(1::int) \<le> 1 \<longrightarrow> DoubleConv_forward True (up_conv m) c = Inl (ChannelMismatch (nat 4) (size1 c))"
    by auto
  then have b: "Up_forward True m (zeros 1 4 1 1) (zeros 1 3 2 2) = Inl (ChannelMismatch 4 5)"
    by simp
  obtain m' where m': "Up_init 4 1 True False True (conv_w0, dc_w0) = Inr m'"
    using Up_init_ok [of 4 1 True False True "(conv_w0, dc_w0)"] by auto
  have "up_cond True True False 4 1 (zeros 1 1 1 1) (zeros 1 3 2 2)"
    by (simp add: up_cond_def up_channels_def)
  from Up_forward_ok [OF m' this] obtain y'
    where y': "Up_forward True m' (zeros 1 1 1 1) (zeros 1 3 2 2) = Inr y'" by blast
  from Up_channel_contract [where i = 4 and o' = 1 and nrm = False and leaky = True
      and ws = "(conv_w0, dc_w0)" and m' = m' and training = True and ?x1.0 = "zeros 1 1 1 1"
      and ?x2.0 = "zeros 1 3 2 2" and y' = y', THEN conjunct2, THEN conjunct2, THEN conjunct2,
      THEN conjunct2, THEN mp, OF m', THEN mp, OF y']
  have d: "size1 (zeros 1 3 2 2) + size1 (zeros 1 1 1 1) = nat 4" .
  from m y a b m' y' d show ?thesis by blast
qed

text \<open>
  \<^verbatim>\<open>Up(1, 1, bilinear=False, norm=False)\<close> on x1 of shape (1, 1, 1, 1) and x2 of shape
  (1, 2, 2, 2): x2 has 2 channels and not \<^verbatim>\<open>1 - 1 // 2 = 1\<close>, yet the forward pass does
  not reach the \<^verbatim>\<open>DoubleConv\<close>. \<^verbatim>\<open>self.up\<close> is \<^verbatim>\<open>nn.ConvTranspose2d(1, 0, 2, stride=2)\<close>,
  whose weight is empty, and the failure is the one that only the transposed convolution
  raises.
\<close>

theorem Up_1_channel_counterexample:
  "Up_call 1 1 False False True (conv_w0, dc_w0) True (zeros 1 1 1 1) (zeros 1 2 2 2)
     = Inl EmptyWeight"
  by (simp add: Up_call_def Up_init_def ConvTranspose2d_init_def DoubleConv_init_def
      Conv2d_init_def norm_layer_def Up_forward_def ConvTranspose2d_forward_def zeros_def)

end
